theory Spec2Isabelle
  imports Main "HOL-Library.AList"
begin

datatype pyval = PNone | PBool bool | PInt int | PStr string | PList "pyval list" | PTuple "pyval list"
  | PFun nat | PRemote nat | PCache nat | PRegistry nat | PObj nat

datatype exn =
    AttributeError string
  | ValueError string
  | TypeError string
  | AssertionError string
  | KeyError string
  | DuctServerUnreachable string
  | DuctProtocolUnknown string
  | RecursionError
  | OtherError string

fun is_AttributeError :: "exn \<Rightarrow> bool" where
  "is_AttributeError (AttributeError m) = True"
| "is_AttributeError e = False"

text \<open>The value of \<^verbatim>\<open>connection_fields\<close> and of \<^verbatim>\<open>prepared_fields\<close>: a tuple or a list, as the
  class documents them (\<^verbatim>\<open>tuple<str>, list<str>\<close>).\<close>

datatype pyseq = SeqTuple "pyval list" | SeqList "pyval list"

fun items :: "pyseq \<Rightarrow> pyval list" where
  "items (SeqTuple xs) = xs"
| "items (SeqList xs) = xs"

fun seq_val :: "pyseq \<Rightarrow> pyval" where
  "seq_val (SeqTuple xs) = PTuple xs"
| "seq_val (SeqList xs) = PList xs"

fun seq_of :: "pyval \<Rightarrow> pyseq option" where
  "seq_of (PTuple xs) = Some (SeqTuple xs)"
| "seq_of (PList xs) = Some (SeqList xs)"
| "seq_of v = None"

definition sq :: "string \<Rightarrow> string" where
  "sq s = [CHR 0x27] @ s @ [CHR 0x27]"

definition bq :: "string \<Rightarrow> string" where
  "bq s = [CHR 0x60] @ s @ [CHR 0x60]"

definition dq :: "string \<Rightarrow> string" where
  "dq s = [CHR 0x22] @ s @ [CHR 0x22]"

section \<open>Builtins of Python that the module uses\<close>

text \<open>Truth value testing (\<^verbatim>\<open>if x:\<close>, \<^verbatim>\<open>x and y\<close>, \<^verbatim>\<open>not x\<close>). Instances of the
  collaborator classes define neither \<^verbatim>\<open>__bool__\<close> nor \<^verbatim>\<open>__len__\<close> and are true.\<close>

fun truthy :: "pyval \<Rightarrow> bool" where
  "truthy PNone = False"
| "truthy (PBool b) = b"
| "truthy (PInt n) = (n \<noteq> 0)"
| "truthy (PStr s) = (s \<noteq> [])"
| "truthy (PList xs) = (xs \<noteq> [])"
| "truthy (PTuple xs) = (xs \<noteq> [])"
| "truthy v = True"

fun is_str :: "pyval \<Rightarrow> bool" where
  \<comment> \<open>\<^verbatim>\<open>isinstance(v, six.string_types)\<close>\<close>
  "is_str (PStr s) = True"
| "is_str v = False"

fun is_callable :: "pyval \<Rightarrow> bool" where
  \<comment> \<open>\<^verbatim>\<open>hasattr(v, '__call__')\<close>\<close>
  "is_callable (PFun f) = True"
| "is_callable v = False"

fun is_list_or_tuple :: "pyval \<Rightarrow> bool" where
  \<comment> \<open>\<^verbatim>\<open>isinstance(v, (list, tuple))\<close>\<close>
  "is_list_or_tuple (PList xs) = True"
| "is_list_or_tuple (PTuple xs) = True"
| "is_list_or_tuple v = False"

fun is_DuctRegistry :: "pyval \<Rightarrow> bool" where
  "is_DuctRegistry (PRegistry r) = True"
| "is_DuctRegistry v = False"

fun is_RemoteClient :: "pyval \<Rightarrow> bool" where
  "is_RemoteClient (PRemote r) = True"
| "is_RemoteClient v = False"

fun is_Cache :: "pyval \<Rightarrow> bool" where
  "is_Cache (PCache c) = True"
| "is_Cache v = False"

definition digit_char :: "nat \<Rightarrow> char" where
  "digit_char d = ''0123456789'' ! (d mod 10)"

fun show_nat :: "nat \<Rightarrow> string" where
  "show_nat n = (if n < 10 then [digit_char n] else show_nat (n div 10) @ [digit_char n])"

declare show_nat.simps [simp del]

definition show_int :: "int \<Rightarrow> string" where
  "show_int i = (if i < 0 then CHR ''-'' # show_nat (nat (- i)) else show_nat (nat i))"

text \<open>\<^verbatim>\<open>'{}'.format(v)\<close>: the text of a value. Only \<^verbatim>\<open>None\<close>, booleans, integers and strings are
  rendered as Python does; the text of any other object stands for its \<^verbatim>\<open>repr\<close>.\<close>

fun py_str :: "pyval \<Rightarrow> string" where
  "py_str PNone = ''None''"
| "py_str (PBool b) = (if b then ''True'' else ''False'')"
| "py_str (PInt i) = show_int i"
| "py_str (PStr s) = s"
| "py_str v = ''<object>''"

text \<open>A string is a list of characters with code points below 256, so the text of a
  \<^verbatim>\<open>str\<close> of Latin-1 characters. Of these, \<^verbatim>\<open>int\<close> reads the digits \<^verbatim>\<open>0\<close> to \<^verbatim>\<open>9\<close> as decimal
  digits and strips the twelve for which \<^verbatim>\<open>str.isspace\<close> holds.\<close>

definition is_digit :: "char \<Rightarrow> bool" where
  "is_digit c = (c \<in> set ''0123456789'')"

definition is_space :: "char \<Rightarrow> bool" where
  "is_space c = (c \<in> set [CHR '' '', CHR 0x09, CHR 0x0A, CHR 0x0B, CHR 0x0C, CHR 0x0D,
                           CHR 0x1C, CHR 0x1D, CHR 0x1E, CHR 0x1F, CHR 0x85, CHR 0xA0])"

definition strip :: "string \<Rightarrow> string" where
  "strip s = rev (dropWhile is_space (rev (dropWhile is_space s)))"

definition digit_val :: "char \<Rightarrow> nat" where
  "digit_val c = of_char c - 48"

fun digits_ok :: "string \<Rightarrow> bool" where
  \<comment> \<open>decimal digits, single underscores allowed between two digits\<close>
  "digits_ok [] = False"
| "digits_ok [c] = is_digit c"
| "digits_ok (c # d # cs) =
     (is_digit c \<and> (if d = CHR ''_'' then digits_ok cs else digits_ok (d # cs)))"

definition digits_value :: "string \<Rightarrow> nat" where
  "digits_value s = foldl (\<lambda>acc c. 10 * acc + digit_val c) 0 (filter (\<lambda>c. c \<noteq> CHR ''_'') s)"

definition int_of_str :: "string \<Rightarrow> int option" where
  \<comment> \<open>\<^verbatim>\<open>int(s)\<close> for a string in base 10\<close>
  "int_of_str s =
     (let t = strip s;
          neg = (t \<noteq> [] \<and> hd t = CHR ''-'');
          body = (if t \<noteq> [] \<and> (hd t = CHR ''-'' \<or> hd t = CHR ''+'') then tl t else t)
      in if digits_ok body
         then Some (if neg then - int (digits_value body) else int (digits_value body))
         else None)"

fun py_int :: "pyval \<Rightarrow> exn + int" where
  \<comment> \<open>\<^verbatim>\<open>int(v)\<close>\<close>
  "py_int (PInt i) = Inr i"
| "py_int (PBool b) = Inr (if b then 1 else 0)"
| "py_int (PStr s) =
     (case int_of_str s of
        Some i \<Rightarrow> Inr i
      | None \<Rightarrow> Inl (ValueError (''invalid literal for int() with base 10: '' @ sq s)))"
| "py_int v = Inl (TypeError ''int() argument must be a string, a bytes-like object or a number'')"

text \<open>\<^verbatim>\<open>re.match(r'[^\:]+:[0-9]{1,5}', s)\<close>: a match at the start of \<open>s\<close>, so one or more
  characters other than a colon, a colon and at least one digit.\<close>

definition host_has_port :: "string \<Rightarrow> bool" where
  "host_has_port s =
     (takeWhile (\<lambda>c. c \<noteq> CHR '':'') s \<noteq> [] \<and>
      (case dropWhile (\<lambda>c. c \<noteq> CHR '':'') s of
         c # d # cs \<Rightarrow> is_digit d
       | _ \<Rightarrow> False))"

fun split_on :: "char \<Rightarrow> string \<Rightarrow> string list" where
  \<comment> \<open>\<^verbatim>\<open>s.split(c)\<close>\<close>
  "split_on c [] = [[]]"
| "split_on c (x # xs) =
     (if x = c then [] # split_on c xs
      else (case split_on c xs of p # ps \<Rightarrow> (x # p) # ps | [] \<Rightarrow> [[x]]))"


section \<open>The instance, the outside world and the protocol hooks\<close>

text \<open>
  The attributes of a \<^verbatim>\<open>Duct\<close> instance after \<^verbatim>\<open>__init__\<close>. The fields \<open>u_host\<close>, \<open>u_port\<close>,
  \<open>u_username\<close> and \<open>u_password\<close> are the attributes \<^verbatim>\<open>_host\<close>, \<^verbatim>\<open>_port\<close>, \<^verbatim>\<open>_username\<close> and
  \<^verbatim>\<open>_password\<close> behind the four properties; \<open>extra\<close> holds any attribute a subclass adds;
  \<open>prepared\<close>, \<open>getting\<close>, \<open>disconnecting\<close>, \<open>cached_auth\<close> and \<open>prepreparation_values\<close> are
  the private attributes \<^verbatim>\<open>_Duct__prepared\<close>, \<^verbatim>\<open>_Duct__getting\<close>, \<^verbatim>\<open>_Duct__disconnecting\<close>,
  \<^verbatim>\<open>_Duct__cached_auth\<close> and \<^verbatim>\<open>_Duct__prepreparation_values\<close> (a dictionary, kept in
  insertion order).
\<close>

record inst =
  protocol :: pyval
  name :: pyval
  registry :: pyval
  remote :: pyval
  cache :: pyval
  u_host :: pyval
  u_port :: pyval
  u_username :: pyval
  u_password :: pyval
  extra :: "string \<rightharpoonup> pyval"
  connection_fields :: pyseq
  prepared_fields :: pyseq
  prepared :: bool
  getting :: bool
  disconnecting :: bool
  cached_auth :: "string \<rightharpoonup> string"
  prepreparation_values :: "(string \<times> pyval) list"

text \<open>What happens outside the instance and can be observed: the records of the logger,
  the prompts shown to the user, and the calls of the three protocol hooks.\<close>

datatype event =
    Info string
  | Warn string
  | Prompt string
  | PromptMasked string
  | CallConnect
  | CallIsConnected
  | CallDisconnect

text \<open>The state of a run: the instance, the world outside it (the connection a subclass
  keeps, the tunnel's forwards, the ports bound on this machine, the terminal) and the
  events so far, oldest first.\<close>

record 'w duct = inst +
  world :: 'w
  trace :: "event list"

fun is_call :: "event \<Rightarrow> bool" where
  "is_call CallConnect = True"
| "is_call CallIsConnected = True"
| "is_call CallDisconnect = True"
| "is_call ev = False"

definition calls :: "'w duct \<Rightarrow> event list" where
  \<comment> \<open>the calls of the protocol hooks so far, oldest first\<close>
  "calls s = filter is_call (trace s)"

definition config :: "'w duct \<Rightarrow> inst" where
  \<comment> \<open>the instance apart from the two flags that \<^verbatim>\<open>disconnect\<close> and the monitor of
     field changes assign\<close>
  "config s = inst.truncate (s\<lparr>prepared := False, disconnecting := False\<rparr>)"

datatype duct_type = REMOTE | FILESYSTEM | DATABASE | CACHE | RESTFUL | OTHER

text \<open>
  The code that the module calls and that is not part of it: the three abstract methods
  that a subclass implements (\<^verbatim>\<open>_connect\<close>, \<^verbatim>\<open>_is_connected\<close>, \<^verbatim>\<open>_disconnect\<close>), the callables
  stored in prepared fields, \<^verbatim>\<open>DuctRegistry.lookup\<close>, the functions of
  \<^verbatim>\<open>omniduct.utils.ports\<close>, the methods of \<^verbatim>\<open>RemoteClient\<close>, and the terminal. Each is a
  parameter. A hook reads the instance and acts on the world; it may raise.
\<close>

record 'w env =
  connect_hook :: "inst \<Rightarrow> 'w \<Rightarrow> exn option \<times> 'w"
  is_connected_hook :: "inst \<Rightarrow> 'w \<Rightarrow> (exn + bool) \<times> 'w"
  disconnect_hook :: "inst \<Rightarrow> 'w \<Rightarrow> exn option \<times> 'w"
  call_fun :: "nat \<Rightarrow> inst \<Rightarrow> 'w \<Rightarrow> (exn + pyval) \<times> 'w"
  registry_lookup :: "nat \<Rightarrow> pyval \<Rightarrow> duct_type \<Rightarrow> 'w \<Rightarrow> exn + pyval"
  naive_load_balancer :: "pyval \<Rightarrow> pyval \<Rightarrow> 'w \<Rightarrow> pyval"
  is_port_bound :: "pyval \<Rightarrow> pyval \<Rightarrow> 'w \<Rightarrow> bool"
  remote_is_port_bound :: "nat \<Rightarrow> pyval \<Rightarrow> pyval \<Rightarrow> 'w \<Rightarrow> bool"
  remote_has_port_forward :: "nat \<Rightarrow> pyval \<Rightarrow> pyval \<Rightarrow> 'w \<Rightarrow> bool"
  remote_port_forward :: "nat \<Rightarrow> string \<Rightarrow> 'w \<Rightarrow> pyval \<times> 'w"
  remote_port_forward_stop :: "nat \<Rightarrow> pyval \<Rightarrow> 'w \<Rightarrow> 'w"
  remote_name :: "nat \<Rightarrow> string"
  remote_host :: "nat \<Rightarrow> 'w \<Rightarrow> string"
  input_fn :: "string \<Rightarrow> 'w \<Rightarrow> string \<times> 'w"
  getpass_fn :: "string \<Rightarrow> 'w \<Rightarrow> string \<times> 'w"
  getlogin_fn :: "'w \<Rightarrow> string"

section \<open>Statements that return or raise\<close>

datatype 'a res = Ret 'a | Raise exn

text \<open>What a lifecycle method returns: \<^verbatim>\<open>None\<close> or the instance itself.\<close>

datatype retval = RNone | RSelf

type_synonym ('a, 'w) act = "'w duct \<Rightarrow> 'a res \<times> 'w duct"

definition ret :: "'a \<Rightarrow> ('a, 'w) act" where
  "ret x = (\<lambda>s. (Ret x, s))"

definition throw :: "exn \<Rightarrow> ('a, 'w) act" where
  "throw e = (\<lambda>s. (Raise e, s))"

definition bnd :: "('a, 'w) act \<Rightarrow> ('a \<Rightarrow> ('b, 'w) act) \<Rightarrow> ('b, 'w) act" where
  "bnd m f = (\<lambda>s. case m s of (Ret x, s') \<Rightarrow> f x s' | (Raise e, s') \<Rightarrow> (Raise e, s'))"

definition thn :: "('a, 'w) act \<Rightarrow> ('b, 'w) act \<Rightarrow> ('b, 'w) act" where
  "thn m n = bnd m (\<lambda>x. n)"

definition modify :: "('w duct \<Rightarrow> 'w duct) \<Rightarrow> (unit, 'w) act" where
  "modify g = (\<lambda>s. (Ret (), g s))"

definition emit :: "event \<Rightarrow> (unit, 'w) act" where
  "emit ev = modify (\<lambda>s. s\<lparr>trace := trace s @ [ev]\<rparr>)"

definition try_finally :: "('a, 'w) act \<Rightarrow> ('w duct \<Rightarrow> 'w duct) \<Rightarrow> ('a, 'w) act" where
  \<comment> \<open>\<^verbatim>\<open>try: m finally: g\<close>, for a final block that only assigns\<close>
  "try_finally m g = (\<lambda>s. case m s of (r, s') \<Rightarrow> (r, g s'))"

definition pass_AttributeError :: "(unit, 'w) act \<Rightarrow> (unit, 'w) act" where
  \<comment> \<open>\<^verbatim>\<open>try: m except AttributeError: pass\<close>\<close>
  "pass_AttributeError m =
     (\<lambda>s. case m s of
        (Ret x, s') \<Rightarrow> (Ret (), s')
      | (Raise e, s') \<Rightarrow> if is_AttributeError e then (Ret (), s') else (Raise e, s'))"

section \<open>Calls of the hooks and of the collaborators\<close>

definition call_connect :: "'w env \<Rightarrow> (unit, 'w) act" where
  \<comment> \<open>\<^verbatim>\<open>self._connect()\<close>\<close>
  "call_connect E s =
     (case connect_hook E (inst.truncate s) (world s) of
        (None, w) \<Rightarrow> (Ret (), s\<lparr>world := w, trace := trace s @ [CallConnect]\<rparr>)
      | (Some e, w) \<Rightarrow> (Raise e, s\<lparr>world := w, trace := trace s @ [CallConnect]\<rparr>))"

definition call_is_connected :: "'w env \<Rightarrow> (bool, 'w) act" where
  \<comment> \<open>\<^verbatim>\<open>self._is_connected()\<close>\<close>
  "call_is_connected E s =
     (case is_connected_hook E (inst.truncate s) (world s) of
        (Inr b, w) \<Rightarrow> (Ret b, s\<lparr>world := w, trace := trace s @ [CallIsConnected]\<rparr>)
      | (Inl e, w) \<Rightarrow> (Raise e, s\<lparr>world := w, trace := trace s @ [CallIsConnected]\<rparr>))"

definition call_disconnect :: "'w env \<Rightarrow> (unit, 'w) act" where
  \<comment> \<open>\<^verbatim>\<open>self._disconnect()\<close>\<close>
  "call_disconnect E s =
     (case disconnect_hook E (inst.truncate s) (world s) of
        (None, w) \<Rightarrow> (Ret (), s\<lparr>world := w, trace := trace s @ [CallDisconnect]\<rparr>)
      | (Some e, w) \<Rightarrow> (Raise e, s\<lparr>world := w, trace := trace s @ [CallDisconnect]\<rparr>))"

definition call_value :: "'w env \<Rightarrow> pyval \<Rightarrow> (pyval, 'w) act" where
  \<comment> \<open>\<^verbatim>\<open>value(self)\<close>\<close>
  "call_value E v s =
     (case v of
        PFun f \<Rightarrow>
          (case call_fun E f (inst.truncate s) (world s) of
             (Inr x, w) \<Rightarrow> (Ret x, s\<lparr>world := w\<rparr>)
           | (Inl e, w) \<Rightarrow> (Raise e, s\<lparr>world := w\<rparr>))
      | _ \<Rightarrow> (Raise (TypeError ''object is not callable''), s))"

definition method_of_remote :: "string \<Rightarrow> pyval \<Rightarrow> (nat, 'w) act" where
  \<comment> \<open>the lookup of a method of \<^verbatim>\<open>RemoteClient\<close> on the value of \<^verbatim>\<open>self.remote\<close>\<close>
  "method_of_remote m v = (case v of PRemote r \<Rightarrow> ret r | _ \<Rightarrow> throw (AttributeError m))"

definition method_of_registry :: "string \<Rightarrow> pyval \<Rightarrow> (nat, 'w) act" where
  "method_of_registry m v = (case v of PRegistry r \<Rightarrow> ret r | _ \<Rightarrow> throw (AttributeError m))"

definition port_forward :: "'w env \<Rightarrow> nat \<Rightarrow> string \<Rightarrow> (pyval, 'w) act" where
  "port_forward E r target s =
     (case remote_port_forward E r target (world s) of (p, w) \<Rightarrow> (Ret p, s\<lparr>world := w\<rparr>))"

definition port_forward_stop :: "'w env \<Rightarrow> nat \<Rightarrow> pyval \<Rightarrow> (unit, 'w) act" where
  "port_forward_stop E r p = modify (\<lambda>s. s\<lparr>world := remote_port_forward_stop E r p (world s)\<rparr>)"

definition lookup :: "'w env \<Rightarrow> nat \<Rightarrow> pyval \<Rightarrow> duct_type \<Rightarrow> (pyval, 'w) act" where
  "lookup E r nm kind s =
     (case registry_lookup E r nm kind (world s) of
        Inr v \<Rightarrow> (Ret v, s)
      | Inl e \<Rightarrow> (Raise e, s))"

definition prompt_input :: "'w env \<Rightarrow> string \<Rightarrow> (string, 'w) act" where
  \<comment> \<open>\<^verbatim>\<open>input(prompt)\<close>\<close>
  "prompt_input E p s =
     (case input_fn E p (world s) of
        (a, w) \<Rightarrow> (Ret a, s\<lparr>world := w, trace := trace s @ [Prompt p]\<rparr>))"

definition prompt_getpass :: "'w env \<Rightarrow> string \<Rightarrow> (string, 'w) act" where
  \<comment> \<open>\<^verbatim>\<open>getpass.getpass(prompt)\<close>\<close>
  "prompt_getpass E p s =
     (case getpass_fn E p (world s) of
        (a, w) \<Rightarrow> (Ret a, s\<lparr>world := w, trace := trace s @ [PromptMasked p]\<rparr>))"

section \<open>Reading an attribute (\<^verbatim>\<open>Duct.__getattribute__\<close>) and the four properties\<close>

definition prepare_triggers :: "'w duct \<Rightarrow> exn + pyval list" where
  \<comment> \<open>the property \<^verbatim>\<open>__prepare_triggers\<close> (lines 296--301),
     \<^verbatim>\<open>('cache',) + self.connection_fields\<close>: a tuple and a list do not concatenate\<close>
  "prepare_triggers s =
     (case connection_fields s of
        SeqTuple xs \<Rightarrow> Inr (PStr ''cache'' # xs)
      | SeqList xs \<Rightarrow>
          Inl (TypeError (''can only concatenate tuple (not '' @ dq ''list'' @ '') to tuple'')))"

text \<open>\<^verbatim>\<open>object.__getattribute__(self, key)\<close> for a key that is not a property: the value
  stored under that name, \<^verbatim>\<open>AttributeError\<close> when there is none. The five private
  attributes are not read by name.\<close>

definition stored :: "string \<Rightarrow> (pyval, 'w) act" where
  "stored key s =
     (if key = ''protocol'' then (Ret (protocol s), s)
      else if key = ''name'' then (Ret (name s), s)
      else if key = ''registry'' then (Ret (registry s), s)
      else if key = ''remote'' then (Ret (remote s), s)
      else if key = ''cache'' then (Ret (cache s), s)
      else if key = ''_host'' then (Ret (u_host s), s)
      else if key = ''_port'' then (Ret (u_port s), s)
      else if key = ''_username'' then (Ret (u_username s), s)
      else if key = ''_password'' then (Ret (u_password s), s)
      else if key = ''connection_fields'' then (Ret (seq_val (connection_fields s)), s)
      else if key = ''prepared_fields'' then (Ret (seq_val (prepared_fields s)), s)
      else (case extra s key of
              Some v \<Rightarrow> (Ret v, s)
            | None \<Rightarrow> (Raise (AttributeError key), s)))"

text \<open>
  The \<^verbatim>\<open>try\<close> block of \<^verbatim>\<open>__getattribute__\<close> (lines 343--355). \<open>P\<close> is the bound method
  \<^verbatim>\<open>prepare\<close>. An \<^verbatim>\<open>AttributeError\<close> is passed over (first handler); any other exception
  clears the guard and is raised again (second handler), also the \<^verbatim>\<open>TypeError\<close> of the
  condition itself when \<^verbatim>\<open>connection_fields\<close> is a list.
\<close>

definition trigger :: "(unit, 'w) act \<Rightarrow> string \<Rightarrow> (unit, 'w) act" where
  "trigger P key s =
     (if \<not> prepared s \<and> \<not> getting s \<and> \<not> disconnecting s
      then (case prepare_triggers s of
              Inl e \<Rightarrow> (Raise e, s\<lparr>getting := False\<rparr>)
            | Inr ts \<Rightarrow>
                if PStr key \<in> set ts
                then (case P (s\<lparr>getting := True\<rparr>) of
                        (Ret x, s') \<Rightarrow> (Ret (), s'\<lparr>getting := False\<rparr>)
                      | (Raise e, s') \<Rightarrow>
                          if is_AttributeError e then (Ret (), s')
                          else (Raise e, s'\<lparr>getting := False\<rparr>))
                else (Ret (), s))
      else (Ret (), s))"

definition read :: "(unit, 'w) act \<Rightarrow> string \<Rightarrow> (pyval, 'w) act" where
  \<comment> \<open>\<^verbatim>\<open>self.key\<close> for a key that is not a property\<close>
  "read P key = thn (trigger P key) (stored key)"

definition host_fget :: "(unit, 'w) act \<Rightarrow> (pyval, 'w) act" where
  \<comment> \<open>the getter of \<^verbatim>\<open>Duct.host\<close> (lines 453--455)\<close>
  "host_fget P =
     bnd (read P ''remote'') (\<lambda>r.
       if truthy r then ret (PStr ''127.0.0.1'') else read P ''_host'')"

definition port_fget :: "'w env \<Rightarrow> (unit, 'w) act \<Rightarrow> (pyval, 'w) act" where
  \<comment> \<open>the getter of \<^verbatim>\<open>Duct.port\<close> (lines 469--471)\<close>
  "port_fget E P =
     bnd (read P ''remote'') (\<lambda>r.
       if truthy r
       then bnd (read P ''remote'') (\<lambda>r'.
            bnd (method_of_remote ''port_forward'' r') (\<lambda>rc.
            bnd (read P ''_host'') (\<lambda>h.
            bnd (read P ''_port'') (\<lambda>p.
              port_forward E rc (py_str h @ '':'' @ py_str p)))))
       else read P ''_port'')"

definition cached :: "string \<Rightarrow> (pyval, 'w) act" where
  \<comment> \<open>\<^verbatim>\<open>self.__cached_auth[key]\<close>\<close>
  "cached key s =
     (case cached_auth s key of
        Some a \<Rightarrow> (Ret (PStr a), s)
      | None \<Rightarrow> (Raise (KeyError key), s))"

definition username_fget :: "'w env \<Rightarrow> (unit, 'w) act \<Rightarrow> (pyval, 'w) act" where
  \<comment> \<open>the getter of \<^verbatim>\<open>Duct.username\<close> (lines 487--499)\<close>
  "username_fget E P =
     bnd (read P ''_username'') (\<lambda>u.
       if u = PBool True
       then thn (\<lambda>s. if cached_auth s ''username'' = None
                      then bnd (read P ''name'') (\<lambda>n.
                           bnd (prompt_input E (''Enter username for '' @ sq (py_str n) @ '':'')) (\<lambda>a.
                             modify (\<lambda>s. s\<lparr>cached_auth := (cached_auth s)(''username'' \<mapsto> a)\<rparr>))) s
                      else (Ret (), s))
                (cached ''username'')
       else if u = PBool False then ret PNone
       else if \<not> truthy u then (\<lambda>s. (Ret (PStr (getlogin_fn E (world s))), s))
       else read P ''_username'')"

definition password_fget :: "'w env \<Rightarrow> (unit, 'w) act \<Rightarrow> (pyval, 'w) act" where
  \<comment> \<open>the getter of \<^verbatim>\<open>Duct.password\<close> (lines 515--521)\<close>
  "password_fget E P =
     bnd (read P ''_password'') (\<lambda>u.
       if u = PBool True
       then thn (\<lambda>s. if cached_auth s ''password'' = None
                      then bnd (read P ''name'') (\<lambda>n.
                           bnd (prompt_getpass E (''Enter password for '' @ sq (py_str n) @ '':'')) (\<lambda>a.
                             modify (\<lambda>s. s\<lparr>cached_auth := (cached_auth s)(''password'' \<mapsto> a)\<rparr>))) s
                      else (Ret (), s))
                (cached ''password'')
       else if u = PBool False then ret PNone
       else read P ''_password'')"

definition object_getattribute :: "'w env \<Rightarrow> (unit, 'w) act \<Rightarrow> string \<Rightarrow> (pyval, 'w) act" where
  \<comment> \<open>\<^verbatim>\<open>object.__getattribute__(self, key)\<close>: a property runs its getter\<close>
  "object_getattribute E P key =
     (if key = ''host'' then host_fget P
      else if key = ''port'' then port_fget E P
      else if key = ''username'' then username_fget E P
      else if key = ''password'' then password_fget E P
      else stored key)"

definition forward_target :: "'w duct \<Rightarrow> string" where
  \<comment> \<open>\<^verbatim>\<open>'{}:{}'.format(self._host, self._port)\<close>\<close>
  "forward_target s = py_str (u_host s) @ '':'' @ py_str (u_port s)"

definition getattribute_in :: "'w env \<Rightarrow> (unit, 'w) act \<Rightarrow> string \<Rightarrow> (pyval, 'w) act" where
  \<comment> \<open>\<^verbatim>\<open>Duct.__getattribute__\<close> (lines 342--356)\<close>
  "getattribute_in E P key = thn (trigger P key) (object_getattribute E P key)"



section \<open>Disconnecting and the liveness check\<close>

definition has_port_forward :: "'w env \<Rightarrow> (unit, 'w) act \<Rightarrow> pyval \<Rightarrow> (bool, 'w) act" where
  \<comment> \<open>\<^verbatim>\<open>self.remote.has_port_forward(self._host, self._port)\<close>, \<open>r\<close> being \<^verbatim>\<open>self.remote\<close>\<close>
  "has_port_forward E P r =
     bnd (method_of_remote ''has_port_forward'' r) (\<lambda>rc.
     bnd (read P ''_host'') (\<lambda>h.
     bnd (read P ''_port'') (\<lambda>p.
       (\<lambda>s. (Ret (remote_has_port_forward E rc h p (world s)), s)))))"

definition free_local_port :: "'w env \<Rightarrow> (unit, 'w) act \<Rightarrow> (unit, 'w) act" where
  \<comment> \<open>lines 650--651\<close>
  "free_local_port E P =
     bnd (getattribute_in E P ''port'') (\<lambda>lp.
     thn (emit (Info (''Freeing up local port '' @ py_str lp @ ''...'')))
      (bnd (read P ''remote'') (\<lambda>r.
       bnd (method_of_remote ''port_forward_stop'' r) (\<lambda>rc.
       bnd (getattribute_in E P ''port'') (\<lambda>lp'.
         port_forward_stop E rc lp')))))"

definition disconnect_body :: "'w env \<Rightarrow> (unit, 'w) act \<Rightarrow> (unit, 'w) act" where
  \<comment> \<open>the \<^verbatim>\<open>try\<close> block of \<^verbatim>\<open>Duct.disconnect\<close> (lines 647--651)\<close>
  "disconnect_body E P =
     thn (call_disconnect E)
      (bnd (read P ''remote'') (\<lambda>r.
         if truthy r
         then bnd (has_port_forward E P r) (\<lambda>fw. if fw then free_local_port E P else ret ())
         else ret ()))"

definition disconnect_in :: "'w env \<Rightarrow> (unit, 'w) act \<Rightarrow> (retval, 'w) act" where
  \<comment> \<open>\<^verbatim>\<open>Duct.disconnect\<close> (lines 641--655)\<close>
  "disconnect_in E P s =
     (if \<not> prepared s then (Ret RNone, s)
      else thn (try_finally (disconnect_body E P) (\<lambda>s. s\<lparr>disconnecting := False\<rparr>))
               (ret RSelf)
             (s\<lparr>disconnecting := True\<rparr>))"

definition is_connected_in :: "'w env \<Rightarrow> (unit, 'w) act \<Rightarrow> (bool, 'w) act" where
  \<comment> \<open>\<^verbatim>\<open>Duct.is_connected\<close> (lines 609--619)\<close>
  "is_connected_in E P s =
     (if \<not> prepared s then (Ret False, s)
      else bnd (read P ''remote'') (\<lambda>r.
             if truthy r
             then bnd (has_port_forward E P r) (\<lambda>fw.
                    if \<not> fw then ret False
                    else bnd (getattribute_in E P ''host'') (\<lambda>h.
                         bnd (getattribute_in E P ''port'') (\<lambda>p.
                           (\<lambda>s. if \<not> is_port_bound E h p (world s)
                                 then thn (disconnect_in E P) (ret False) s
                                 else call_is_connected E s))))
             else call_is_connected E) s)"

section \<open>Writing an attribute (\<^verbatim>\<open>Duct.__setattr__\<close>)\<close>

text \<open>\<^verbatim>\<open>object.__setattr__(self, key, value)\<close> for a key that is not a property. The two
  field lists take a tuple or a list and keep which of the two it is; the model covers no
  other value of them, and the assignment of one leaves the list as it was.\<close>

definition store :: "string \<Rightarrow> pyval \<Rightarrow> (unit, 'w) act" where
  "store key v =
     modify (\<lambda>s.
       if key = ''protocol'' then s\<lparr>protocol := v\<rparr>
       else if key = ''name'' then s\<lparr>name := v\<rparr>
       else if key = ''registry'' then s\<lparr>registry := v\<rparr>
       else if key = ''remote'' then s\<lparr>remote := v\<rparr>
       else if key = ''cache'' then s\<lparr>cache := v\<rparr>
       else if key = ''_host'' then s\<lparr>u_host := v\<rparr>
       else if key = ''_port'' then s\<lparr>u_port := v\<rparr>
       else if key = ''_username'' then s\<lparr>u_username := v\<rparr>
       else if key = ''_password'' then s\<lparr>u_password := v\<rparr>
       else if key = ''connection_fields''
         then (case seq_of v of Some q \<Rightarrow> s\<lparr>connection_fields := q\<rparr> | None \<Rightarrow> s)
       else if key = ''prepared_fields''
         then (case seq_of v of Some q \<Rightarrow> s\<lparr>prepared_fields := q\<rparr> | None \<Rightarrow> s)
       else s\<lparr>extra := (extra s)(key \<mapsto> v)\<rparr>)"

definition change_warning :: "string \<Rightarrow> string" where
  "change_warning key =
     ''Disconnecting prior to changing field that connection is based on: '' @ key @ ''.''"

text \<open>The \<^verbatim>\<open>try\<close> block of \<^verbatim>\<open>__setattr__\<close> (lines 359--368), the monitor of field changes.
  The assignment \<^verbatim>\<open>self.__prepared = False\<close> in it is a write of a private attribute, which
  is in no list of connection fields.\<close>

definition monitor :: "'w env \<Rightarrow> (unit, 'w) act \<Rightarrow> string \<Rightarrow> (unit, 'w) act" where
  "monitor E P key =
     pass_AttributeError
       (\<lambda>s. if prepared s \<and> items (connection_fields s) \<noteq> [] \<and>
               PStr key \<in> set (items (connection_fields s))
            then bnd (is_connected_in E P) (\<lambda>c.
                   if c
                   then thn (emit (Warn (change_warning key)))
                       (thn (disconnect_in E P)
                            (modify (\<lambda>s. s\<lparr>prepared := False\<rparr>)))
                   else ret ()) s
            else (Ret (), s))"

definition slot_of :: "string \<Rightarrow> string" where
  \<comment> \<open>the attribute that the setter of a property assigns\<close>
  "slot_of key =
     (if key = ''host'' then ''_host''
      else if key = ''port'' then ''_port''
      else if key = ''username'' then ''_username''
      else if key = ''password'' then ''_password''
      else key)"

definition is_property :: "string \<Rightarrow> bool" where
  "is_property key = (key \<in> set [''host'', ''port'', ''username'', ''password''])"

definition setattr_in :: "'w env \<Rightarrow> (unit, 'w) act \<Rightarrow> string \<Rightarrow> pyval \<Rightarrow> (unit, 'w) act" where
  \<comment> \<open>\<^verbatim>\<open>Duct.__setattr__\<close> (lines 358--369); the setter of a property is one more assignment,
     \<^verbatim>\<open>self._host = host\<close>, through \<^verbatim>\<open>__setattr__\<close>\<close>
  "setattr_in E P key v =
     thn (monitor E P key)
       (if is_property key
        then thn (monitor E P (slot_of key)) (store (slot_of key) v)
        else store key v)"

section \<open>Resetting (\<^verbatim>\<open>Duct.reset\<close>)\<close>

fun restore :: "'w env \<Rightarrow> (unit, 'w) act \<Rightarrow> (string \<times> pyval) list \<Rightarrow> (unit, 'w) act" where
  \<comment> \<open>the loop of lines 688--689\<close>
  "restore E P [] = ret ()"
| "restore E P (kv # kvs) = thn (setattr_in E P (fst kv) (snd kv)) (restore E P kvs)"

definition reset_in :: "'w env \<Rightarrow> (unit, 'w) act \<Rightarrow> (retval, 'w) act" where
  \<comment> \<open>\<^verbatim>\<open>Duct.reset\<close> (lines 685--693)\<close>
  "reset_in E P =
     thn (disconnect_in E P)
    (thn (modify (\<lambda>s. s\<lparr>cached_auth := Map.empty\<rparr>))
    (thn (\<lambda>s. restore E P (prepreparation_values s) s)
    (thn (modify (\<lambda>s. s\<lparr>prepreparation_values := []\<rparr>))
    (thn (modify (\<lambda>s. s\<lparr>prepared := False\<rparr>))
         (ret RSelf)))))"

section \<open>Preparing (\<^verbatim>\<open>Duct.prepare\<close> and \<^verbatim>\<open>Duct._prepare\<close>)\<close>

definition remember :: "string \<Rightarrow> pyval \<Rightarrow> (unit, 'w) act" where
  \<comment> \<open>\<^verbatim>\<open>self.__prepreparation_values[key] = value\<close>\<close>
  "remember key v =
     modify (\<lambda>s. s\<lparr>prepreparation_values := AList.update key v (prepreparation_values s)\<rparr>)"

definition lookup_named :: "'w env \<Rightarrow> (unit, 'w) act \<Rightarrow> string \<Rightarrow> duct_type \<Rightarrow> (unit, 'w) act" where
  \<comment> \<open>lines 414--416 for \<^verbatim>\<open>remote\<close>, lines 417--419 for \<^verbatim>\<open>cache\<close>\<close>
  "lookup_named E P key kind =
     bnd (read P key) (\<lambda>v.
       if truthy v \<and> is_str v
       then thn (remember key v)
           (bnd (read P ''registry'') (\<lambda>rg.
            bnd (method_of_registry ''lookup'' rg) (\<lambda>rc.
            bnd (lookup E rc v kind) (\<lambda>x.
              setattr_in E P key x))))
       else ret ())"

definition resolve_field :: "'w env \<Rightarrow> (unit, 'w) act \<Rightarrow> pyval \<Rightarrow> (unit, 'w) act" where
  \<comment> \<open>one round of the loop of lines 427--431; \<^verbatim>\<open>getattr\<close> takes a string for the name\<close>
  "resolve_field E P field =
     (case field of
        PStr nm \<Rightarrow>
          bnd (getattribute_in E P nm) (\<lambda>v.
            if is_callable v
            then thn (remember nm v) (bnd (call_value E v) (\<lambda>x. setattr_in E P nm x))
            else ret ())
      | _ \<Rightarrow> throw (TypeError ''getattr(): attribute name must be string''))"

fun resolve_fields :: "'w env \<Rightarrow> (unit, 'w) act \<Rightarrow> pyval list \<Rightarrow> (unit, 'w) act" where
  \<comment> \<open>the loop of lines 427--431\<close>
  "resolve_fields E P [] = ret ()"
| "resolve_fields E P (field # rest) = thn (resolve_field E P field) (resolve_fields E P rest)"

definition balance_hosts :: "'w env \<Rightarrow> (unit, 'w) act \<Rightarrow> (unit, 'w) act" where
  \<comment> \<open>lines 433--436\<close>
  "balance_hosts E P =
     bnd (read P ''_host'') (\<lambda>h.
       if is_list_or_tuple h
       then thn (\<lambda>s. if map_of (prepreparation_values s) ''_host'' = None
                      then remember ''_host'' h s else (Ret (), s))
           (bnd (read P ''_port'') (\<lambda>p.
            bnd (\<lambda>s. (Ret (naive_load_balancer E h p (world s)), s)) (\<lambda>x.
              setattr_in E P ''_host'' x)))
       else ret ())"

definition split_host_port :: "'w env \<Rightarrow> (unit, 'w) act \<Rightarrow> (unit, 'w) act" where
  \<comment> \<open>lines 439--440\<close>
  "split_host_port E P =
     bnd (read P ''_host'') (\<lambda>h.
       case h of
         PNone \<Rightarrow> ret ()
       | PStr s \<Rightarrow>
           if host_has_port s
           then (case split_on CHR '':'' s of
                   [a, b] \<Rightarrow> thn (setattr_in E P ''_host'' (PStr a)) (setattr_in E P ''_port'' (PStr b))
                 | _ \<Rightarrow> throw (ValueError ''too many values to unpack (expected 2)''))
           else ret ()
       | _ \<Rightarrow> throw (TypeError ''expected string or bytes-like object''))"

definition coerce_port :: "'w env \<Rightarrow> (unit, 'w) act \<Rightarrow> (unit, 'w) act" where
  \<comment> \<open>line 443\<close>
  "coerce_port E P =
     bnd (read P ''_port'') (\<lambda>p.
       if truthy p
       then (case py_int p of
               Inr i \<Rightarrow> setattr_in E P ''port'' (PInt i)
             | Inl e \<Rightarrow> throw e)
       else setattr_in E P ''port'' PNone)"

definition u_prepare_in :: "'w env \<Rightarrow> (unit, 'w) act \<Rightarrow> (unit, 'w) act" where
  \<comment> \<open>\<^verbatim>\<open>Duct._prepare\<close> (lines 410--443)\<close>
  "u_prepare_in E P =
     bnd (read P ''registry'') (\<lambda>rg.
       if rg \<noteq> PNone \<and> \<not> is_DuctRegistry rg
       then throw (AssertionError
              (''Provided registry is not an instance of '' @ bq ''omniduct.registry.DuctRegistry'' @ ''.''))
       else
         thn (if rg \<noteq> PNone
              then thn (lookup_named E P ''remote'' REMOTE) (lookup_named E P ''cache'' CACHE)
              else ret ())
        (bnd (read P ''remote'') (\<lambda>r.
           if r \<noteq> PNone \<and> \<not> is_RemoteClient r
           then throw (AssertionError
                  (''Provided remote is not an instance of '' @ bq ''omniduct.remotes.base.RemoteClient'' @ ''.''))
           else
         bnd (read P ''cache'') (\<lambda>c.
           if c \<noteq> PNone \<and> \<not> is_Cache c
           then throw (AssertionError
                  (''Provided cache is not an instance of '' @ bq ''omniduct.caches.base.Cache'' @ ''.''))
           else
         thn (\<lambda>s. resolve_fields E P (items (prepared_fields s)) s)
        (thn (balance_hosts E P)
        (thn (split_host_port E P)
             (coerce_port E P)))))))"

definition prepare_in :: "'w env \<Rightarrow> (unit, 'w) act \<Rightarrow> (unit, 'w) act" where
  \<comment> \<open>\<^verbatim>\<open>Duct.prepare\<close> (lines 384--386)\<close>
  "prepare_in E P s =
     (if \<not> prepared s
      then thn (u_prepare_in E P) (modify (\<lambda>s. s\<lparr>prepared := True\<rparr>)) s
      else (Ret (), s))"

section \<open>Connecting (\<^verbatim>\<open>Duct.connect\<close>)\<close>

definition remote_suffix :: "'w env \<Rightarrow> (unit, 'w) act \<Rightarrow> (string, 'w) act" where
  \<comment> \<open>\<^verbatim>\<open>"on {}".format(self.remote.host) if self.remote else ""\<close>\<close>
  "remote_suffix E P =
     bnd (read P ''remote'') (\<lambda>r.
       if truthy r
       then bnd (method_of_remote ''host'' r) (\<lambda>rc.
              (\<lambda>s. (Ret (''on '' @ remote_host E rc (world s)), s)))
       else ret [])"

definition log_endpoint :: "'w env \<Rightarrow> (unit, 'w) act \<Rightarrow> string \<Rightarrow> (unit, 'w) act" where
  \<comment> \<open>lines 564--571 (\<open>word = ''Connecting''\<close>) and lines 579--586 (\<open>word = ''Connected''\<close>)\<close>
  "log_endpoint E P word =
     bnd (getattribute_in E P ''host'') (\<lambda>h.
       if truthy h
       then bnd (read P ''_host'') (\<lambda>h'.
            bnd (read P ''_port'') (\<lambda>p'.
            bnd (remote_suffix E P) (\<lambda>sfx.
              emit (Info (word @ '' to '' @ py_str h' @ '':'' @ py_str p' @ sfx @ ''.'')))))
       else ret ())"

definition unreachable_remote :: "'w env \<Rightarrow> nat \<Rightarrow> pyval \<Rightarrow> pyval \<Rightarrow> string" where
  "unreachable_remote E rc h p =
     ''Remote '' @ sq (remote_name E rc) @ '' cannot connect to '' @ sq (py_str h @ '':'' @ py_str p)
       @ ''. Please check your settings before trying again.''"

definition unreachable_local :: "pyval \<Rightarrow> pyval \<Rightarrow> string" where
  "unreachable_local h p =
     ''Cannot connect to '' @ sq (py_str h @ '':'' @ py_str p)
       @ '' on your current connection. Please check your connection before trying again.''"

definition check_bound :: "'w env \<Rightarrow> (unit, 'w) act \<Rightarrow> (unit, 'w) act" where
  \<comment> \<open>lines 536--546\<close>
  "check_bound E P =
     bnd (getattribute_in E P ''host'') (\<lambda>h.
     bnd (getattribute_in E P ''port'') (\<lambda>p.
       (\<lambda>s. if \<not> is_port_bound E h p (world s)
             then bnd (read P ''remote'') (\<lambda>r.
                    if truthy r
                    then bnd (method_of_remote ''is_port_bound'' r) (\<lambda>rc.
                         bnd (read P ''_host'') (\<lambda>h'.
                         bnd (read P ''_port'') (\<lambda>p'.
                           (\<lambda>s. if \<not> remote_is_port_bound E rc h' p' (world s)
                                 then thn (disconnect_in E P)
                                          (throw (DuctServerUnreachable (unreachable_remote E rc h' p'))) s
                                 else (Ret (), s)))))
                    else thn (disconnect_in E P)
                        (bnd (getattribute_in E P ''host'') (\<lambda>h''.
                         bnd (getattribute_in E P ''port'') (\<lambda>p''.
                           throw (DuctServerUnreachable (unreachable_local h'' p'')))))) s
             else (Ret (), s))))"

definition assert_server_reachable_in :: "'w env \<Rightarrow> (unit, 'w) act \<Rightarrow> (unit, 'w) act" where
  \<comment> \<open>\<^verbatim>\<open>Duct.__assert_server_reachable\<close> (lines 528--546)\<close>
  "assert_server_reachable_in E P =
     bnd (getattribute_in E P ''host'') (\<lambda>h.
     bnd (if h \<noteq> PNone then ret True
          else bnd (getattribute_in E P ''port'') (\<lambda>p. ret (p \<noteq> PNone))) (\<lambda>given.
       if given
       then bnd (getattribute_in E P ''host'') (\<lambda>h'.
              if h' = PNone then throw (ValueError ''Port specified but no host provided.'')
              else bnd (getattribute_in E P ''port'') (\<lambda>p'.
                     if p' = PNone then throw (ValueError ''Host specified but no port specified.'')
                     else check_bound E P))
       else ret ()))"

definition connect_attempt_in :: "'w env \<Rightarrow> (unit, 'w) act \<Rightarrow> (unit, 'w) act" where
  \<comment> \<open>lines 574--578: \<^verbatim>\<open>try: self._connect() except Exception as e: self.reset(); raise e\<close>\<close>
  "connect_attempt_in E P s =
     (case call_connect E s of
        (Ret x, s') \<Rightarrow> (Ret (), s')
      | (Raise e, s') \<Rightarrow> thn (reset_in E P) (throw e) s')"

definition connect_check_in :: "'w env \<Rightarrow> (unit, 'w) act \<Rightarrow> (bool, 'w) act" where
  \<comment> \<open>lines 564--573: the log record, the reachability check and \<^verbatim>\<open>self.is_connected()\<close>\<close>
  "connect_check_in E P =
     thn (log_endpoint E P ''Connecting'')
    (thn (assert_server_reachable_in E P)
         (is_connected_in E P))"

definition connect_in :: "'w env \<Rightarrow> (unit, 'w) act \<Rightarrow> (retval, 'w) act" where
  \<comment> \<open>\<^verbatim>\<open>Duct.connect\<close> (lines 564--587)\<close>
  "connect_in E P =
     bnd (connect_check_in E P) (\<lambda>c.
     thn (if \<not> c then connect_attempt_in E P else ret ())
    (thn (log_endpoint E P ''Connected'')
         (ret RSelf)))"

definition reconnect_in :: "'w env \<Rightarrow> (unit, 'w) act \<Rightarrow> (retval, 'w) act" where
  \<comment> \<open>\<^verbatim>\<open>Duct.reconnect\<close> (line 673): \<^verbatim>\<open>self.disconnect().connect()\<close>\<close>
  "reconnect_in E P =
     bnd (disconnect_in E P) (\<lambda>r.
       case r of
         RSelf \<Rightarrow> connect_in E P
       | RNone \<Rightarrow> throw (AttributeError ''connect''))"

section \<open>The methods as a caller reaches them\<close>

text \<open>
  \<^verbatim>\<open>__getattribute__\<close> calls \<^verbatim>\<open>prepare\<close>, whose body reads attributes through
  \<^verbatim>\<open>__getattribute__\<close> again. The guard \<^verbatim>\<open>__getting\<close> is set around that call, so the reads
  inside it start no second preparation: the recursion is one level deep. \<open>prepare_guarded\<close>
  is \<^verbatim>\<open>prepare\<close> as \<^verbatim>\<open>__getattribute__\<close> calls it; a second preparation inside it would be
  Python's unbounded recursion.
\<close>

definition prepare_guarded :: "'w env \<Rightarrow> (unit, 'w) act" where
  "prepare_guarded E = prepare_in E (throw RecursionError)"

definition getattribute :: "'w env \<Rightarrow> string \<Rightarrow> (pyval, 'w) act" where
  "getattribute E = getattribute_in E (prepare_guarded E)"

definition setattr :: "'w env \<Rightarrow> string \<Rightarrow> pyval \<Rightarrow> (unit, 'w) act" where
  "setattr E = setattr_in E (prepare_guarded E)"

definition prepare :: "'w env \<Rightarrow> (unit, 'w) act" where
  "prepare E = prepare_in E (prepare_guarded E)"

definition is_connected :: "'w env \<Rightarrow> (bool, 'w) act" where
  "is_connected E = is_connected_in E (prepare_guarded E)"

definition disconnect :: "'w env \<Rightarrow> (retval, 'w) act" where
  "disconnect E = disconnect_in E (prepare_guarded E)"

definition reset :: "'w env \<Rightarrow> (retval, 'w) act" where
  "reset E = reset_in E (prepare_guarded E)"

definition assert_server_reachable :: "'w env \<Rightarrow> (unit, 'w) act" where
  "assert_server_reachable E = assert_server_reachable_in E (prepare_guarded E)"

definition connect_check :: "'w env \<Rightarrow> (bool, 'w) act" where
  "connect_check E = connect_check_in E (prepare_guarded E)"

definition connect_attempt :: "'w env \<Rightarrow> (unit, 'w) act" where
  "connect_attempt E = connect_attempt_in E (prepare_guarded E)"

definition connect :: "'w env \<Rightarrow> (retval, 'w) act" where
  "connect E = connect_in E (prepare_guarded E)"

definition reconnect :: "'w env \<Rightarrow> (retval, 'w) act" where
  "reconnect E = reconnect_in E (prepare_guarded E)"

text \<open>\<^verbatim>\<open>Duct.__init__\<close> (lines 276--294). While it runs the private attributes do not exist
  yet, so \<^verbatim>\<open>__setattr__\<close> and \<^verbatim>\<open>__getattribute__\<close> find an \<^verbatim>\<open>AttributeError\<close> and only
  store: each assignment is a plain write.\<close>

definition init ::
  "string \<Rightarrow> pyval \<Rightarrow> pyval \<Rightarrow> pyval \<Rightarrow> pyval \<Rightarrow> pyval \<Rightarrow> pyval \<Rightarrow> pyval \<Rightarrow> pyval \<Rightarrow> pyval
     \<Rightarrow> 'w \<Rightarrow> 'w duct" where
  "init class_name proto nm reg rem hst prt usr pwd cch w =
     \<lparr>protocol = proto,
      name = (if truthy nm then nm else PStr class_name),
      registry = reg,
      remote = rem,
      cache = cch,
      u_host = hst,
      u_port = prt,
      u_username = usr,
      u_password = pwd,
      extra = Map.empty,
      connection_fields =
        SeqTuple [PStr ''host'', PStr ''port'', PStr ''remote'', PStr ''username'', PStr ''password''],
      prepared_fields = SeqTuple [PStr ''_host'', PStr ''_port'', PStr ''_username'', PStr ''_password''],
      prepared = False,
      getting = False,
      disconnecting = False,
      cached_auth = Map.empty,
      prepreparation_values = [],
      world = w,
      trace = []\<rparr>"


section \<open>Notions for the statements\<close>

definition username_prompt :: "'w duct \<Rightarrow> string" where
  "username_prompt s = ''Enter username for '' @ sq (py_str (name s)) @ '':''"

definition password_prompt :: "'w duct \<Rightarrow> string" where
  "password_prompt s = ''Enter password for '' @ sq (py_str (name s)) @ '':''"

definition listed :: "string \<Rightarrow> 'w duct \<Rightarrow> bool" where
  \<comment> \<open>\<^verbatim>\<open>key in self.connection_fields\<close>\<close>
  "listed key s \<longleftrightarrow> PStr key \<in> set (items (connection_fields s))"

definition storable :: "string \<Rightarrow> pyval \<Rightarrow> bool" where
  \<comment> \<open>a value that the model keeps under the attribute \<open>key\<close>: any value, but a tuple or a
     list for the two lists of field names\<close>
  "storable key v \<longleftrightarrow>
     (key = ''connection_fields'' \<or> key = ''prepared_fields'' \<longrightarrow> is_list_or_tuple v)"

fun last_entry :: "(string \<times> pyval) list \<Rightarrow> string \<times> pyval \<Rightarrow> bool" where
  \<comment> \<open>\<open>kv\<close> is an entry of the snapshot that no later entry for the same attribute follows (a
     property and the attribute behind it are one attribute)\<close>
  "last_entry [] kv = False"
| "last_entry (x # xs) kv =
     (last_entry xs kv \<or> (x = kv \<and> slot_of (fst kv) \<notin> set (map (\<lambda>y. slot_of (fst y)) xs)))"


definition tunnel_ok :: "'w duct \<Rightarrow> bool" where
  \<comment> \<open>\<^verbatim>\<open>self.remote\<close> is false or a \<^verbatim>\<open>RemoteClient\<close>, as \<^verbatim>\<open>_prepare\<close> leaves it\<close>
  "tunnel_ok s \<longleftrightarrow> \<not> truthy (remote s) \<or> is_RemoteClient (remote s)"

definition hooks_return :: "'w env \<Rightarrow> bool" where
  \<comment> \<open>a subclass whose \<^verbatim>\<open>_disconnect\<close> and \<^verbatim>\<open>_is_connected\<close> never raise\<close>
  "hooks_return E \<longleftrightarrow>
     (\<forall>i w. fst (disconnect_hook E i w) = None) \<and>
     (\<forall>i w. \<exists>b. fst (is_connected_hook E i w) = Inr b)"

definition announced :: "'w duct \<Rightarrow> 'w duct" where
  \<comment> \<open>the state after the log record of lines 564--571, for a client without a tunnel\<close>
  "announced s =
     (if truthy (u_host s)
      then s\<lparr>trace := trace s @
             [Info (''Connecting to '' @ py_str (u_host s) @ '':'' @ py_str (u_port s) @ ''.'')]\<rparr>
      else s)"

definition prepare_pending :: "'w duct \<Rightarrow> bool" where
  \<comment> \<open>the condition of \<^verbatim>\<open>__getattribute__\<close> under which the read of a trigger field
     calls \<^verbatim>\<open>prepare\<close>\<close>
  "prepare_pending s \<longleftrightarrow> \<not> prepared s \<and> \<not> getting s \<and> \<not> disconnecting s"

definition connects :: "'w duct \<Rightarrow> nat" where
  \<comment> \<open>how many times \<^verbatim>\<open>_connect\<close> has been called\<close>
  "connects s = count_list (calls s) CallConnect"

definition grown :: "'w duct \<Rightarrow> 'w duct \<Rightarrow> bool" where
  \<comment> \<open>from \<open>s\<close> to \<open>s'\<close> the events only grew, and by no call of \<^verbatim>\<open>_connect\<close>\<close>
  "grown s s' \<longleftrightarrow> (\<exists>xs. trace s' = trace s @ xs \<and> CallConnect \<notin> set xs)"

definition no_connect :: "('a, 'w) act \<Rightarrow> bool" where
  \<comment> \<open>a statement that never calls \<^verbatim>\<open>_connect\<close>\<close>
  "no_connect m \<longleftrightarrow> (\<forall>s r s'. m s = (r, s') \<longrightarrow> grown s s')"

section \<open>A simulated world for the examples\<close>

text \<open>
  The examples run the methods against simulated collaborators. The world records whether
  the connection of the subclass is up, the targets that the tunnel forwards (each reached
  at the local port 7000), the ports bound on this machine, and the lines that the user
  will type.
\<close>

record sim_world =
  up :: bool
  forwards :: "string list"
  bound :: "(pyval \<times> pyval) list"
  typed :: "string list"

text \<open>\<open>sim cf df live\<close>: \<^verbatim>\<open>_connect\<close> raises \<open>cf\<close> if it is given and brings the connection up
  otherwise; \<^verbatim>\<open>_disconnect\<close> raises \<open>df\<close> if it is given and brings the connection down
  otherwise; \<^verbatim>\<open>_is_connected\<close> reports \<open>live\<close> if it is given and the state of the connection
  otherwise. The callable 0 returns a host with a port, the callable 1 raises an
  \<^verbatim>\<open>AttributeError\<close>, the callable 2 returns a list of two hosts, any other callable a
  user name.\<close>

definition sim :: "exn option \<Rightarrow> exn option \<Rightarrow> bool option \<Rightarrow> sim_world env" where
  "sim cf df live =
     \<lparr>connect_hook = (\<lambda>i w. (cf, if cf = None then w\<lparr>up := True\<rparr> else w)),
      is_connected_hook = (\<lambda>i w. (Inr (case live of None \<Rightarrow> up w | Some b \<Rightarrow> b), w)),
      disconnect_hook = (\<lambda>i w. (df, if df = None then w\<lparr>up := False\<rparr> else w)),
      call_fun = (\<lambda>f i w.
        (if f = 0 then Inr (PStr ''db.example:5432'')
         else if f = 1 then Inl (AttributeError ''settings'')
         else if f = 2 then Inr (PList [PStr ''db1.example'', PStr ''db2.example''])
         else Inr (PStr ''carol''), w)),
      registry_lookup = (\<lambda>r nm kind w.
        if nm = PStr ''gateway'' \<and> kind = REMOTE then Inr (PRemote 1)
        else Inl (OtherError ''no such duct'')),
      naive_load_balancer = (\<lambda>hs p w.
        case hs of PList (h # rest) \<Rightarrow> h | PTuple (h # rest) \<Rightarrow> h | _ \<Rightarrow> PNone),
      is_port_bound = (\<lambda>h p w. (h, p) \<in> set (bound w)),
      remote_is_port_bound = (\<lambda>r h p w. True),
      remote_has_port_forward = (\<lambda>r h p w. py_str h @ '':'' @ py_str p \<in> set (forwards w)),
      remote_port_forward = (\<lambda>r target w.
        (PInt 7000, if target \<in> set (forwards w) then w else w\<lparr>forwards := target # forwards w\<rparr>)),
      remote_port_forward_stop = (\<lambda>r lp w. w\<lparr>forwards := []\<rparr>),
      remote_name = (\<lambda>r. ''gateway''),
      remote_host = (\<lambda>r w. ''gw.example''),
      input_fn = (\<lambda>p w. case typed w of [] \<Rightarrow> ([], w) | a # rest \<Rightarrow> (a, w\<lparr>typed := rest\<rparr>)),
      getpass_fn = (\<lambda>p w. case typed w of [] \<Rightarrow> ([], w) | a # rest \<Rightarrow> (a, w\<lparr>typed := rest\<rparr>)),
      getlogin_fn = (\<lambda>w. ''alice'')\<rparr>"

definition quiet_world :: sim_world where
  "quiet_world = \<lparr>up = False, forwards = [], bound = [], typed = []\<rparr>"



text \<open>A client that reaches its database through the tunnel \<^verbatim>\<open>gateway\<close>, and a subclass
  whose \<^verbatim>\<open>_disconnect\<close> fails.\<close>

definition tunnel_client :: "sim_world duct" where
  "tunnel_client =
     init ''PrestoClient'' (PStr ''presto'') PNone (PRegistry 0) (PStr ''gateway'')
       (PStr ''db.example'') (PInt 5432) PNone PNone PNone
       (quiet_world\<lparr>bound := [(PStr ''127.0.0.1'', PInt 7000)]\<rparr>)"

definition broken_pipe :: "sim_world env" where
  "broken_pipe = sim None (Some (OtherError ''broken pipe'')) None"

definition tunnel_connected :: "sim_world duct" where
  "tunnel_connected = snd (connect broken_pipe tunnel_client)"

text \<open>A client whose host is a callable that raises an \<^verbatim>\<open>AttributeError\<close>.\<close>

definition lazy_client :: "sim_world duct" where
  "lazy_client =
     init ''PrestoClient'' (PStr ''presto'') PNone PNone PNone (PFun 1) (PInt 5432) PNone PNone PNone
       quiet_world"


text \<open>A client that reaches its database directly, connected by \<^verbatim>\<open>connect\<close>; and the
  client behind the tunnel after the forwarded port has been closed.\<close>

definition direct_client :: "sim_world duct" where
  "direct_client =
     init ''PrestoClient'' (PStr ''presto'') PNone PNone PNone
       (PStr ''db.example:5432'') PNone (PBool True) (PBool True) PNone
       (quiet_world\<lparr>bound := [(PStr ''db.example'', PInt 5432)], typed := [''bob'', ''secret'']\<rparr>)"

definition direct_connected :: "sim_world duct" where
  "direct_connected = snd (connect (sim None None None) direct_client)"

definition tunnel_dead :: "sim_world duct" where
  "tunnel_dead = tunnel_connected\<lparr>world := (world tunnel_connected)\<lparr>bound := []\<rparr>\<rparr>"


text \<open>The direct client once prepared, once the user has typed the username, and once the
  user has typed the password.\<close>

definition direct_prepared :: "sim_world duct" where
  "direct_prepared =
     direct_client\<lparr>u_host := PStr ''db.example'', u_port := PInt 5432, prepared := True\<rparr>"

definition direct_named :: "sim_world duct" where
  "direct_named =
     direct_prepared\<lparr>cached_auth := [''username'' \<mapsto> ''bob''],
       world := (world direct_client)\<lparr>typed := [''secret'']\<rparr>,
       trace := [Prompt (username_prompt direct_client)]\<rparr>"

definition direct_authenticated :: "sim_world duct" where
  "direct_authenticated =
     direct_named\<lparr>cached_auth := [''username'' \<mapsto> ''bob'', ''password'' \<mapsto> ''secret''],
       world := (world direct_client)\<lparr>typed := []\<rparr>,
       trace := [Prompt (username_prompt direct_client),
                 PromptMasked (password_prompt direct_client)]\<rparr>"


text \<open>A prepared client for a service that nothing on this machine listens to.\<close>

definition unbound_client :: "sim_world duct" where
  "unbound_client = direct_prepared\<lparr>u_host := PStr ''10.0.0.5'', u_port := PInt 9999\<rparr>"


text \<open>A client given a list of hosts, a callable for the user name and the name of a
  tunnel; the same client connected.\<close>

definition balanced_client :: "sim_world duct" where
  "balanced_client =
     init ''PrestoClient'' (PStr ''presto'') PNone (PRegistry 0) (PStr ''gateway'')
       (PList [PStr ''db1.example'', PStr ''db2.example'']) (PInt 5432) (PFun 3) PNone PNone
       (quiet_world\<lparr>bound := [(PStr ''127.0.0.1'', PInt 7000)]\<rparr>)"



text \<open>A subclass whose \<^verbatim>\<open>_connect\<close> fails, and one whose \<^verbatim>\<open>_is_connected\<close> answers
  \<^verbatim>\<open>False\<close> whatever \<^verbatim>\<open>_connect\<close> did (the server drops idle connections).\<close>

definition refusing :: "sim_world env" where
  "refusing = sim (Some (OtherError ''connection refused'')) None None"

definition dropping :: "sim_world env" where
  "dropping = sim None None (Some False)"

text \<open>A subclass whose \<^verbatim>\<open>_connect\<close> and \<^verbatim>\<open>_disconnect\<close> both fail.\<close>

definition refusing_broken :: "sim_world env" where
  "refusing_broken =
     sim (Some (OtherError ''connection refused'')) (Some (OtherError ''broken pipe'')) None"


section \<open>The protocol registry (\<^verbatim>\<open>ProtocolRegisteringABCMeta\<close>)\<close>

text \<open>
  A class is known to the metaclass by its \<^verbatim>\<open>__name__\<close>, by its identity (two classes
  defined in different modules, or one class defined again, are different objects that
  may carry the same name) and by its \<^verbatim>\<open>PROTOCOLS\<close> attribute (\<open>None\<close> for
  \<^verbatim>\<open>PROTOCOLS = None\<close>).
\<close>

record pyclass =
  cls_name :: string
  cls_ident :: nat
  cls_PROTOCOLS :: "string list option"

text \<open>The dictionary \<^verbatim>\<open>cls._protocols\<close>, shared by all subclasses of \<^verbatim>\<open>Duct\<close>, with the
  messages sent to \<^verbatim>\<open>logger.info\<close>.\<close>

record registry =
  protocols :: "(string \<times> pyclass) list"
  reg_log :: "string list"

definition empty_registry :: registry where
  "empty_registry = \<lparr>protocols = [], reg_log = []\<rparr>"

definition ignore_message :: "pyclass \<Rightarrow> string \<Rightarrow> pyclass \<Rightarrow> string" where
  "ignore_message cls key old =
     ''Ignoring attempt by class '' @ bq (cls_name cls) @ '' to register key '' @ sq key
       @ '', which is already registered for class '' @ bq (cls_name old) @ ''.''"

text \<open>One round of the loop of \<^verbatim>\<open>ProtocolRegisteringABCMeta.__init__\<close> (lines 40--43).\<close>

definition register_key :: "pyclass \<Rightarrow> string \<Rightarrow> registry \<Rightarrow> registry" where
  "register_key cls key r =
     (case map_of (protocols r) key of
        Some old \<Rightarrow>
          if cls_name cls \<noteq> cls_name old
          then r\<lparr>reg_log := reg_log r @ [ignore_message cls key old]\<rparr>
          else r\<lparr>protocols := AList.update key cls (protocols r)\<rparr>
      | None \<Rightarrow> r\<lparr>protocols := AList.update key cls (protocols r)\<rparr>)"

fun register_keys :: "pyclass \<Rightarrow> string list \<Rightarrow> registry \<Rightarrow> registry" where
  "register_keys cls [] r = r"
| "register_keys cls (key # keys) r = register_keys cls keys (register_key cls key r)"

text \<open>\<^verbatim>\<open>ProtocolRegisteringABCMeta.__init__\<close>, run when the class \<open>cls\<close> is created:
  \<^verbatim>\<open>registry_keys = getattr(cls, 'PROTOCOLS', []) or []\<close>.\<close>

definition meta_init :: "pyclass \<Rightarrow> registry \<Rightarrow> registry" where
  "meta_init cls r =
     register_keys cls (case cls_PROTOCOLS cls of None \<Rightarrow> [] | Some keys \<Rightarrow> keys) r"

text \<open>\<^verbatim>\<open>ProtocolRegisteringABCMeta._for_protocol\<close> (lines 45--48).\<close>

definition for_protocol_meta :: "registry \<Rightarrow> string \<Rightarrow> exn + pyclass" where
  "for_protocol_meta r key =
     (case map_of (protocols r) key of
        None \<Rightarrow>
          Inl (DuctProtocolUnknown
                (''Missing '' @ bq ''Duct'' @ '' implementation for protocol: '' @ sq key @ ''.''))
      | Some cls \<Rightarrow> Inr cls)"

text \<open>Two classes for the examples: both are called \<^verbatim>\<open>PrestoClient\<close>, as after the
  module that defines the class is loaded a second time, and a third with its own name.\<close>

definition presto_a :: pyclass where
  "presto_a = \<lparr>cls_name = ''PrestoClient'', cls_ident = 1, cls_PROTOCOLS = Some [''presto'']\<rparr>"

definition presto_b :: pyclass where
  "presto_b = \<lparr>cls_name = ''PrestoClient'', cls_ident = 2, cls_PROTOCOLS = Some [''presto'']\<rparr>"

definition other_presto :: pyclass where
  "other_presto = \<lparr>cls_name = ''OtherPresto'', cls_ident = 3, cls_PROTOCOLS = Some [''presto'']\<rparr>"

section \<open>Reading attributes of a prepared instance\<close>

lemmas monad_defs = bnd_def thn_def ret_def throw_def modify_def emit_def

lemma trigger_prepared [simp]: "prepared s \<Longrightarrow> trigger P key s = (Ret (), s)"
  by (simp add: trigger_def)

lemma trigger_getting [simp]: "getting s \<Longrightarrow> trigger P key s = (Ret (), s)"
  by (simp add: trigger_def)

lemma read_prepared: "prepared s \<Longrightarrow> read P key s = stored key s"
  by (simp add: read_def monad_defs)

lemma read_getting: "getting s \<Longrightarrow> read P key s = stored key s"
  by (simp add: read_def monad_defs)

lemma stored_simps:
  "stored ''remote'' s = (Ret (remote s), s)"
  "stored ''registry'' s = (Ret (registry s), s)"
  "stored ''cache'' s = (Ret (cache s), s)"
  "stored ''name'' s = (Ret (name s), s)"
  "stored ''_host'' s = (Ret (u_host s), s)"
  "stored ''_port'' s = (Ret (u_port s), s)"
  "stored ''_username'' s = (Ret (u_username s), s)"
  "stored ''_password'' s = (Ret (u_password s), s)"
  by (simp_all add: stored_def)

lemma stored_state: "stored key s = (r, s') \<Longrightarrow> s' = s"
  by (auto simp: stored_def split: if_splits option.splits)

lemma host_fget_prepared:
  "prepared s \<Longrightarrow>
   host_fget P s = (Ret (if truthy (remote s) then PStr ''127.0.0.1'' else u_host s), s)"
  by (simp add: host_fget_def read_prepared stored_simps monad_defs)


lemma port_fget_prepared:
  "prepared s \<Longrightarrow>
   port_fget E P s =
     (if truthy (remote s)
      then (case remote s of
              PRemote rc \<Rightarrow>
                (Ret (fst (remote_port_forward E rc (forward_target s) (world s))),
                 s\<lparr>world := snd (remote_port_forward E rc (forward_target s) (world s))\<rparr>)
            | _ \<Rightarrow> (Raise (AttributeError ''port_forward''), s))
      else (Ret (u_port s), s))"
  by (simp add: port_fget_def read_prepared stored_simps monad_defs method_of_remote_def
      port_forward_def forward_target_def split: pyval.splits prod.splits)

lemma getattribute_in_prepared:
  "prepared s \<Longrightarrow> getattribute_in E P key s = object_getattribute E P key s"
  by (simp add: getattribute_in_def monad_defs)

lemma getattribute_host_prepared:
  "prepared s \<Longrightarrow>
   getattribute_in E P ''host'' s = (Ret (if truthy (remote s) then PStr ''127.0.0.1'' else u_host s), s)"
  by (simp add: getattribute_in_prepared object_getattribute_def host_fget_prepared)

lemma getattribute_port_prepared:
  "prepared s \<Longrightarrow> getattribute_in E P ''port'' s = port_fget E P s"
  by (simp add: getattribute_in_prepared object_getattribute_def)

section \<open>Frame of the teardown and of the liveness check\<close>

lemma call_disconnect_frame:
  "call_disconnect E s = (r, s') \<Longrightarrow>
   inst.truncate s' = inst.truncate s \<and> calls s' = calls s @ [CallDisconnect]"
  by (auto simp: call_disconnect_def inst.truncate_def calls_def split: prod.splits option.splits)

lemma call_is_connected_frame:
  "call_is_connected E s = (r, s') \<Longrightarrow>
   inst.truncate s' = inst.truncate s \<and> calls s' = calls s @ [CallIsConnected]"
  by (auto simp: call_is_connected_def inst.truncate_def calls_def split: prod.splits sum.splits)

lemma has_port_forward_prepared:
  "prepared s \<Longrightarrow>
   has_port_forward E P r s =
     (case r of
        PRemote rc \<Rightarrow> (Ret (remote_has_port_forward E rc (u_host s) (u_port s) (world s)), s)
      | _ \<Rightarrow> (Raise (AttributeError ''has_port_forward''), s))"
  by (simp add: has_port_forward_def read_prepared stored_simps monad_defs method_of_remote_def
      split: pyval.splits)

lemma port_fget_frame:
  "prepared s \<Longrightarrow> port_fget E P s = (r, s') \<Longrightarrow>
   inst.truncate s' = inst.truncate s \<and> trace s' = trace s"
  by (auto simp: port_fget_prepared inst.truncate_def split: if_splits pyval.splits)

lemma free_local_port_frame:
  assumes "prepared s" and "free_local_port E P s = (r, s')"
  shows "inst.truncate s' = inst.truncate s \<and> calls s' = calls s"
  using assms
  by (auto simp: free_local_port_def getattribute_port_prepared port_fget_prepared read_prepared
      stored_simps monad_defs method_of_remote_def port_forward_stop_def inst.truncate_def calls_def
      split: if_splits pyval.splits)

lemma teardown_frame:
  assumes "prepared s"
    and "bnd (read P ''remote'') (\<lambda>r.
         if truthy r
         then bnd (has_port_forward E P r) (\<lambda>fw. if fw then free_local_port E P else ret ())
         else ret ()) s = (r, s')"
  shows "inst.truncate s' = inst.truncate s \<and> calls s' = calls s"
  using assms
  by (auto simp: read_prepared stored_simps monad_defs has_port_forward_prepared
      split: if_splits pyval.splits dest: free_local_port_frame)

lemma disconnect_body_frame:
  assumes "prepared s" and "disconnect_body E P s = (r, s')"
  shows "inst.truncate s' = inst.truncate s \<and> calls s' = calls s @ [CallDisconnect]"
proof -
  obtain r1 s1 where c: "call_disconnect E s = (r1, s1)" by (cases "call_disconnect E s")
  from call_disconnect_frame [OF c]
  have t1: "inst.truncate s1 = inst.truncate s" and tr1: "calls s1 = calls s @ [CallDisconnect]"
    by simp_all
  from t1 assms(1) have p1: "prepared s1" by (simp add: inst.truncate_def)
  show ?thesis
  proof (cases r1)
    case (Raise e)
    with assms(2) c t1 tr1 show ?thesis by (auto simp: disconnect_body_def monad_defs)
  next
    case (Ret u)
    with assms(2) c have "bnd (read P ''remote'') (\<lambda>r.
         if truthy r
         then bnd (has_port_forward E P r) (\<lambda>fw. if fw then free_local_port E P else ret ())
         else ret ()) s1 = (r, s')"
      by (simp add: disconnect_body_def thn_def bnd_def [of "call_disconnect E"])
    from teardown_frame [OF p1 this] t1 tr1 show ?thesis by simp
  qed
qed

lemma disconnect_in_unprepared: "\<not> prepared s \<Longrightarrow> disconnect_in E P s = (Ret RNone, s)"
  by (simp add: disconnect_in_def)

lemma disconnect_in_frame:
  assumes "prepared s" and "disconnect_in E P s = (r, s')"
  shows "inst.truncate s' = inst.truncate (s\<lparr>disconnecting := False\<rparr>)"
    and "calls s' = calls s @ [CallDisconnect]"
    and "r \<noteq> Ret RNone"
proof -
  let ?s0 = "s\<lparr>disconnecting := True\<rparr>"
  obtain rb sb where b: "disconnect_body E P ?s0 = (rb, sb)"
    by (cases "disconnect_body E P ?s0")
  from assms(1) have "prepared ?s0" by simp
  from disconnect_body_frame [OF this b]
  have tb: "inst.truncate sb = inst.truncate ?s0" and cb: "calls sb = calls ?s0 @ [CallDisconnect]"
    by simp_all
  from assms b have s': "s' = sb\<lparr>disconnecting := False\<rparr>" and r: "r = (case rb of Ret u \<Rightarrow> Ret RSelf | Raise e \<Rightarrow> Raise e)"
    by (auto simp: disconnect_in_def monad_defs try_finally_def split: res.splits)
  from s' tb show "inst.truncate s' = inst.truncate (s\<lparr>disconnecting := False\<rparr>)"
    by (simp add: inst.truncate_def)
  from s' cb show "calls s' = calls s @ [CallDisconnect]" by (simp add: calls_def)
  from r show "r \<noteq> Ret RNone" by (simp split: res.splits)
qed

lemma disconnect_in_hook_fails:
  assumes "prepared s"
    and "disconnect_hook E (inst.truncate (s\<lparr>disconnecting := True\<rparr>)) (world s) = (Some e, w)"
  shows "disconnect_in E P s =
          (Raise e, s\<lparr>disconnecting := False, world := w, trace := trace s @ [CallDisconnect]\<rparr>)"
  using assms
  by (simp add: disconnect_in_def disconnect_body_def call_disconnect_def monad_defs try_finally_def)

lemma is_connected_in_unprepared: "\<not> prepared s \<Longrightarrow> is_connected_in E P s = (Ret False, s)"
  by (simp add: is_connected_in_def)

lemma is_connected_in_frame:
  assumes "prepared s" and "is_connected_in E P s = (r, s')"
  shows "inst.truncate (s'\<lparr>disconnecting := False\<rparr>) = inst.truncate (s\<lparr>disconnecting := False\<rparr>)"
    and "count_list (calls s') CallConnect = count_list (calls s) CallConnect"
    and "r = Ret True \<longrightarrow> inst.truncate s' = inst.truncate s \<and> calls s' = calls s @ [CallIsConnected]"
proof -
  have "inst.truncate (s'\<lparr>disconnecting := False\<rparr>) = inst.truncate (s\<lparr>disconnecting := False\<rparr>) \<and>
        count_list (calls s') CallConnect = count_list (calls s) CallConnect \<and>
        (r = Ret True \<longrightarrow> inst.truncate s' = inst.truncate s \<and> calls s' = calls s @ [CallIsConnected])"
  proof (cases "truthy (remote s)")
    case False
    with assms have "call_is_connected E s = (r, s')"
      by (simp add: is_connected_in_def read_prepared stored_simps monad_defs)
    from call_is_connected_frame [OF this] show ?thesis by (simp add: inst.truncate_def)
  next
    case True
    show ?thesis
    proof (cases "remote s")
      case (PRemote rc)
      let ?fw = "remote_has_port_forward E rc (u_host s) (u_port s) (world s)"
      let ?pf = "remote_port_forward E rc (forward_target s) (world s)"
      let ?s1 = "s\<lparr>world := snd ?pf\<rparr>"
      have p1: "prepared ?s1" using assms(1) by simp
      show ?thesis
      proof (cases ?fw)
        case False
        with assms PRemote show ?thesis
          by (auto simp: is_connected_in_def read_prepared stored_simps monad_defs
              has_port_forward_prepared)
      next
        case fw: True
        show ?thesis
        proof (cases "is_port_bound E (PStr ''127.0.0.1'') (fst ?pf) (snd ?pf)")
          case True
          with assms PRemote fw have "call_is_connected E ?s1 = (r, s')"
            by (simp add: is_connected_in_def read_prepared stored_simps monad_defs
                has_port_forward_prepared getattribute_host_prepared getattribute_port_prepared
                port_fget_prepared)
          from call_is_connected_frame [OF this] show ?thesis
            by (simp add: inst.truncate_def calls_def)
        next
          case False
          with assms PRemote fw have d: "thn (disconnect_in E P) (ret False) ?s1 = (r, s')"
            by (simp add: is_connected_in_def read_prepared stored_simps monad_defs
                has_port_forward_prepared getattribute_host_prepared getattribute_port_prepared
                port_fget_prepared)
          obtain rd sd where dd: "disconnect_in E P ?s1 = (rd, sd)"
            by (cases "disconnect_in E P ?s1")
          from d dd have s': "s' = sd" and r: "r \<noteq> Ret True"
            by (auto simp: monad_defs split: res.splits)
          from disconnect_in_frame(1,2) [OF p1 dd] s' r show ?thesis
            by (simp add: inst.truncate_def calls_def)
        qed
      qed
    qed (use assms True in \<open>auto simp: is_connected_in_def read_prepared stored_simps monad_defs
              has_port_forward_prepared\<close>)
  qed
  then show "inst.truncate (s'\<lparr>disconnecting := False\<rparr>) = inst.truncate (s\<lparr>disconnecting := False\<rparr>)"
    and "count_list (calls s') CallConnect = count_list (calls s) CallConnect"
    and "r = Ret True \<longrightarrow> inst.truncate s' = inst.truncate s \<and> calls s' = calls s @ [CallIsConnected]"
    by simp_all
qed

section \<open>The configuration of an instance\<close>

lemma config_eq_fields:
  "config s' = config s \<Longrightarrow>
   getting s' = getting s \<and> remote s' = remote s \<and> u_host s' = u_host s \<and> u_port s' = u_port s \<and>
   u_username s' = u_username s \<and> u_password s' = u_password s \<and> name s' = name s \<and>
   cached_auth s' = cached_auth s \<and> prepreparation_values s' = prepreparation_values s \<and>
   connection_fields s' = connection_fields s \<and> prepared_fields s' = prepared_fields s"
  by (simp add: config_def inst.truncate_def)

lemma truncate_config: "inst.truncate s' = inst.truncate s \<Longrightarrow> config s' = config s"
  by (simp add: config_def inst.truncate_def)

lemma truncate_disc_config:
  "inst.truncate (s'\<lparr>disconnecting := False\<rparr>) = inst.truncate (s\<lparr>disconnecting := False\<rparr>) \<Longrightarrow>
   config s' = config s"
  by (simp add: config_def inst.truncate_def)

lemma truncate_disc_prepared:
  "inst.truncate (s'\<lparr>disconnecting := False\<rparr>) = inst.truncate (s\<lparr>disconnecting := False\<rparr>) \<Longrightarrow>
   prepared s' = prepared s"
  by (simp add: inst.truncate_def)

lemma config_stored: "config s' = config s \<Longrightarrow> fst (stored key s') = fst (stored key s)"
  by (simp add: config_def inst.truncate_def stored_def split: option.splits)

lemma truncate_disc_config2:
  "inst.truncate s' = inst.truncate (s\<lparr>disconnecting := False\<rparr>) \<Longrightarrow>
   config s' = config s \<and> prepared s' = prepared s"
  by (simp add: config_def inst.truncate_def)

lemma count_append_other: "ev \<noteq> ev' \<Longrightarrow> count_list (xs @ [ev']) ev = count_list xs ev"
  by (induction xs) simp_all

lemma disconnect_in_config:
  assumes "disconnect_in E P s = (r, s')"
  shows "config s' = config s \<and> prepared s' = prepared s \<and>
    count_list (calls s') CallConnect = count_list (calls s) CallConnect"
proof (cases "prepared s")
  case True
  from disconnect_in_frame(1) [OF True assms] have "config s' = config s \<and> prepared s' = prepared s"
    by (rule truncate_disc_config2)
  moreover from disconnect_in_frame(2) [OF True assms]
  have "count_list (calls s') CallConnect = count_list (calls s) CallConnect"
    by (simp add: count_append_other)
  ultimately show ?thesis by simp
next
  case False
  with assms show ?thesis by (simp add: disconnect_in_unprepared)
qed

lemma is_connected_in_config:
  assumes "is_connected_in E P s = (r, s')"
  shows "config s' = config s \<and> prepared s' = prepared s \<and>
    count_list (calls s') CallConnect = count_list (calls s) CallConnect"
proof (cases "prepared s")
  case True
  from is_connected_in_frame(1) [OF True assms]
  have "config s' = config s" "prepared s' = prepared s"
    by (rule truncate_disc_config, rule truncate_disc_prepared)
  with is_connected_in_frame(2) [OF True assms] show ?thesis by simp
next
  case False
  with assms show ?thesis by (simp add: is_connected_in_unprepared)
qed

lemma config_trace [simp]: "config (s\<lparr>trace := t\<rparr>) = config s"
  by (simp add: config_def inst.truncate_def)

lemma config_world [simp]: "config (s\<lparr>world := w\<rparr>) = config s"
  by (simp add: config_def inst.truncate_def)

lemma config_prepared [simp]: "config (s\<lparr>prepared := b\<rparr>) = config s"
  by (simp add: config_def inst.truncate_def)

lemma config_disconnecting [simp]: "config (s\<lparr>disconnecting := b\<rparr>) = config s"
  by (simp add: config_def inst.truncate_def)

lemma calls_simps [simp]:
  "calls (s\<lparr>prepared := b\<rparr>) = calls s"
  "calls (s\<lparr>disconnecting := b\<rparr>) = calls s"
  "calls (s\<lparr>getting := b\<rparr>) = calls s"
  "calls (s\<lparr>world := w\<rparr>) = calls s"
  "calls (s\<lparr>trace := trace s @ [Warn m]\<rparr>) = calls s"
  "calls (s\<lparr>trace := trace s @ [Info m]\<rparr>) = calls s"
  by (simp_all add: calls_def)

lemma monitor_unprepared: "\<not> prepared s \<Longrightarrow> monitor E P key s = (Ret (), s)"
  by (simp add: monitor_def pass_AttributeError_def)

lemma monitor_other_key: "\<not> listed key s \<Longrightarrow> monitor E P key s = (Ret (), s)"
  by (simp add: monitor_def pass_AttributeError_def listed_def)

text \<open>What the monitor does when the field is monitored and the instance is prepared.\<close>

lemma monitor_active:
  assumes "prepared s" and "listed key s"
  shows "monitor E P key s =
     (case is_connected_in E P s of
        (Ret True, s1) \<Rightarrow>
          (case disconnect_in E P (s1\<lparr>trace := trace s1 @ [Warn (change_warning key)]\<rparr>) of
             (Ret r, s2) \<Rightarrow> (Ret (), s2\<lparr>prepared := False\<rparr>)
           | (Raise e, s2) \<Rightarrow> if is_AttributeError e then (Ret (), s2) else (Raise e, s2))
      | (Ret False, s1) \<Rightarrow> (Ret (), s1)
      | (Raise e, s1) \<Rightarrow> if is_AttributeError e then (Ret (), s1) else (Raise e, s1))"
proof -
  from assms(2) have ne: "items (connection_fields s) \<noteq> []" by (auto simp: listed_def)
  show ?thesis
    using assms ne
    by (simp add: monitor_def pass_AttributeError_def monad_defs listed_def
        split: prod.splits res.splits bool.splits)
qed

lemma monitor_frame:
  assumes "monitor E P key s = (r, s')"
  shows "config s' = config s \<and>
         count_list (calls s') CallConnect = count_list (calls s) CallConnect"
proof (cases "prepared s \<and> listed key s")
  case False
  with assms have "s' = s" by (auto simp: monitor_unprepared monitor_other_key)
  then show ?thesis by simp
next
  case True
  obtain rc s1 where ic: "is_connected_in E P s = (rc, s1)" by (cases "is_connected_in E P s")
  note f1 = is_connected_in_config [OF ic]
  let ?s2 = "s1\<lparr>trace := trace s1 @ [Warn (change_warning key)]\<rparr>"
  obtain rd s3 where dc: "disconnect_in E P ?s2 = (rd, s3)" by (cases "disconnect_in E P ?s2")
  note f3 = disconnect_in_config [OF dc]
  from assms True ic dc have "s' = s1 \<or> s' = s3 \<or> s' = s3\<lparr>prepared := False\<rparr>"
    by (auto simp: monitor_active split: res.splits bool.splits if_splits)
  then show ?thesis
    using f1 f3 by auto
qed

lemma store_config_other:
  "key' \<noteq> key \<Longrightarrow> fst (stored key' (snd (store key v s))) = fst (stored key' s)"
  by (auto simp: store_def stored_def modify_def split: option.splits)

lemma seq_val_seq_of: "is_list_or_tuple v \<Longrightarrow> \<exists>q. seq_of v = Some q \<and> seq_val q = v"
  by (cases v) simp_all

lemma store_stored:
  assumes "storable key v"
  shows "fst (stored key (snd (store key v s))) = Ret v"
proof (cases "key = ''connection_fields'' \<or> key = ''prepared_fields''")
  case False
  then show ?thesis by (simp add: store_def stored_def modify_def)
next
  case True
  with assms have "is_list_or_tuple v" by (simp add: storable_def)
  from seq_val_seq_of [OF this] obtain q where q: "seq_of v = Some q" "seq_val q = v" by blast
  from True show ?thesis
  proof
    assume "key = ''connection_fields''"
    with q show ?thesis by (simp add: store_def stored_def modify_def)
  next
    assume "key = ''prepared_fields''"
    with q show ?thesis by (simp add: store_def stored_def modify_def)
  qed
qed

lemma store_Ret: "fst (store key v s) = Ret ()"
  by (simp add: store_def modify_def)

lemma store_frame:
  "prepared (snd (store key v s)) = prepared s \<and> getting (snd (store key v s)) = getting s \<and>
   disconnecting (snd (store key v s)) = disconnecting s \<and>
   cached_auth (snd (store key v s)) = cached_auth s \<and>
   prepreparation_values (snd (store key v s)) = prepreparation_values s \<and>
   world (snd (store key v s)) = world s \<and> trace (snd (store key v s)) = trace s"
  by (simp add: store_def modify_def split: option.splits)

section \<open>Operations that never call the connect hook\<close>

lemma grown_refl [simp]: "grown s s"
  by (simp add: grown_def)

lemma grown_trans: "grown s t \<Longrightarrow> grown t u \<Longrightarrow> grown s u"
  by (auto simp: grown_def)

lemma grown_same_trace: "trace s' = trace s \<Longrightarrow> grown s s'"
  by (simp add: grown_def)

lemma grown_event: "trace s' = trace s @ [ev] \<Longrightarrow> ev \<noteq> CallConnect \<Longrightarrow> grown s s'"
  by (simp add: grown_def)

lemma grown_connects: "grown s s' \<Longrightarrow> connects s' = connects s"
  by (auto simp: grown_def connects_def calls_def)

lemma grown_calls: "grown s s' \<Longrightarrow> \<exists>xs. calls s' = calls s @ xs"
  by (auto simp: grown_def calls_def)


lemma no_connectI: "(\<And>s r s'. m s = (r, s') \<Longrightarrow> grown s s') \<Longrightarrow> no_connect m"
  by (simp add: no_connect_def)

lemma no_connectD: "no_connect m \<Longrightarrow> m s = (r, s') \<Longrightarrow> grown s s'"
  by (simp add: no_connect_def)

lemma no_connect_ret [simp]: "no_connect (ret x)"
  by (simp add: no_connect_def ret_def)

lemma no_connect_throw [simp]: "no_connect (throw e)"
  by (simp add: no_connect_def throw_def)

lemma no_connect_bnd:
  assumes "no_connect m" and "\<And>x. no_connect (f x)"
  shows "no_connect (bnd m f)"
proof (rule no_connectI)
  fix s r s'
  assume b: "bnd m f s = (r, s')"
  obtain r1 s1 where m: "m s = (r1, s1)" by (cases "m s")
  from no_connectD [OF assms(1) m] have g1: "grown s s1" .
  show "grown s s'"
  proof (cases r1)
    case (Ret x)
    with b m have "f x s1 = (r, s')" by (simp add: bnd_def)
    from no_connectD [OF assms(2) this] g1 show ?thesis by (blast intro: grown_trans)
  next
    case (Raise e)
    with b m g1 show ?thesis by (simp add: bnd_def)
  qed
qed

lemma no_connect_thn: "no_connect m \<Longrightarrow> no_connect n \<Longrightarrow> no_connect (thn m n)"
  by (simp add: thn_def no_connect_bnd)

lemma no_connect_if: "no_connect m \<Longrightarrow> no_connect n \<Longrightarrow> no_connect (if b then m else n)"
  by simp

lemma no_connect_state_if:
  "no_connect m \<Longrightarrow> no_connect n \<Longrightarrow> no_connect (\<lambda>s. if b s then m s else n s)"
  by (auto simp: no_connect_def split: if_splits)

lemma no_connect_pure: "no_connect (\<lambda>s. (g s, s))"
  by (simp add: no_connect_def)

lemma no_connect_modify: "(\<And>s. grown s (g s)) \<Longrightarrow> no_connect (modify g)"
  by (simp add: no_connect_def modify_def)

lemma grown_simps [simp]:
  "grown s (s\<lparr>prepared := b\<rparr>)"
  "grown s (s\<lparr>disconnecting := b\<rparr>)"
  "grown s (s\<lparr>getting := b\<rparr>)"
  "grown s (s\<lparr>world := w\<rparr>)"
  "grown s (s\<lparr>cached_auth := ca\<rparr>)"
  "grown s (s\<lparr>prepreparation_values := pv\<rparr>)"
  "grown s (s\<lparr>trace := trace s @ [Warn m]\<rparr>)"
  "grown s (s\<lparr>trace := trace s @ [Info m]\<rparr>)"
  "grown s (s\<lparr>world := w, trace := trace s @ [Prompt m]\<rparr>)"
  "grown s (s\<lparr>world := w, trace := trace s @ [PromptMasked m]\<rparr>)"
  "grown s (s\<lparr>world := w, trace := trace s @ [CallIsConnected]\<rparr>)"
  "grown s (s\<lparr>world := w, trace := trace s @ [CallDisconnect]\<rparr>)"
  by (simp_all add: grown_def)

lemma no_connect_emit_Info [simp]: "no_connect (emit (Info m))"
  by (simp add: emit_def no_connect_modify)

lemma no_connect_emit_Warn [simp]: "no_connect (emit (Warn m))"
  by (simp add: emit_def no_connect_modify)

lemma no_connect_stored [simp]: "no_connect (stored key)"
  by (auto simp: no_connect_def dest: stored_state)

lemma no_connect_store [simp]: "no_connect (store key v)"
  by (rule no_connectI) (auto simp: store_def modify_def grown_def split: option.splits)

lemma no_connect_trigger: "no_connect P \<Longrightarrow> no_connect (trigger P key)"
proof (rule no_connectI)
  fix s r s'
  assume P: "no_connect P" and t: "trigger P key s = (r, s')"
  obtain rp sp where p: "P (s\<lparr>getting := True\<rparr>) = (rp, sp)" by (cases "P (s\<lparr>getting := True\<rparr>)")
  from no_connectD [OF P p] have g: "grown s sp" by (simp add: grown_def)
  from t p have "s' = s \<or> s' = s\<lparr>getting := False\<rparr> \<or> s' = sp \<or> s' = sp\<lparr>getting := False\<rparr>"
    by (auto simp: trigger_def split: if_splits sum.splits res.splits)
  with g show "grown s s'" by (auto simp: grown_def)
qed

lemma no_connect_read: "no_connect P \<Longrightarrow> no_connect (read P key)"
  by (simp add: read_def no_connect_thn no_connect_trigger)

lemma no_connect_method_of_remote [simp]: "no_connect (method_of_remote m v)"
  by (simp add: method_of_remote_def split: pyval.splits)

lemma no_connect_method_of_registry [simp]: "no_connect (method_of_registry m v)"
  by (simp add: method_of_registry_def split: pyval.splits)

lemma no_connect_port_forward [simp]: "no_connect (port_forward E rc target)"
  by (rule no_connectI) (auto simp: port_forward_def split: prod.splits)

lemma no_connect_port_forward_stop [simp]: "no_connect (port_forward_stop E rc p)"
  by (simp add: port_forward_stop_def no_connect_modify)

lemma no_connect_lookup [simp]: "no_connect (lookup E rc nm kind)"
  by (rule no_connectI) (auto simp: lookup_def split: sum.splits)

lemma no_connect_prompt_input [simp]: "no_connect (prompt_input E p)"
  by (rule no_connectI) (auto simp: prompt_input_def split: prod.splits)

lemma no_connect_prompt_getpass [simp]: "no_connect (prompt_getpass E p)"
  by (rule no_connectI) (auto simp: prompt_getpass_def split: prod.splits)

lemma no_connect_call_value [simp]: "no_connect (call_value E v)"
  by (rule no_connectI)
     (auto simp: call_value_def split: pyval.splits prod.splits sum.splits)

lemma no_connect_call_is_connected [simp]: "no_connect (call_is_connected E)"
  by (rule no_connectI)
     (auto simp: call_is_connected_def split: prod.splits sum.splits)

lemma no_connect_call_disconnect [simp]: "no_connect (call_disconnect E)"
  by (rule no_connectI)
     (auto simp: call_disconnect_def split: prod.splits option.splits)

lemma no_connect_cached [simp]: "no_connect (cached key)"
  by (rule no_connectI) (auto simp: cached_def split: option.splits)

lemma no_connect_remember [simp]: "no_connect (remember key v)"
  by (simp add: remember_def no_connect_modify)

lemmas no_connect_intros =
  no_connect_bnd no_connect_thn no_connect_if no_connect_state_if no_connect_read
  no_connect_trigger no_connect_pure no_connect_modify

lemma no_connect_host_fget: "no_connect P \<Longrightarrow> no_connect (host_fget P)"
  by (simp add: host_fget_def no_connect_intros)

lemma no_connect_port_fget: "no_connect P \<Longrightarrow> no_connect (port_fget E P)"
  by (simp add: port_fget_def no_connect_intros)

lemma no_connect_username_fget: "no_connect P \<Longrightarrow> no_connect (username_fget E P)"
  unfolding username_fget_def
  by (intro no_connect_intros) (simp_all add: no_connect_intros)

lemma no_connect_password_fget: "no_connect P \<Longrightarrow> no_connect (password_fget E P)"
  unfolding password_fget_def
  by (intro no_connect_intros) (simp_all add: no_connect_intros)

lemma no_connect_getattribute_in: "no_connect P \<Longrightarrow> no_connect (getattribute_in E P key)"
  by (simp add: getattribute_in_def object_getattribute_def no_connect_intros
      no_connect_host_fget no_connect_port_fget no_connect_username_fget no_connect_password_fget)

lemma no_connect_has_port_forward: "no_connect P \<Longrightarrow> no_connect (has_port_forward E P r)"
  unfolding has_port_forward_def
  by (intro no_connect_intros) simp_all

lemma no_connect_free_local_port: "no_connect P \<Longrightarrow> no_connect (free_local_port E P)"
  unfolding free_local_port_def
  by (intro no_connect_intros no_connect_getattribute_in) simp_all

lemma no_connect_try_finally:
  "no_connect m \<Longrightarrow> (\<And>s. grown s (g s)) \<Longrightarrow> no_connect (try_finally m g)"
  by (rule no_connectI)
     (auto simp: try_finally_def split: prod.splits dest!: no_connectD intro: grown_trans)

lemma no_connect_pass_AttributeError: "no_connect m \<Longrightarrow> no_connect (pass_AttributeError m)"
  by (rule no_connectI)
     (auto simp: pass_AttributeError_def split: prod.splits res.splits if_splits dest!: no_connectD)

lemma no_connect_disconnect_body: "no_connect P \<Longrightarrow> no_connect (disconnect_body E P)"
  unfolding disconnect_body_def
  by (intro no_connect_intros no_connect_has_port_forward no_connect_free_local_port) simp_all

lemma no_connect_disconnect_in: "no_connect P \<Longrightarrow> no_connect (disconnect_in E P)"
proof (rule no_connectI)
  fix s r s'
  assume P: "no_connect P" and d: "disconnect_in E P s = (r, s')"
  have "no_connect (thn (try_finally (disconnect_body E P) (\<lambda>s. s\<lparr>disconnecting := False\<rparr>)) (ret RSelf))"
    using P by (intro no_connect_thn no_connect_try_finally no_connect_disconnect_body) simp_all
  from no_connectD [OF this, of "s\<lparr>disconnecting := True\<rparr>" r s'] d
  show "grown s s'"
    by (auto simp: disconnect_in_def grown_def split: if_splits)
qed

lemma no_connect_is_connected_in: "no_connect P \<Longrightarrow> no_connect (is_connected_in E P)"
proof (rule no_connectI)
  fix s r s'
  assume P: "no_connect P" and d: "is_connected_in E P s = (r, s')"
  have "no_connect (bnd (read P ''remote'') (\<lambda>r.
             if truthy r
             then bnd (has_port_forward E P r) (\<lambda>fw.
                    if \<not> fw then ret False
                    else bnd (getattribute_in E P ''host'') (\<lambda>h.
                         bnd (getattribute_in E P ''port'') (\<lambda>p.
                           (\<lambda>s. if \<not> is_port_bound E h p (world s)
                                 then thn (disconnect_in E P) (ret False) s
                                 else call_is_connected E s))))
             else call_is_connected E))"
    using P
    by (intro no_connect_intros no_connect_has_port_forward no_connect_getattribute_in
        no_connect_disconnect_in) simp_all
  from no_connectD [OF this, of s r s'] d
  show "grown s s'"
    by (auto simp: is_connected_in_def split: if_splits)
qed

lemma no_connect_monitor: "no_connect P \<Longrightarrow> no_connect (monitor E P key)"
  unfolding monitor_def
  by (intro no_connect_pass_AttributeError no_connect_intros no_connect_is_connected_in
      no_connect_disconnect_in) simp_all

lemma no_connect_setattr_in: "no_connect P \<Longrightarrow> no_connect (setattr_in E P key v)"
  unfolding setattr_in_def
  by (intro no_connect_intros no_connect_monitor) simp_all

lemma no_connect_restore: "no_connect P \<Longrightarrow> no_connect (restore E P kvs)"
  by (induction kvs) (simp_all add: no_connect_thn no_connect_setattr_in)

lemma no_connect_reset_in: "no_connect P \<Longrightarrow> no_connect (reset_in E P)"
proof -
  assume P: "no_connect P"
  have r: "no_connect (\<lambda>s. restore E P (prepreparation_values s) s)"
    by (rule no_connectI) (erule no_connectD [OF no_connect_restore [OF P]])
  show ?thesis
    unfolding reset_in_def
    using P r by (intro no_connect_intros no_connect_disconnect_in) simp_all
qed

lemma no_connect_lookup_named: "no_connect P \<Longrightarrow> no_connect (lookup_named E P key kind)"
  unfolding lookup_named_def
  by (intro no_connect_intros no_connect_setattr_in) simp_all

lemma no_connect_resolve_field: "no_connect P \<Longrightarrow> no_connect (resolve_field E P f)"
proof (cases f)
  case (PStr nm)
  assume "no_connect P"
  then have "no_connect (bnd (getattribute_in E P nm) (\<lambda>v.
            if is_callable v
            then thn (remember nm v) (bnd (call_value E v) (\<lambda>x. setattr_in E P nm x))
            else ret ()))"
    by (intro no_connect_intros no_connect_getattribute_in no_connect_setattr_in) simp_all
  with PStr show ?thesis by (simp add: resolve_field_def)
qed (simp_all add: resolve_field_def)

lemma no_connect_resolve_fields: "no_connect P \<Longrightarrow> no_connect (resolve_fields E P fs)"
  by (induction fs) (simp_all add: no_connect_thn no_connect_resolve_field)

lemma no_connect_balance_hosts: "no_connect P \<Longrightarrow> no_connect (balance_hosts E P)"
  unfolding balance_hosts_def
  by (intro no_connect_intros no_connect_setattr_in) simp_all

lemma no_connect_split_host_port: "no_connect P \<Longrightarrow> no_connect (split_host_port E P)"
  unfolding split_host_port_def
  by (intro no_connect_intros)
     (auto intro!: no_connect_thn no_connect_setattr_in split: pyval.splits list.splits)

lemma no_connect_coerce_port: "no_connect P \<Longrightarrow> no_connect (coerce_port E P)"
  unfolding coerce_port_def
  by (intro no_connect_intros) (auto intro!: no_connect_setattr_in split: sum.splits)

lemma no_connect_u_prepare_in: "no_connect P \<Longrightarrow> no_connect (u_prepare_in E P)"
proof -
  assume P: "no_connect P"
  have r: "no_connect (\<lambda>s. resolve_fields E P (items (prepared_fields s)) s)"
    by (rule no_connectI) (erule no_connectD [OF no_connect_resolve_fields [OF P]])
  show ?thesis
    unfolding u_prepare_in_def
    using P r
    by (intro no_connect_intros no_connect_lookup_named no_connect_balance_hosts
        no_connect_split_host_port no_connect_coerce_port) simp_all
qed

lemma no_connect_prepare_in: "no_connect P \<Longrightarrow> no_connect (prepare_in E P)"
proof (rule no_connectI)
  fix s r s'
  assume P: "no_connect P" and d: "prepare_in E P s = (r, s')"
  have "no_connect (thn (u_prepare_in E P) (modify (\<lambda>s. s\<lparr>prepared := True\<rparr>)))"
    using P by (intro no_connect_intros no_connect_u_prepare_in) simp_all
  from no_connectD [OF this, of s r s'] d
  show "grown s s'"
    by (auto simp: prepare_in_def split: if_splits)
qed

lemma no_connect_prepare_guarded: "no_connect (prepare_guarded E)"
  by (simp add: prepare_guarded_def no_connect_prepare_in)

lemma no_connect_remote_suffix: "no_connect P \<Longrightarrow> no_connect (remote_suffix E P)"
  unfolding remote_suffix_def
  by (intro no_connect_intros) simp_all

lemma no_connect_log_endpoint: "no_connect P \<Longrightarrow> no_connect (log_endpoint E P word)"
  unfolding log_endpoint_def
  by (intro no_connect_intros no_connect_getattribute_in no_connect_remote_suffix) simp_all

lemma no_connect_check_bound: "no_connect P \<Longrightarrow> no_connect (check_bound E P)"
  unfolding check_bound_def
  by (intro no_connect_intros no_connect_getattribute_in no_connect_disconnect_in) simp_all

lemma no_connect_assert_server_reachable_in:
  "no_connect P \<Longrightarrow> no_connect (assert_server_reachable_in E P)"
  unfolding assert_server_reachable_in_def
  by (intro no_connect_intros no_connect_getattribute_in no_connect_check_bound) simp_all

lemma no_connect_connect_check_in: "no_connect P \<Longrightarrow> no_connect (connect_check_in E P)"
  unfolding connect_check_in_def
  by (intro no_connect_intros no_connect_log_endpoint no_connect_assert_server_reachable_in
      no_connect_is_connected_in)

section \<open>The monitor of attribute changes\<close>

lemma slot_of_plain: "\<not> is_property key \<Longrightarrow> slot_of key = key"
  by (auto simp: is_property_def slot_of_def)

lemma slot_of_property: "is_property key \<Longrightarrow> slot_of key \<noteq> key"
  by (auto simp: is_property_def slot_of_def)



lemma monitor_not_connected:
  assumes "prepared s" and "listed key s"
    and "is_connected_in E P s = (Ret False, s1)"
  shows "monitor E P key s = (Ret (), s1)"
  using assms(3) by (simp add: monitor_active [OF assms(1,2)])

lemma setattr_in_unfold:
  "setattr_in E P key v s =
     (case monitor E P key s of
        (Ret x, s1) \<Rightarrow>
          if is_property key
          then (case monitor E P (slot_of key) s1 of
                  (Ret y, s2) \<Rightarrow> store (slot_of key) v s2
                | (Raise e, s2) \<Rightarrow> (Raise e, s2))
          else store (slot_of key) v s1
      | (Raise e, s1) \<Rightarrow> (Raise e, s1))"
  by (simp add: setattr_in_def thn_def bnd_def slot_of_plain split: prod.splits res.splits)


lemma setattr_in_not_connected:
  assumes "prepared s" and "listed key s"
    and "is_connected_in E P s = (Ret False, s1)"
    and "slot_of key = key \<or> \<not> listed (slot_of key) s"
  shows "setattr_in E P key v s = store (slot_of key) v s1"
proof (cases "is_property key")
  case False
  then show ?thesis
    by (simp add: setattr_in_unfold monitor_not_connected [OF assms(1-3)])
next
  case True
  from is_connected_in_config [OF assms(3)] have "config s1 = config s" by simp
  from config_eq_fields [OF this] have cf: "connection_fields s1 = connection_fields s" by simp
  from True have "slot_of key \<noteq> key" by (rule slot_of_property)
  with assms(4) have "\<not> listed (slot_of key) s" by blast
  with cf have "\<not> listed (slot_of key) s1" by (simp add: listed_def)
  then have m2: "monitor E P (slot_of key) s1 = (Ret (), s1)" by (rule monitor_other_key)
  show ?thesis
    by (simp add: setattr_in_unfold monitor_not_connected [OF assms(1-3)] m2 True)
qed

section \<open>Hooks that do not raise\<close>

lemma hooks_return_disconnect:
  "hooks_return E \<Longrightarrow> \<exists>w'. disconnect_hook E i w = (None, w')"
  by (cases "disconnect_hook E i w") (auto simp: hooks_return_def dest: spec [of _ i] fstI)

lemma hooks_return_is_connected:
  "hooks_return E \<Longrightarrow> \<exists>b w'. is_connected_hook E i w = (Inr b, w')"
proof -
  assume h: "hooks_return E"
  obtain r w' where c: "is_connected_hook E i w = (r, w')" by (cases "is_connected_hook E i w")
  from h obtain b where "fst (is_connected_hook E i w) = Inr b"
    unfolding hooks_return_def by blast
  with c show ?thesis by simp
qed

lemma call_disconnect_returns:
  "disconnect_hook E (inst.truncate s) (world s) = (None, w) \<Longrightarrow>
   call_disconnect E s = (Ret (), s\<lparr>world := w, trace := trace s @ [CallDisconnect]\<rparr>)"
  by (simp add: call_disconnect_def)

lemma call_is_connected_mild:
  "hooks_return E \<Longrightarrow> \<exists>b s'. call_is_connected E s = (Ret b, s')"
  using hooks_return_is_connected [of E "inst.truncate s" "world s"]
  by (auto simp: call_is_connected_def)

text \<open>The teardown of the forward (lines 649--651) on a prepared instance: it returns when
  the tunnel is a \<^verbatim>\<open>RemoteClient\<close> or none, and raises an \<^verbatim>\<open>AttributeError\<close> otherwise.\<close>

lemma teardown_result:
  assumes "prepared s"
  shows "\<exists>s'. bnd (read P ''remote'') (\<lambda>r.
         if truthy r
         then bnd (has_port_forward E P r) (\<lambda>fw. if fw then free_local_port E P else ret ())
         else ret ()) s =
       (if tunnel_ok s then Ret () else Raise (AttributeError ''has_port_forward''), s')"
proof (cases "truthy (remote s)")
  case False
  with assms show ?thesis
    by (simp add: read_prepared stored_simps monad_defs tunnel_ok_def)
next
  case True
  show ?thesis
  proof (cases "remote s")
    case (PRemote rc)
    with assms True show ?thesis
      by (simp add: read_prepared stored_simps monad_defs tunnel_ok_def has_port_forward_prepared
          free_local_port_def getattribute_port_prepared port_fget_prepared method_of_remote_def
          port_forward_stop_def split: prod.splits)
  qed (use assms True in \<open>simp_all add: read_prepared stored_simps monad_defs tunnel_ok_def
          has_port_forward_prepared\<close>)
qed

lemma disconnect_in_result:
  assumes "prepared s"
    and "disconnect_hook E (inst.truncate (s\<lparr>disconnecting := True\<rparr>)) (world s) = (None, w)"
  shows "\<exists>s'. disconnect_in E P s =
           (if tunnel_ok s then Ret RSelf else Raise (AttributeError ''has_port_forward''), s')"
proof -
  let ?s1 = "s\<lparr>disconnecting := True, world := w, trace := trace s @ [CallDisconnect]\<rparr>"
  have c: "call_disconnect E (s\<lparr>disconnecting := True\<rparr>) = (Ret (), ?s1)"
    using assms(2) by (simp add: call_disconnect_def)
  from assms(1) have p1: "prepared ?s1" by simp
  have t1: "tunnel_ok ?s1 = tunnel_ok s" by (simp add: tunnel_ok_def)
  from teardown_result [OF p1, of P E] t1 obtain s' where
    "bnd (read P ''remote'') (\<lambda>r.
         if truthy r
         then bnd (has_port_forward E P r) (\<lambda>fw. if fw then free_local_port E P else ret ())
         else ret ()) ?s1 =
       (if tunnel_ok s then Ret () else Raise (AttributeError ''has_port_forward''), s')"
    by auto
  with assms(1) c show ?thesis
    by (simp add: disconnect_in_def disconnect_body_def thn_def bnd_def [of "call_disconnect E"]
        try_finally_def)
       (simp add: bnd_def ret_def)
qed

lemma disconnect_in_returns:
  assumes "prepared s" and "tunnel_ok s"
    and "disconnect_hook E (inst.truncate (s\<lparr>disconnecting := True\<rparr>)) (world s) = (None, w)"
  shows "\<exists>s'. disconnect_in E P s = (Ret RSelf, s')"
  using disconnect_in_result [OF assms(1,3), of P] assms(2) by simp

lemma disconnect_in_mild:
  assumes "hooks_return E" and "disconnect_in E P s = (Raise e, s')"
  shows "is_AttributeError e"
proof (cases "prepared s")
  case False
  with assms(2) show ?thesis by (simp add: disconnect_in_unprepared)
next
  case True
  from hooks_return_disconnect [OF assms(1)] obtain w where
    "disconnect_hook E (inst.truncate (s\<lparr>disconnecting := True\<rparr>)) (world s) = (None, w)" by blast
  from disconnect_in_result [OF True this, of P] assms(2) show ?thesis
    by (auto split: if_splits)
qed


text \<open>The liveness check on a prepared instance, case by case.\<close>

lemma is_connected_in_direct:
  "prepared s \<Longrightarrow> \<not> truthy (remote s) \<Longrightarrow> is_connected_in E P s = call_is_connected E s"
  by (simp add: is_connected_in_def read_prepared stored_simps monad_defs)

lemma is_connected_in_no_tunnel_object:
  "prepared s \<Longrightarrow> \<not> tunnel_ok s \<Longrightarrow>
   is_connected_in E P s = (Raise (AttributeError ''has_port_forward''), s)"
  by (cases "remote s")
     (simp_all add: is_connected_in_def read_prepared stored_simps monad_defs tunnel_ok_def
        has_port_forward_prepared)

lemma is_connected_in_tunnel:
  assumes "prepared s" and "remote s = PRemote rc"
  shows "is_connected_in E P s =
     (if \<not> remote_has_port_forward E rc (u_host s) (u_port s) (world s) then (Ret False, s)
      else if \<not> is_port_bound E (PStr ''127.0.0.1'')
                  (fst (remote_port_forward E rc (forward_target s) (world s)))
                  (snd (remote_port_forward E rc (forward_target s) (world s)))
      then thn (disconnect_in E P) (ret False)
             (s\<lparr>world := snd (remote_port_forward E rc (forward_target s) (world s))\<rparr>)
      else call_is_connected E
             (s\<lparr>world := snd (remote_port_forward E rc (forward_target s) (world s))\<rparr>))"
  using assms
  by (simp add: is_connected_in_def read_prepared stored_simps monad_defs
      has_port_forward_prepared getattribute_host_prepared getattribute_port_prepared
      port_fget_prepared)

lemma is_connected_in_tunnel_ok:
  assumes "prepared s" and "is_connected_in E P s = (Ret b, s')"
  shows "tunnel_ok s"
proof (rule ccontr)
  assume "\<not> tunnel_ok s"
  from is_connected_in_no_tunnel_object [OF assms(1) this, of E P] assms(2) show False by simp
qed

lemma is_connected_in_mild:
  assumes "hooks_return E" and "is_connected_in E P s = (Raise e, s')"
  shows "is_AttributeError e"
proof (cases "prepared s")
  case False
  with assms(2) show ?thesis by (simp add: is_connected_in_unprepared)
next
  case True
  show ?thesis
  proof (cases "tunnel_ok s")
    case False
    from is_connected_in_no_tunnel_object [OF True False, of E P] assms(2) show ?thesis by auto
  next
    case ok: True
    show ?thesis
    proof (cases "truthy (remote s)")
      case False
      with assms(2) True have "call_is_connected E s = (Raise e, s')"
        by (simp add: is_connected_in_direct)
      with call_is_connected_mild [OF assms(1), of s] show ?thesis by auto
    next
      case tr: True
      with ok obtain rc where rc: "remote s = PRemote rc"
        by (cases "remote s") (simp_all add: tunnel_ok_def)
      let ?s1 = "s\<lparr>world := snd (remote_port_forward E rc (forward_target s) (world s))\<rparr>"
      from assms(2) have "thn (disconnect_in E P) (ret False) ?s1 = (Raise e, s') \<or>
          call_is_connected E ?s1 = (Raise e, s')"
        by (simp add: is_connected_in_tunnel [OF True rc] split: if_splits)
      then show ?thesis
      proof
        assume "thn (disconnect_in E P) (ret False) ?s1 = (Raise e, s')"
        then have "disconnect_in E P ?s1 = (Raise e, s')"
          by (cases "disconnect_in E P ?s1") (auto simp: monad_defs split: res.splits)
        then show ?thesis by (rule disconnect_in_mild [OF assms(1)])
      next
        assume "call_is_connected E ?s1 = (Raise e, s')"
        with call_is_connected_mild [OF assms(1), of ?s1] show ?thesis by auto
      qed
    qed
  qed
qed

text \<open>With hooks that do not raise, the monitor of field changes returns: what is left to
  raise in its \<^verbatim>\<open>try\<close> block is an \<^verbatim>\<open>AttributeError\<close>, which it passes over.\<close>

lemma monitor_returns:
  assumes "hooks_return E"
  shows "\<exists>s'. monitor E P key s = (Ret (), s')"
proof (cases "prepared s \<and> listed key s")
  case False
  then show ?thesis by (auto simp: monitor_unprepared monitor_other_key)
next
  case True
  then have p: "prepared s" and l: "listed key s" by simp_all
  obtain rc s1 where ic: "is_connected_in E P s = (rc, s1)" by (cases "is_connected_in E P s")
  let ?s2 = "s1\<lparr>trace := trace s1 @ [Warn (change_warning key)]\<rparr>"
  obtain rd s3 where dc: "disconnect_in E P ?s2 = (rd, s3)" by (cases "disconnect_in E P ?s2")
  have m1: "\<And>e. rc = Raise e \<Longrightarrow> is_AttributeError e"
    using is_connected_in_mild [OF assms, of P s _ s1] ic by simp
  have m2: "\<And>e. rd = Raise e \<Longrightarrow> is_AttributeError e"
    using disconnect_in_mild [OF assms, of P ?s2 _ s3] dc by simp
  show ?thesis
    using ic dc m1 m2
    by (auto simp: monitor_active [OF p l] split: res.splits bool.splits)
qed

lemma setattr_in_returns:
  assumes "hooks_return E"
  shows "\<exists>s'. setattr_in E P key v s = (Ret (), s')"
proof -
  from monitor_returns [OF assms] obtain s1 where m1: "monitor E P key s = (Ret (), s1)" by blast
  from monitor_returns [OF assms] obtain s2 where m2: "monitor E P (slot_of key) s1 = (Ret (), s2)"
    by blast
  have "fst (store (slot_of key) v s1) = Ret ()" "fst (store (slot_of key) v s2) = Ret ()"
    by (rule store_Ret)+
  then obtain t1 t2 where "store (slot_of key) v s1 = (Ret (), t1)"
    "store (slot_of key) v s2 = (Ret (), t2)"
    by (cases "store (slot_of key) v s1"; cases "store (slot_of key) v s2") simp
  with m1 m2 show ?thesis by (simp add: setattr_in_unfold)
qed

lemma restore_returns:
  assumes "hooks_return E"
  shows "\<exists>s'. restore E P kvs s = (Ret (), s')"
proof (induction kvs arbitrary: s)
  case Nil
  then show ?case by (simp add: ret_def)
next
  case (Cons kv kvs)
  from setattr_in_returns [OF assms] obtain s1 where
    "setattr_in E P (fst kv) (snd kv) s = (Ret (), s1)" by blast
  with Cons [of s1] show ?case by (simp add: thn_def bnd_def)
qed

section \<open>Runs in the simulated world\<close>

lemmas run_defs =
  bnd_def thn_def ret_def throw_def modify_def emit_def try_finally_def pass_AttributeError_def
  call_connect_def call_is_connected_def call_disconnect_def call_value_def method_of_remote_def
  method_of_registry_def port_forward_def port_forward_stop_def lookup_def prompt_input_def
  prompt_getpass_def prepare_triggers_def stored_def trigger_def read_def host_fget_def
  port_fget_def cached_def username_fget_def password_fget_def object_getattribute_def
  getattribute_in_def has_port_forward_def free_local_port_def disconnect_body_def
  disconnect_in_def is_connected_in_def store_def change_warning_def monitor_def slot_of_def
  is_property_def setattr_in_def reset_in_def remember_def lookup_named_def resolve_field_def balance_hosts_def
  split_host_port_def coerce_port_def u_prepare_in_def prepare_in_def remote_suffix_def
  log_endpoint_def unreachable_remote_def unreachable_local_def check_bound_def
  assert_server_reachable_in_def connect_attempt_in_def connect_check_in_def connect_in_def connect_attempt_def connect_check_def
  reconnect_in_def prepare_guarded_def getattribute_def setattr_def prepare_def is_connected_def
  disconnect_def reset_def assert_server_reachable_def connect_def reconnect_def init_def
  sim_def quiet_world_def inst.truncate_def calls_def
  host_has_port_def is_digit_def int_of_str_def strip_def is_space_def digits_value_def
  digit_val_def show_int_def show_nat.simps digit_char_def sq_def bq_def dq_def

lemma tunnel_connected_eq:
  "tunnel_connected =
     tunnel_client\<lparr>remote := PRemote 1, prepared := True,
       prepreparation_values := [(''remote'', PStr ''gateway'')],
       world := \<lparr>up = True, forwards = [''db.example:5432''],
                 bound = [(PStr ''127.0.0.1'', PInt 7000)], typed = []\<rparr>,
       trace := [Info ''Connecting to db.example:5432on gw.example.'', CallIsConnected, CallConnect,
                 Info ''Connected to db.example:5432on gw.example.'']\<rparr>"
  by (simp add: tunnel_connected_def tunnel_client_def broken_pipe_def run_defs)


lemma lazy: "getattribute (sim None None None) ''host'' lazy_client =
     (Ret (PFun 1),
      lazy_client\<lparr>getting := True, prepreparation_values := [(''_host'', PFun 1)]\<rparr>)"
  by (simp add: lazy_client_def run_defs)

section \<open>Disconnecting\<close>





text \<open>The guard of \<^verbatim>\<open>disconnect\<close> for an instance that is not prepared is a bare
  \<^verbatim>\<open>return\<close>: the method returns \<^verbatim>\<open>None\<close> there, and \<^verbatim>\<open>reconnect\<close>, which calls
  \<^verbatim>\<open>self.disconnect().connect()\<close>, fails.\<close>

lemma disconnect_unprepared_returns_None:
  "\<not> prepared s \<Longrightarrow> disconnect E s = (Ret RNone, s)"
  by (simp add: disconnect_def disconnect_in_unprepared)

lemma reconnect_unprepared_fails:
  "\<not> prepared s \<Longrightarrow> reconnect E s = (Raise (AttributeError ''connect''), s)"
  by (simp add: reconnect_def reconnect_in_def disconnect_in_unprepared monad_defs)

section \<open>Changing a connection field while connected\<close>

lemma trigger_pending:
  "prepare_pending s \<Longrightarrow> prepare_triggers s = Inr ts \<Longrightarrow> PStr key \<in> set ts \<Longrightarrow>
   trigger P key s =
     (case P (s\<lparr>getting := True\<rparr>) of
        (Ret x, s') \<Rightarrow> (Ret (), s'\<lparr>getting := False\<rparr>)
      | (Raise e, s') \<Rightarrow>
          if is_AttributeError e then (Ret (), s') else (Raise e, s'\<lparr>getting := False\<rparr>))"
  by (simp add: trigger_def prepare_pending_def)




lemma direct_connected_eq:
  "direct_connected =
     direct_client\<lparr>u_host := PStr ''db.example'', u_port := PInt 5432, prepared := True,
       world := \<lparr>up = True, forwards = [], bound = [(PStr ''db.example'', PInt 5432)],
                 typed = [''bob'', ''secret'']\<rparr>,
       trace := [Info ''Connecting to db.example:5432.'', CallIsConnected, CallConnect,
                 Info ''Connected to db.example:5432.'']\<rparr>"
  by (simp add: direct_connected_def direct_client_def run_defs)

lemma store_prepared_simps [simp]:
  "prepared (snd (store key v s)) = prepared s"
  "getting (snd (store key v s)) = getting s"
  "disconnecting (snd (store key v s)) = disconnecting s"
  "trace (snd (store key v s)) = trace s"
  "calls (snd (store key v s)) = calls s"
  by (simp_all add: store_frame calls_def)






text \<open>An \<^verbatim>\<open>AttributeError\<close> out of the forced \<^verbatim>\<open>disconnect\<close> is passed over by the handler of
  \<^verbatim>\<open>__setattr__\<close> (lines 367--368): the value is stored although the client is still
  prepared and connected.\<close>

lemma setattr_passes_AttributeError:
  "setattr (sim None (Some (AttributeError ''close'')) None) ''host'' (PStr ''db2.example'')
     direct_connected =
   (Ret (),
    direct_connected\<lparr>u_host := PStr ''db2.example'',
      trace := trace direct_connected @
          [CallIsConnected, Warn (change_warning ''host''), CallDisconnect]\<rparr>)"
  by (simp add: direct_connected_eq direct_client_def run_defs)

section \<open>Changing a connection field while not connected\<close>

lemma tunnel_dead_eq:
  "tunnel_dead =
     tunnel_client\<lparr>remote := PRemote 1, prepared := True,
       prepreparation_values := [(''remote'', PStr ''gateway'')],
       world := \<lparr>up = True, forwards = [''db.example:5432''], bound = [], typed = []\<rparr>,
       trace := [Info ''Connecting to db.example:5432on gw.example.'', CallIsConnected, CallConnect,
                 Info ''Connected to db.example:5432on gw.example.'']\<rparr>"
  by (simp add: tunnel_dead_def tunnel_connected_eq)

text \<open>
  Claim C10, as stated: when the client is prepared and does not report connected, an
  assignment to a connection field stores the value and no disconnect occurs. The liveness
  check that the assignment runs disconnects by itself when it finds the forward of the
  tunnel without a bound local port (lines 615--617): here the client is prepared,
  \<^verbatim>\<open>is_connected()\<close> answers \<^verbatim>\<open>False\<close>, and the assignment has called \<^verbatim>\<open>_disconnect\<close> and
  stopped the forward.
\<close>

theorem C10_liveness_check_disconnects_counterexample:
  "prepared tunnel_dead \<and>
   fst (is_connected (sim None None None) tunnel_dead) = Ret False \<and>
   fst (setattr (sim None None None) ''host'' (PStr ''db2.example'') tunnel_dead) = Ret () \<and>
   calls (snd (setattr (sim None None None) ''host'' (PStr ''db2.example'') tunnel_dead)) =
     calls tunnel_dead @ [CallDisconnect] \<and>
   forwards (world tunnel_dead) = [''db.example:5432''] \<and>
   forwards (world (snd (setattr (sim None None None) ''host'' (PStr ''db2.example'') tunnel_dead)))
     = [] \<and>
   prepared (snd (setattr (sim None None None) ''host'' (PStr ''db2.example'') tunnel_dead))"
  by (simp add: tunnel_dead_eq tunnel_client_def run_defs)

lemma trigger_any_prepared:
  "prepared s \<Longrightarrow> getattribute E key s = object_getattribute E (prepare_guarded E) key s"
  by (simp add: getattribute_def getattribute_in_prepared)

text \<open>
  Claim C10, amended: when the client is prepared and \<^verbatim>\<open>is_connected()\<close> answers \<^verbatim>\<open>False\<close>,
  an assignment to a connection field stores the value in the state that the liveness
  check left: the monitor logs no warning and forces no disconnect (without a tunnel the
  only hook called is \<^verbatim>\<open>_is_connected\<close>), \<^verbatim>\<open>prepared\<close> stays true, and a later read prepares
  nothing: it is the plain read of what was stored. The list of connection fields names
  properties and plain attributes, not the attribute behind a property, as the default
  list does.
\<close>

theorem C10_change_while_not_connected:
  assumes "prepared s" and "listed key s"
    and "is_connected E s = (Ret False, s1)"
    and "slot_of key = key \<or> \<not> listed (slot_of key) s"
  shows "setattr E key v s = store (slot_of key) v s1 \<and>
         prepared (snd (setattr E key v s)) \<and>
         trace (snd (setattr E key v s)) = trace s1 \<and>
         (\<not> truthy (remote s) \<longrightarrow>
            calls (snd (setattr E key v s)) = calls s @ [CallIsConnected]) \<and>
         (\<forall>k. getattribute E k (snd (setattr E key v s)) =
               object_getattribute E (prepare_guarded E) k (snd (setattr E key v s))) \<and>
         (storable (slot_of key) v \<longrightarrow>
            stored (slot_of key) (snd (setattr E key v s)) = (Ret v, snd (setattr E key v s)))"
proof -
  let ?P = "prepare_guarded E"
  from assms(3) have ic: "is_connected_in E ?P s = (Ret False, s1)"
    by (simp add: is_connected_def)
  have eq: "setattr E key v s = store (slot_of key) v s1"
    unfolding setattr_def by (rule setattr_in_not_connected [OF assms(1,2) ic assms(4)])
  from is_connected_in_config [OF ic] assms(1) have p1: "prepared s1" by simp
  have nr: "\<not> truthy (remote s) \<Longrightarrow> calls s1 = calls s @ [CallIsConnected]"
  proof -
    assume "\<not> truthy (remote s)"
    with ic assms(1) have "call_is_connected E s = (Ret False, s1)"
      by (simp add: is_connected_in_def read_prepared stored_simps monad_defs)
    from call_is_connected_frame [OF this] show ?thesis by simp
  qed
  have st: "storable (slot_of key) v \<Longrightarrow>
        stored (slot_of key) (snd (store (slot_of key) v s1)) = (Ret v, snd (store (slot_of key) v s1))"
    using store_stored [of "slot_of key" v s1]
      stored_state [of "slot_of key" "snd (store (slot_of key) v s1)"]
    by (cases "stored (slot_of key) (snd (store (slot_of key) v s1))") simp
  show ?thesis
    using eq p1 nr st by (simp add: trigger_any_prepared)
qed

theorem C10_change_while_not_connected_witness:
  "setattr (sim None None None) ''host'' (PFun 0)
      (direct_connected\<lparr>world := (world direct_connected)\<lparr>up := False\<rparr>\<rparr>) =
     (Ret (),
      direct_connected\<lparr>u_host := PFun 0, world := (world direct_connected)\<lparr>up := False\<rparr>,
        trace := trace direct_connected @ [CallIsConnected]\<rparr>) \<and>
   getattribute (sim None None None) ''host''
      (direct_connected\<lparr>u_host := PFun 0, world := (world direct_connected)\<lparr>up := False\<rparr>,
        trace := trace direct_connected @ [CallIsConnected]\<rparr>) =
     (Ret (PFun 0),
      direct_connected\<lparr>u_host := PFun 0, world := (world direct_connected)\<lparr>up := False\<rparr>,
        trace := trace direct_connected @ [CallIsConnected]\<rparr>)"
proof -
  let ?E = "sim None None None"
  let ?s = "direct_connected\<lparr>world := (world direct_connected)\<lparr>up := False\<rparr>\<rparr>"
  let ?s1 = "?s\<lparr>trace := trace direct_connected @ [CallIsConnected]\<rparr>"
  let ?s' = "direct_connected\<lparr>u_host := PFun 0, world := (world direct_connected)\<lparr>up := False\<rparr>,
        trace := trace direct_connected @ [CallIsConnected]\<rparr>"
  have a: "prepared ?s" by (simp add: direct_connected_eq)
  have b: "listed ''host'' ?s"
    by (simp add: listed_def direct_connected_eq direct_client_def init_def)
  have c: "is_connected ?E ?s = (Ret False, ?s1)"
    by (simp add: direct_connected_eq direct_client_def run_defs)
  have d: "slot_of ''host'' = ''host'' \<or> \<not> listed (slot_of ''host'') ?s"
    by (simp add: listed_def direct_connected_eq direct_client_def init_def slot_of_def)
  have e: "store (slot_of ''host'') (PFun 0) ?s1 = (Ret (), ?s')"
    by (simp add: store_def slot_of_def modify_def)
  have f: "object_getattribute ?E (prepare_guarded ?E) ''host'' ?s' = (Ret (PFun 0), ?s')"
    by (simp add: object_getattribute_def host_fget_prepared direct_connected_eq
        direct_client_def init_def)
  note th = C10_change_while_not_connected [OF a b c d, of "PFun 0"]
  from th e have 1: "setattr ?E ''host'' (PFun 0) ?s = (Ret (), ?s')" by (simp only:)
  from th have "getattribute ?E ''host'' (snd (setattr ?E ''host'' (PFun 0) ?s)) =
      object_getattribute ?E (prepare_guarded ?E) ''host'' (snd (setattr ?E ''host'' (PFun 0) ?s))"
    by blast
  with 1 f have 2: "getattribute ?E ''host'' ?s' = (Ret (PFun 0), ?s')" by (simp only: snd_conv)
  from 1 2 show ?thesis by blast
qed

section \<open>Guard flags and interactive credentials\<close>

text \<open>
  Claim C4: the two guard flags are cleared on every path out of the operation that set
  them. For \<^verbatim>\<open>__disconnecting\<close> this is lemma \<open>disconnect_in_clears_guard\<close>. For
  \<^verbatim>\<open>__getting\<close> the handler \<^verbatim>\<open>except Exception\<close> clears it, but the handler
  \<^verbatim>\<open>except AttributeError: pass\<close> before it does not: when \<^verbatim>\<open>prepare\<close> raises an
  \<^verbatim>\<open>AttributeError\<close>, the read returns with the flag still set. Here the host of the client
  is a callable that raises an \<^verbatim>\<open>AttributeError\<close>; reading \<^verbatim>\<open>host\<close> swallows the error,
  returns the callable itself, and leaves \<^verbatim>\<open>__getting\<close> set and the client unprepared.
\<close>

theorem C4_getting_left_set:
  "\<not> getting lazy_client \<and>
   getattribute (sim None None None) ''host'' lazy_client =
     (Ret (PFun 1),
      lazy_client\<lparr>getting := True, prepreparation_values := [(''_host'', PFun 1)]\<rparr>) \<and>
   getting (snd (getattribute (sim None None None) ''host'' lazy_client)) \<and>
   \<not> prepared (snd (getattribute (sim None None None) ''host'' lazy_client))"
  by (simp add: lazy_client_def run_defs)

text \<open>On the other paths the flag is cleared: when \<^verbatim>\<open>prepare\<close> returns, and when it raises
  anything but an \<^verbatim>\<open>AttributeError\<close>.\<close>

lemma trigger_clears_getting:
  assumes "prepare_pending s" and "prepare_triggers s = Inr ts" and "PStr key \<in> set ts"
    and "P (s\<lparr>getting := True\<rparr>) = (r, s')" and "\<forall>m. r \<noteq> Raise (AttributeError m)"
  shows "\<not> getting (snd (trigger P key s))"
proof (cases r)
  case (Ret x)
  with assms show ?thesis by (simp add: trigger_pending)
next
  case (Raise e)
  with assms(5) have "\<not> is_AttributeError e" by (cases e) auto
  with Raise assms show ?thesis by (simp add: trigger_pending)
qed

lemma username_fget_prompts:
  assumes "prepared s" and "u_username s = PBool True" and "cached_auth s ''username'' = None"
  shows "username_fget E P s =
     (Ret (PStr (fst (input_fn E (username_prompt s) (world s)))),
      s\<lparr>cached_auth := (cached_auth s)(''username'' \<mapsto> fst (input_fn E (username_prompt s) (world s))),
        world := snd (input_fn E (username_prompt s) (world s)),
        trace := trace s @ [Prompt (username_prompt s)]\<rparr>)"
  using assms
  by (simp add: username_fget_def read_prepared stored_simps monad_defs prompt_input_def
      cached_def username_prompt_def split: prod.splits)

lemma username_fget_cached:
  assumes "prepared s" and "u_username s = PBool True" and "cached_auth s ''username'' = Some a"
  shows "username_fget E P s = (Ret (PStr a), s)"
  using assms
  by (simp add: username_fget_def read_prepared stored_simps monad_defs cached_def)

lemma password_fget_prompts:
  assumes "prepared s" and "u_password s = PBool True" and "cached_auth s ''password'' = None"
  shows "password_fget E P s =
     (Ret (PStr (fst (getpass_fn E (password_prompt s) (world s)))),
      s\<lparr>cached_auth := (cached_auth s)(''password'' \<mapsto> fst (getpass_fn E (password_prompt s) (world s))),
        world := snd (getpass_fn E (password_prompt s) (world s)),
        trace := trace s @ [PromptMasked (password_prompt s)]\<rparr>)"
  using assms
  by (simp add: password_fget_def read_prepared stored_simps monad_defs prompt_getpass_def
      cached_def password_prompt_def split: prod.splits)

lemma password_fget_cached:
  assumes "prepared s" and "u_password s = PBool True" and "cached_auth s ''password'' = Some a"
  shows "password_fget E P s = (Ret (PStr a), s)"
  using assms
  by (simp add: password_fget_def read_prepared stored_simps monad_defs cached_def)

lemma getattribute_after_trigger:
  assumes "trigger (prepare_guarded E) key s = (Ret (), s0)"
  shows "getattribute E key s = object_getattribute E (prepare_guarded E) key s0"
  using assms by (simp add: getattribute_def getattribute_in_def monad_defs)

text \<open>
  Claim C9. A read of \<^verbatim>\<open>username\<close> first runs the guard of \<^verbatim>\<open>__getattribute__\<close>, which
  prepares the client if that is pending, and then the getter on the state \<open>s0\<close> that the
  guard left. With \<^verbatim>\<open>_username\<close> being \<^verbatim>\<open>True\<close> and nothing cached, the getter prompts once
  (visibly), caches the answer and returns it; a read of the resulting state returns the
  same answer, prompts nothing and changes nothing, so every later read does the same.
  The same holds for \<^verbatim>\<open>password\<close>, with the masked prompt.
\<close>

theorem C9_prompt_once:
  "(trigger (prepare_guarded E) ''username'' s = (Ret (), s0) \<and> prepared s0 \<and>
    u_username s0 = PBool True \<and> cached_auth s0 ''username'' = None \<and>
    input_fn E (username_prompt s0) (world s0) = (a, w) \<longrightarrow>
      getattribute E ''username'' s =
        (Ret (PStr a),
         s0\<lparr>cached_auth := (cached_auth s0)(''username'' \<mapsto> a), world := w,
            trace := trace s0 @ [Prompt (username_prompt s0)]\<rparr>) \<and>
      getattribute E ''username''
         (s0\<lparr>cached_auth := (cached_auth s0)(''username'' \<mapsto> a), world := w,
            trace := trace s0 @ [Prompt (username_prompt s0)]\<rparr>) =
        (Ret (PStr a),
         s0\<lparr>cached_auth := (cached_auth s0)(''username'' \<mapsto> a), world := w,
            trace := trace s0 @ [Prompt (username_prompt s0)]\<rparr>)) \<and>
   (trigger (prepare_guarded E) ''password'' s = (Ret (), s0) \<and> prepared s0 \<and>
    u_password s0 = PBool True \<and> cached_auth s0 ''password'' = None \<and>
    getpass_fn E (password_prompt s0) (world s0) = (a, w) \<longrightarrow>
      getattribute E ''password'' s =
        (Ret (PStr a),
         s0\<lparr>cached_auth := (cached_auth s0)(''password'' \<mapsto> a), world := w,
            trace := trace s0 @ [PromptMasked (password_prompt s0)]\<rparr>) \<and>
      getattribute E ''password''
         (s0\<lparr>cached_auth := (cached_auth s0)(''password'' \<mapsto> a), world := w,
            trace := trace s0 @ [PromptMasked (password_prompt s0)]\<rparr>) =
        (Ret (PStr a),
         s0\<lparr>cached_auth := (cached_auth s0)(''password'' \<mapsto> a), world := w,
            trace := trace s0 @ [PromptMasked (password_prompt s0)]\<rparr>))"
proof (intro conjI impI)
  assume h: "trigger (prepare_guarded E) ''username'' s = (Ret (), s0) \<and> prepared s0 \<and>
    u_username s0 = PBool True \<and> cached_auth s0 ''username'' = None \<and>
    input_fn E (username_prompt s0) (world s0) = (a, w)"
  let ?s1 = "s0\<lparr>cached_auth := (cached_auth s0)(''username'' \<mapsto> a), world := w,
            trace := trace s0 @ [Prompt (username_prompt s0)]\<rparr>"
  from h show "getattribute E ''username'' s = (Ret (PStr a), ?s1)"
    by (simp add: getattribute_after_trigger object_getattribute_def username_fget_prompts)
  from h have "prepared ?s1" "u_username ?s1 = PBool True" "cached_auth ?s1 ''username'' = Some a"
    by simp_all
  then show "getattribute E ''username'' ?s1 = (Ret (PStr a), ?s1)"
    by (simp add: trigger_any_prepared object_getattribute_def username_fget_cached)
next
  assume h: "trigger (prepare_guarded E) ''password'' s = (Ret (), s0) \<and> prepared s0 \<and>
    u_password s0 = PBool True \<and> cached_auth s0 ''password'' = None \<and>
    getpass_fn E (password_prompt s0) (world s0) = (a, w)"
  let ?s1 = "s0\<lparr>cached_auth := (cached_auth s0)(''password'' \<mapsto> a), world := w,
            trace := trace s0 @ [PromptMasked (password_prompt s0)]\<rparr>"
  from h show "getattribute E ''password'' s = (Ret (PStr a), ?s1)"
    by (simp add: getattribute_after_trigger object_getattribute_def password_fget_prompts)
  from h have "prepared ?s1" "u_password ?s1 = PBool True" "cached_auth ?s1 ''password'' = Some a"
    by simp_all
  then show "getattribute E ''password'' ?s1 = (Ret (PStr a), ?s1)"
    by (simp add: trigger_any_prepared object_getattribute_def password_fget_cached)
qed


theorem C9_prompt_once_witness:
  "getattribute (sim None None None) ''username'' direct_client = (Ret (PStr ''bob''), direct_named) \<and>
   getattribute (sim None None None) ''username'' direct_named = (Ret (PStr ''bob''), direct_named) \<and>
   getattribute (sim None None None) ''password'' direct_named =
     (Ret (PStr ''secret''), direct_authenticated) \<and>
   getattribute (sim None None None) ''password'' direct_authenticated =
     (Ret (PStr ''secret''), direct_authenticated) \<and>
   trace direct_authenticated =
     [Prompt (username_prompt direct_client), PromptMasked (password_prompt direct_client)]"
proof -
  let ?E = "sim None None None"
  have t1: "trigger (prepare_guarded ?E) ''username'' direct_client = (Ret (), direct_prepared)"
    by (simp add: direct_prepared_def direct_client_def run_defs)
  have p1: "prepared direct_prepared" "u_username direct_prepared = PBool True"
    "cached_auth direct_prepared ''username'' = None"
    by (simp_all add: direct_prepared_def direct_client_def init_def)
  have i1: "input_fn ?E (username_prompt direct_prepared) (world direct_prepared) =
      (''bob'', (world direct_client)\<lparr>typed := [''secret'']\<rparr>)"
    by (simp add: direct_prepared_def direct_client_def init_def sim_def quiet_world_def)
  have e1: "direct_prepared\<lparr>cached_auth := (cached_auth direct_prepared)(''username'' \<mapsto> ''bob''),
       world := (world direct_client)\<lparr>typed := [''secret'']\<rparr>,
       trace := trace direct_prepared @ [Prompt (username_prompt direct_prepared)]\<rparr> = direct_named"
    by (simp add: direct_named_def direct_prepared_def direct_client_def init_def
        username_prompt_def)
  have t2: "trigger (prepare_guarded ?E) ''password'' direct_named = (Ret (), direct_named)"
    by (simp add: direct_named_def direct_prepared_def)
  have p2: "prepared direct_named" "u_password direct_named = PBool True"
    "cached_auth direct_named ''password'' = None"
    by (simp_all add: direct_named_def direct_prepared_def direct_client_def init_def)
  have i2: "getpass_fn ?E (password_prompt direct_named) (world direct_named) =
      (''secret'', (world direct_client)\<lparr>typed := []\<rparr>)"
    by (simp add: direct_named_def direct_client_def init_def sim_def quiet_world_def)
  have e2: "direct_named\<lparr>cached_auth := (cached_auth direct_named)(''password'' \<mapsto> ''secret''),
       world := (world direct_client)\<lparr>typed := []\<rparr>,
       trace := trace direct_named @ [PromptMasked (password_prompt direct_named)]\<rparr>
       = direct_authenticated"
    by (simp add: direct_authenticated_def direct_named_def direct_prepared_def direct_client_def
        init_def password_prompt_def)
  from C9_prompt_once [of ?E direct_client direct_prepared "''bob''"
      "(world direct_client)\<lparr>typed := [''secret'']\<rparr>"] t1 p1 i1
  have u: "getattribute ?E ''username'' direct_client = (Ret (PStr ''bob''), direct_named) \<and>
           getattribute ?E ''username'' direct_named = (Ret (PStr ''bob''), direct_named)"
    unfolding e1 by blast
  from C9_prompt_once [of ?E direct_named direct_named "''secret''"
      "(world direct_client)\<lparr>typed := []\<rparr>"] t2 p2 i2
  have v: "getattribute ?E ''password'' direct_named = (Ret (PStr ''secret''), direct_authenticated) \<and>
           getattribute ?E ''password'' direct_authenticated =
             (Ret (PStr ''secret''), direct_authenticated)"
    unfolding e2 by blast
  have w: "trace direct_authenticated =
     [Prompt (username_prompt direct_client), PromptMasked (password_prompt direct_client)]"
    by (simp add: direct_authenticated_def)
  from u v w show ?thesis by blast
qed

section \<open>The reachability check\<close>

lemma getattribute_port_direct:
  "prepared s \<Longrightarrow> \<not> truthy (remote s) \<Longrightarrow> getattribute_in E P ''port'' s = (Ret (u_port s), s)"
  by (simp add: getattribute_port_prepared port_fget_prepared)

lemma getattribute_host_direct:
  "prepared s \<Longrightarrow> \<not> truthy (remote s) \<Longrightarrow> getattribute_in E P ''host'' s = (Ret (u_host s), s)"
  by (simp add: getattribute_host_prepared)

lemma log_endpoint_direct:
  "prepared s \<Longrightarrow> \<not> truthy (remote s) \<Longrightarrow>
   log_endpoint E P ''Connecting'' s = (Ret (), announced s)"
  by (simp add: log_endpoint_def getattribute_host_direct read_prepared stored_simps
      remote_suffix_def monad_defs announced_def)

lemma announced_simps [simp]:
  "prepared (announced s) = prepared s"
  "remote (announced s) = remote s"
  "u_host (announced s) = u_host s"
  "u_port (announced s) = u_port s"
  "world (announced s) = world s"
  by (simp_all add: announced_def)

lemma announced_None [simp]: "u_host s = PNone \<Longrightarrow> announced s = s"
  by (simp add: announced_def)

lemma assert_skipped:
  assumes "prepared s" and "\<not> truthy (remote s)" and "u_host s = PNone" and "u_port s = PNone"
  shows "assert_server_reachable_in E P s = (Ret (), s)"
  using assms
  by (simp add: assert_server_reachable_in_def getattribute_host_direct getattribute_port_direct
      monad_defs)

lemma assert_no_host:
  assumes "prepared s" and "\<not> truthy (remote s)" and "u_host s = PNone" and "u_port s \<noteq> PNone"
  shows "assert_server_reachable_in E P s =
           (Raise (ValueError ''Port specified but no host provided.''), s)"
  using assms
  by (simp add: assert_server_reachable_in_def getattribute_host_direct getattribute_port_direct
      monad_defs)

lemma assert_no_port:
  assumes "prepared s" and "\<not> truthy (remote s)" and "u_host s \<noteq> PNone" and "u_port s = PNone"
  shows "assert_server_reachable_in E P s =
           (Raise (ValueError ''Host specified but no port specified.''), s)"
  using assms
  by (simp add: assert_server_reachable_in_def getattribute_host_direct getattribute_port_direct
      monad_defs)

lemma assert_unbound:
  assumes "prepared s" and "\<not> truthy (remote s)" and "u_host s \<noteq> PNone" and "u_port s \<noteq> PNone"
    and "\<not> is_port_bound E (u_host s) (u_port s) (world s)"
  shows "assert_server_reachable_in E P s =
     (case disconnect_in E P s of
        (Ret r, s') \<Rightarrow>
          (Raise (DuctServerUnreachable (unreachable_local (u_host s) (u_port s))), s')
      | (Raise e, s') \<Rightarrow> (Raise e, s'))"
proof -
  obtain rd sd where d: "disconnect_in E P s = (rd, sd)" by (cases "disconnect_in E P s")
  from disconnect_in_config [OF d] have c: "config sd = config s" and p: "prepared sd = prepared s"
    by simp_all
  from config_eq_fields [OF c] have f: "remote sd = remote s" "u_host sd = u_host s"
    "u_port sd = u_port s" by simp_all
  from p assms(1) have psd: "prepared sd" by simp
  from f assms(2) have nr: "\<not> truthy (remote sd)" by simp
  have a: "assert_server_reachable_in E P s =
      thn (disconnect_in E P)
        (bnd (getattribute_in E P ''host'') (\<lambda>h''.
         bnd (getattribute_in E P ''port'') (\<lambda>p''.
           throw (DuctServerUnreachable (unreachable_local h'' p''))))) s"
    using assms
    by (simp add: assert_server_reachable_in_def check_bound_def getattribute_host_direct
        getattribute_port_direct read_prepared stored_simps bnd_def ret_def)
  show ?thesis
    unfolding a using d f
    by (cases rd)
       (simp_all add: thn_def bnd_def throw_def getattribute_host_direct [OF psd nr]
          getattribute_port_direct [OF psd nr])
qed


lemma connect_in_raises:
  "connect_check_in E P s = (Raise e, s') \<Longrightarrow> connect_in E P s = (Raise e, s')"
  by (simp add: connect_in_def bnd_def)

lemma connect_check_in_direct:
  "prepared s \<Longrightarrow> \<not> truthy (remote s) \<Longrightarrow>
   connect_check_in E P s =
     thn (assert_server_reachable_in E P) (is_connected_in E P) (announced s)"
  by (simp add: connect_check_in_def log_endpoint_direct thn_def bnd_def [of "log_endpoint E P ''Connecting''"])

lemma log_endpoint_no_host:
  "prepared s \<Longrightarrow> \<not> truthy (remote s) \<Longrightarrow> u_host s = PNone \<Longrightarrow>
   log_endpoint E P word s = (Ret (), s)"
  by (simp add: log_endpoint_def getattribute_host_direct monad_defs)

lemma disconnect_in_direct:
  assumes "prepared s" and "\<not> truthy (remote s)"
    and "disconnect_hook E (inst.truncate (s\<lparr>disconnecting := True\<rparr>)) (world s) = (None, w)"
  shows "disconnect_in E P s =
           (Ret RSelf, s\<lparr>disconnecting := False, world := w, trace := trace s @ [CallDisconnect]\<rparr>)"
  using assms
  by (simp add: disconnect_in_def disconnect_body_def call_disconnect_def read_prepared
      stored_simps monad_defs try_finally_def)

lemma call_is_connected_answer:
  "is_connected_hook E (inst.truncate s) (world s) = (Inr b, w) \<Longrightarrow>
   call_is_connected E s = (Ret b, s\<lparr>world := w, trace := trace s @ [CallIsConnected]\<rparr>)"
  by (simp add: call_is_connected_def)

lemma call_connect_returns:
  "connect_hook E (inst.truncate s) (world s) = (None, w) \<Longrightarrow>
   call_connect E s = (Ret (), s\<lparr>world := w, trace := trace s @ [CallConnect]\<rparr>)"
  by (simp add: call_connect_def)

text \<open>\<^verbatim>\<open>connect\<close> on a prepared client without a tunnel and with no host and no port: the
  check is skipped and \<^verbatim>\<open>connect\<close> asks \<^verbatim>\<open>_is_connected\<close>, then calls \<^verbatim>\<open>_connect\<close> if the
  answer is \<^verbatim>\<open>False\<close>.\<close>

lemma connect_in_skipped:
  assumes "prepared s" and "\<not> truthy (remote s)" and "u_host s = PNone" and "u_port s = PNone"
  shows "is_connected_hook E (inst.truncate s) (world s) = (Inr True, wc) \<Longrightarrow>
         connect_in E P s = (Ret RSelf, s\<lparr>world := wc, trace := trace s @ [CallIsConnected]\<rparr>)"
    and "is_connected_hook E (inst.truncate s) (world s) = (Inr False, wc) \<Longrightarrow>
         connect_hook E (inst.truncate s) wc = (None, wk) \<Longrightarrow>
         connect_in E P s =
           (Ret RSelf, s\<lparr>world := wk, trace := trace s @ [CallIsConnected, CallConnect]\<rparr>)"
proof -
  have cc: "connect_check_in E P s = call_is_connected E s"
    using assms
    by (simp add: connect_check_in_direct thn_def bnd_def assert_skipped is_connected_in_direct)
  {
    assume h: "is_connected_hook E (inst.truncate s) (world s) = (Inr True, wc)"
    let ?s1 = "s\<lparr>world := wc, trace := trace s @ [CallIsConnected]\<rparr>"
    have l: "log_endpoint E P ''Connected'' ?s1 = (Ret (), ?s1)"
      using assms by (intro log_endpoint_no_host) simp_all
    show "connect_in E P s = (Ret RSelf, ?s1)"
      by (simp add: connect_in_def cc call_is_connected_answer [OF h] l
          bnd_def thn_def ret_def)
  }
  {
    assume h: "is_connected_hook E (inst.truncate s) (world s) = (Inr False, wc)"
      and k: "connect_hook E (inst.truncate s) wc = (None, wk)"
    let ?s1 = "s\<lparr>world := wc, trace := trace s @ [CallIsConnected]\<rparr>"
    let ?s2 = "s\<lparr>world := wk, trace := trace s @ [CallIsConnected, CallConnect]\<rparr>"
    from k have "connect_hook E (inst.truncate ?s1) (world ?s1) = (None, wk)"
      by (simp add: inst.truncate_def)
    from call_connect_returns [OF this] have c: "call_connect E ?s1 = (Ret (), ?s2)" by simp
    have l: "log_endpoint E P ''Connected'' ?s2 = (Ret (), ?s2)"
      using assms by (intro log_endpoint_no_host) simp_all
    show "connect_in E P s = (Ret RSelf, ?s2)"
      by (simp add: connect_in_def cc call_is_connected_answer [OF h] connect_attempt_in_def c l
          bnd_def thn_def ret_def)
  }
qed

text \<open>
  Claim C6, as stated: with no tunnel and the port not bound on this machine, the client
  disconnects and \<^verbatim>\<open>connect\<close> fails with the local-unreachable error. The check calls
  \<^verbatim>\<open>self.disconnect()\<close> (line 543) before it raises, so a failure of \<^verbatim>\<open>_disconnect\<close> is what
  \<^verbatim>\<open>connect\<close> raises: here the client has no tunnel, nothing listens on its port, and
  \<^verbatim>\<open>connect\<close> raises the error of the hook.
\<close>

theorem C6_disconnect_fails_counterexample:
  "prepared unbound_client \<and> remote unbound_client = PNone \<and>
   u_host unbound_client = PStr ''10.0.0.5'' \<and> u_port unbound_client = PInt 9999 \<and>
   \<not> is_port_bound broken_pipe (u_host unbound_client) (u_port unbound_client) (world unbound_client) \<and>
   fst (connect broken_pipe unbound_client) = Raise (OtherError ''broken pipe'')"
  by (simp add: unbound_client_def direct_prepared_def direct_client_def broken_pipe_def run_defs)

text \<open>
  Claim C6, amended: the reachability check at the start of \<^verbatim>\<open>connect\<close>, for a prepared
  client. A client whose effective host is null has no tunnel (with a tunnel the host is the
  loopback address), so the cases are stated for a client without a tunnel, where the
  effective host and port are \<^verbatim>\<open>_host\<close> and \<^verbatim>\<open>_port\<close>. (1) Both null: the check returns at
  once and \<^verbatim>\<open>connect\<close> proceeds: it asks \<^verbatim>\<open>_is_connected\<close>, calls \<^verbatim>\<open>_connect\<close> if the answer is
  \<^verbatim>\<open>False\<close>, and returns the instance. (2) One of them null: the check, and with it
  \<^verbatim>\<open>connect\<close>, raises the \<^verbatim>\<open>ValueError\<close> of that case. (3) Neither null and the port not
  bound on this machine: the check calls \<^verbatim>\<open>disconnect\<close>; when \<^verbatim>\<open>_disconnect\<close> returns,
  \<^verbatim>\<open>connect\<close> raises \<^verbatim>\<open>DuctServerUnreachable\<close> with the host and the port in its message,
  and when \<^verbatim>\<open>_disconnect\<close> raises, \<^verbatim>\<open>connect\<close> raises that error.
\<close>

theorem C6_reachability_check:
  assumes "prepared s" and "\<not> truthy (remote s)"
  shows
   "(u_host s = PNone \<and> u_port s = PNone \<longrightarrow>
       assert_server_reachable E s = (Ret (), s) \<and> connect_check E s = is_connected E s \<and>
       (is_connected_hook E (inst.truncate s) (world s) = (Inr True, wc) \<longrightarrow>
          connect E s = (Ret RSelf, s\<lparr>world := wc, trace := trace s @ [CallIsConnected]\<rparr>)) \<and>
       (is_connected_hook E (inst.truncate s) (world s) = (Inr False, wc) \<and>
        connect_hook E (inst.truncate s) wc = (None, wk) \<longrightarrow>
          connect E s =
            (Ret RSelf, s\<lparr>world := wk, trace := trace s @ [CallIsConnected, CallConnect]\<rparr>))) \<and>
    (u_host s = PNone \<and> u_port s \<noteq> PNone \<longrightarrow>
       assert_server_reachable E s =
         (Raise (ValueError ''Port specified but no host provided.''), s) \<and>
       connect E s = (Raise (ValueError ''Port specified but no host provided.''), s)) \<and>
    (u_host s \<noteq> PNone \<and> u_port s = PNone \<longrightarrow>
       assert_server_reachable E s =
         (Raise (ValueError ''Host specified but no port specified.''), s) \<and>
       connect E s =
         (Raise (ValueError ''Host specified but no port specified.''), announced s)) \<and>
    (u_host s \<noteq> PNone \<and> u_port s \<noteq> PNone \<and>
     \<not> is_port_bound E (u_host s) (u_port s) (world s) \<longrightarrow>
       (disconnect_hook E (inst.truncate (s\<lparr>disconnecting := True\<rparr>)) (world s) = (None, wd) \<longrightarrow>
          assert_server_reachable E s =
            (Raise (DuctServerUnreachable (unreachable_local (u_host s) (u_port s))),
             s\<lparr>disconnecting := False, world := wd, trace := trace s @ [CallDisconnect]\<rparr>) \<and>
          connect E s =
            (Raise (DuctServerUnreachable (unreachable_local (u_host s) (u_port s))),
             s\<lparr>disconnecting := False, world := wd,
               trace := trace (announced s) @ [CallDisconnect]\<rparr>)) \<and>
       (disconnect_hook E (inst.truncate (s\<lparr>disconnecting := True\<rparr>)) (world s) = (Some e, wd) \<longrightarrow>
          assert_server_reachable E s =
            (Raise e, s\<lparr>disconnecting := False, world := wd, trace := trace s @ [CallDisconnect]\<rparr>) \<and>
          connect E s =
            (Raise e, s\<lparr>disconnecting := False, world := wd,
               trace := trace (announced s) @ [CallDisconnect]\<rparr>))) \<and>
    unreachable_local (u_host s) (u_port s) =
      ''Cannot connect to '' @ sq (py_str (u_host s) @ '':'' @ py_str (u_port s)) @
      '' on your current connection. Please check your connection before trying again.''"
proof (intro conjI impI)
  let ?P = "prepare_guarded E"
  have pa: "prepared (announced s)" and ra: "\<not> truthy (remote (announced s))"
    using assms by simp_all
  have ta: "inst.truncate ((announced s)\<lparr>disconnecting := True\<rparr>) =
      inst.truncate (s\<lparr>disconnecting := True\<rparr>)"
    by (simp add: announced_def inst.truncate_def)
  have sa: "\<And>w t. (announced s)\<lparr>disconnecting := False, world := w, trace := t\<rparr> =
      s\<lparr>disconnecting := False, world := w, trace := t\<rparr>"
    by (simp add: announced_def)
  {
    assume h: "u_host s = PNone \<and> u_port s = PNone"
    with assms show "assert_server_reachable E s = (Ret (), s)"
      by (simp add: assert_server_reachable_def assert_skipped)
    from h assms show "connect_check E s = is_connected E s"
      by (simp add: connect_check_def is_connected_def connect_check_in_direct thn_def bnd_def
          assert_skipped)
    from h have h1: "u_host s = PNone" and h2: "u_port s = PNone" by simp_all
    {
      assume k: "is_connected_hook E (inst.truncate s) (world s) = (Inr True, wc)"
      show "connect E s = (Ret RSelf, s\<lparr>world := wc, trace := trace s @ [CallIsConnected]\<rparr>)"
        unfolding connect_def by (rule connect_in_skipped(1) [OF assms h1 h2 k])
    }
    {
      assume "is_connected_hook E (inst.truncate s) (world s) = (Inr False, wc) \<and>
        connect_hook E (inst.truncate s) wc = (None, wk)"
      then have k1: "is_connected_hook E (inst.truncate s) (world s) = (Inr False, wc)"
        and k2: "connect_hook E (inst.truncate s) wc = (None, wk)" by blast+
      show "connect E s =
            (Ret RSelf, s\<lparr>world := wk, trace := trace s @ [CallIsConnected, CallConnect]\<rparr>)"
        unfolding connect_def by (rule connect_in_skipped(2) [OF assms h1 h2 k1 k2])
    }
  }
  {
    assume h: "u_host s = PNone \<and> u_port s \<noteq> PNone"
    with assms show "assert_server_reachable E s =
         (Raise (ValueError ''Port specified but no host provided.''), s)"
      by (simp add: assert_server_reachable_def assert_no_host)
    from h assms have "connect_check_in E ?P s =
         (Raise (ValueError ''Port specified but no host provided.''), s)"
      by (simp add: connect_check_in_direct thn_def bnd_def assert_no_host)
    then show "connect E s = (Raise (ValueError ''Port specified but no host provided.''), s)"
      unfolding connect_def by (rule connect_in_raises)
  }
  {
    assume h: "u_host s \<noteq> PNone \<and> u_port s = PNone"
    with assms show "assert_server_reachable E s =
         (Raise (ValueError ''Host specified but no port specified.''), s)"
      by (simp add: assert_server_reachable_def assert_no_port)
    from h have "assert_server_reachable_in E ?P (announced s) =
         (Raise (ValueError ''Host specified but no port specified.''), announced s)"
      by (intro assert_no_port pa ra) simp_all
    with assms have "connect_check_in E ?P s =
         (Raise (ValueError ''Host specified but no port specified.''), announced s)"
      by (simp add: connect_check_in_direct thn_def bnd_def)
    then show "connect E s =
         (Raise (ValueError ''Host specified but no port specified.''), announced s)"
      unfolding connect_def by (rule connect_in_raises)
  }
  {
    assume h: "u_host s \<noteq> PNone \<and> u_port s \<noteq> PNone \<and>
     \<not> is_port_bound E (u_host s) (u_port s) (world s)"
    from h have au: "assert_server_reachable_in E ?P (announced s) =
       (case disconnect_in E ?P (announced s) of
        (Ret r, s') \<Rightarrow>
          (Raise (DuctServerUnreachable (unreachable_local (u_host s) (u_port s))), s')
      | (Raise e, s') \<Rightarrow> (Raise e, s'))"
      using assert_unbound [OF pa ra, of E ?P] by (simp split: prod.splits res.splits)
    from h have as: "assert_server_reachable_in E ?P s =
       (case disconnect_in E ?P s of
        (Ret r, s') \<Rightarrow>
          (Raise (DuctServerUnreachable (unreachable_local (u_host s) (u_port s))), s')
      | (Raise e, s') \<Rightarrow> (Raise e, s'))"
      using assert_unbound [OF assms, of E ?P] by simp
    {
      assume k: "disconnect_hook E (inst.truncate (s\<lparr>disconnecting := True\<rparr>)) (world s) = (None, wd)"
      from disconnect_in_direct [OF assms k, of ?P] as
      show "assert_server_reachable E s =
            (Raise (DuctServerUnreachable (unreachable_local (u_host s) (u_port s))),
             s\<lparr>disconnecting := False, world := wd, trace := trace s @ [CallDisconnect]\<rparr>)"
        by (simp add: assert_server_reachable_def)
      from k ta have "disconnect_hook E (inst.truncate ((announced s)\<lparr>disconnecting := True\<rparr>))
          (world (announced s)) = (None, wd)" by simp
      from disconnect_in_direct [OF pa ra this, of ?P] au
      have "assert_server_reachable_in E ?P (announced s) =
            (Raise (DuctServerUnreachable (unreachable_local (u_host s) (u_port s))),
             s\<lparr>disconnecting := False, world := wd,
               trace := trace (announced s) @ [CallDisconnect]\<rparr>)"
        by (simp add: sa)
      with assms have "connect_check_in E ?P s =
            (Raise (DuctServerUnreachable (unreachable_local (u_host s) (u_port s))),
             s\<lparr>disconnecting := False, world := wd,
               trace := trace (announced s) @ [CallDisconnect]\<rparr>)"
        by (simp add: connect_check_in_direct thn_def bnd_def)
      then show "connect E s =
            (Raise (DuctServerUnreachable (unreachable_local (u_host s) (u_port s))),
             s\<lparr>disconnecting := False, world := wd,
               trace := trace (announced s) @ [CallDisconnect]\<rparr>)"
        unfolding connect_def by (rule connect_in_raises)
    }
    {
      assume k: "disconnect_hook E (inst.truncate (s\<lparr>disconnecting := True\<rparr>)) (world s) = (Some e, wd)"
      from disconnect_in_hook_fails [OF assms(1) k, of ?P] as
      show "assert_server_reachable E s =
            (Raise e, s\<lparr>disconnecting := False, world := wd, trace := trace s @ [CallDisconnect]\<rparr>)"
        by (simp add: assert_server_reachable_def)
      from k ta have "disconnect_hook E (inst.truncate ((announced s)\<lparr>disconnecting := True\<rparr>))
          (world (announced s)) = (Some e, wd)" by simp
      from disconnect_in_hook_fails [OF pa this, of ?P] au
      have "assert_server_reachable_in E ?P (announced s) =
            (Raise e, s\<lparr>disconnecting := False, world := wd,
               trace := trace (announced s) @ [CallDisconnect]\<rparr>)"
        by (simp add: sa)
      with assms have "connect_check_in E ?P s =
            (Raise e, s\<lparr>disconnecting := False, world := wd,
               trace := trace (announced s) @ [CallDisconnect]\<rparr>)"
        by (simp add: connect_check_in_direct thn_def bnd_def)
      then show "connect E s =
            (Raise e, s\<lparr>disconnecting := False, world := wd,
               trace := trace (announced s) @ [CallDisconnect]\<rparr>)"
        unfolding connect_def by (rule connect_in_raises)
    }
  }
  show "unreachable_local (u_host s) (u_port s) =
      ''Cannot connect to '' @ sq (py_str (u_host s) @ '':'' @ py_str (u_port s)) @
      '' on your current connection. Please check your connection before trying again.''"
    by (simp add: unreachable_local_def)
qed


theorem C6_reachability_check_witness:
  "connect (sim None None None) (direct_prepared\<lparr>u_host := PNone, u_port := PNone\<rparr>)
     = (Ret RSelf,
        direct_prepared\<lparr>u_host := PNone, u_port := PNone,
          world := (world direct_prepared)\<lparr>up := True\<rparr>,
          trace := [CallIsConnected, CallConnect]\<rparr>) \<and>
   connect dropping (direct_prepared\<lparr>u_host := PNone, u_port := PNone\<rparr>)
     = (Ret RSelf,
        direct_prepared\<lparr>u_host := PNone, u_port := PNone,
          world := (world direct_prepared)\<lparr>up := True\<rparr>,
          trace := [CallIsConnected, CallConnect]\<rparr>) \<and>
   connect (sim None None (Some True)) (direct_prepared\<lparr>u_host := PNone, u_port := PNone\<rparr>)
     = (Ret RSelf,
        direct_prepared\<lparr>u_host := PNone, u_port := PNone, trace := [CallIsConnected]\<rparr>) \<and>
   connect (sim None None None) (direct_prepared\<lparr>u_host := PNone\<rparr>)
     = (Raise (ValueError ''Port specified but no host provided.''),
        direct_prepared\<lparr>u_host := PNone\<rparr>) \<and>
   fst (connect (sim None None None) (direct_prepared\<lparr>u_port := PNone\<rparr>))
     = Raise (ValueError ''Host specified but no port specified.'') \<and>
   connect (sim None None None) unbound_client
     = (Raise (DuctServerUnreachable
          (''Cannot connect to '' @ sq ''10.0.0.5:9999'' @
           '' on your current connection. Please check your connection before trying again.'')),
        unbound_client\<lparr>trace := [Info ''Connecting to 10.0.0.5:9999.'', CallDisconnect]\<rparr>) \<and>
   connect broken_pipe unbound_client
     = (Raise (OtherError ''broken pipe''),
        unbound_client\<lparr>trace := [Info ''Connecting to 10.0.0.5:9999.'', CallDisconnect]\<rparr>)"
proof -
  let ?E = "sim None None None"
  let ?T = "sim None None (Some True)"
  let ?s1 = "direct_prepared\<lparr>u_host := PNone, u_port := PNone\<rparr>"
  let ?s2 = "direct_prepared\<lparr>u_host := PNone\<rparr>"
  let ?s3 = "direct_prepared\<lparr>u_port := PNone\<rparr>"
  let ?w = "world direct_prepared"
  have p: "prepared ?s1" "prepared ?s2" "prepared ?s3" "prepared unbound_client"
    by (simp_all add: unbound_client_def direct_prepared_def)
  have r: "\<not> truthy (remote ?s1)" "\<not> truthy (remote ?s2)" "\<not> truthy (remote ?s3)"
    "\<not> truthy (remote unbound_client)"
    by (simp_all add: unbound_client_def direct_prepared_def direct_client_def init_def)
  have f1: "u_host ?s1 = PNone \<and> u_port ?s1 = PNone" by simp
  have f2: "u_host ?s2 = PNone \<and> u_port ?s2 \<noteq> PNone"
    by (simp add: direct_prepared_def)
  have f3: "u_host ?s3 \<noteq> PNone \<and> u_port ?s3 = PNone"
    by (simp add: direct_prepared_def)
  have f4: "u_host unbound_client \<noteq> PNone \<and> u_port unbound_client \<noteq> PNone \<and>
     \<not> is_port_bound ?E (u_host unbound_client) (u_port unbound_client) (world unbound_client)"
    "u_host unbound_client \<noteq> PNone \<and> u_port unbound_client \<noteq> PNone \<and>
     \<not> is_port_bound broken_pipe (u_host unbound_client) (u_port unbound_client) (world unbound_client)"
    by (simp_all add: unbound_client_def direct_prepared_def direct_client_def init_def sim_def
        quiet_world_def broken_pipe_def)
  have up: "\<not> up ?w" by (simp add: direct_prepared_def direct_client_def init_def quiet_world_def)
  have k1: "is_connected_hook ?E (inst.truncate ?s1) (world ?s1) = (Inr False, ?w) \<and>
      connect_hook ?E (inst.truncate ?s1) ?w = (None, ?w\<lparr>up := True\<rparr>)"
    "is_connected_hook dropping (inst.truncate ?s1) (world ?s1) = (Inr False, ?w) \<and>
      connect_hook dropping (inst.truncate ?s1) ?w = (None, ?w\<lparr>up := True\<rparr>)"
    "is_connected_hook ?T (inst.truncate ?s1) (world ?s1) = (Inr True, ?w)"
    using up by (simp_all add: sim_def dropping_def)
  have k4: "disconnect_hook ?E (inst.truncate (unbound_client\<lparr>disconnecting := True\<rparr>))
        (world unbound_client) = (None, world unbound_client)"
    "disconnect_hook broken_pipe (inst.truncate (unbound_client\<lparr>disconnecting := True\<rparr>))
        (world unbound_client) = (Some (OtherError ''broken pipe''), world unbound_client)"
    by (simp_all add: sim_def broken_pipe_def unbound_client_def direct_prepared_def
        direct_client_def init_def quiet_world_def)
  have m4: "py_str (u_host unbound_client) @ '':'' @ py_str (u_port unbound_client) = ''10.0.0.5:9999''"
    by (simp add: unbound_client_def show_int_def show_nat.simps digit_char_def)
  have t4: "unbound_client\<lparr>disconnecting := False, world := world unbound_client,
               trace := trace (announced unbound_client) @ [CallDisconnect]\<rparr> =
        unbound_client\<lparr>trace := [Info ''Connecting to 10.0.0.5:9999.'', CallDisconnect]\<rparr>"
    by (simp add: announced_def unbound_client_def direct_prepared_def direct_client_def init_def
        show_int_def show_nat.simps digit_char_def)
  have t1: "\<And>w. ?s1\<lparr>world := w, trace := trace ?s1 @ [CallIsConnected, CallConnect]\<rparr> =
        direct_prepared\<lparr>u_host := PNone, u_port := PNone, world := w,
          trace := [CallIsConnected, CallConnect]\<rparr>"
    "?s1\<lparr>world := ?w, trace := trace ?s1 @ [CallIsConnected]\<rparr> =
        direct_prepared\<lparr>u_host := PNone, u_port := PNone, trace := [CallIsConnected]\<rparr>"
    by (simp_all add: direct_prepared_def direct_client_def init_def)
  from C6_reachability_check [OF p(1) r(1), of ?E ?w "?w\<lparr>up := True\<rparr>"] f1 k1(1)
  have "connect ?E ?s1 =
      (Ret RSelf, ?s1\<lparr>world := ?w\<lparr>up := True\<rparr>, trace := trace ?s1 @ [CallIsConnected, CallConnect]\<rparr>)"
    by blast
  then have 1: "connect ?E ?s1 = (Ret RSelf,
        direct_prepared\<lparr>u_host := PNone, u_port := PNone, world := ?w\<lparr>up := True\<rparr>,
          trace := [CallIsConnected, CallConnect]\<rparr>)"
    by (simp only: t1)
  from C6_reachability_check [OF p(1) r(1), of dropping ?w "?w\<lparr>up := True\<rparr>"] f1 k1(2)
  have "connect dropping ?s1 =
      (Ret RSelf, ?s1\<lparr>world := ?w\<lparr>up := True\<rparr>, trace := trace ?s1 @ [CallIsConnected, CallConnect]\<rparr>)"
    by blast
  then have x1a: "connect dropping ?s1 = (Ret RSelf,
        direct_prepared\<lparr>u_host := PNone, u_port := PNone, world := ?w\<lparr>up := True\<rparr>,
          trace := [CallIsConnected, CallConnect]\<rparr>)"
    by (simp only: t1)
  from C6_reachability_check [OF p(1) r(1), of ?T ?w] f1 k1(3)
  have "connect ?T ?s1 = (Ret RSelf, ?s1\<lparr>world := ?w, trace := trace ?s1 @ [CallIsConnected]\<rparr>)"
    by blast
  then have x1b: "connect ?T ?s1 = (Ret RSelf,
        direct_prepared\<lparr>u_host := PNone, u_port := PNone, trace := [CallIsConnected]\<rparr>)"
    by (simp only: t1)
  from C6_reachability_check [OF p(2) r(2), of ?E] f2 have 2: "connect ?E ?s2 =
      (Raise (ValueError ''Port specified but no host provided.''), ?s2)" by blast
  from C6_reachability_check [OF p(3) r(3), of ?E] f3 have "connect ?E ?s3 =
      (Raise (ValueError ''Host specified but no port specified.''), announced ?s3)" by blast
  then have 3: "fst (connect ?E ?s3) = Raise (ValueError ''Host specified but no port specified.'')"
    by simp
  note th4 = C6_reachability_check [OF p(4) r(4), of ?E _ _ "world unbound_client"]
  from th4 f4(1) k4(1) have "connect ?E unbound_client =
            (Raise (DuctServerUnreachable
               (unreachable_local (u_host unbound_client) (u_port unbound_client))),
             unbound_client\<lparr>disconnecting := False, world := world unbound_client,
               trace := trace (announced unbound_client) @ [CallDisconnect]\<rparr>)" by blast
  moreover from th4 have "unreachable_local (u_host unbound_client) (u_port unbound_client) =
      ''Cannot connect to '' @ sq (py_str (u_host unbound_client) @ '':'' @ py_str (u_port unbound_client)) @
      '' on your current connection. Please check your connection before trying again.''" by blast
  ultimately have 4: "connect ?E unbound_client
     = (Raise (DuctServerUnreachable
          (''Cannot connect to '' @ sq ''10.0.0.5:9999'' @
           '' on your current connection. Please check your connection before trying again.'')),
        unbound_client\<lparr>trace := [Info ''Connecting to 10.0.0.5:9999.'', CallDisconnect]\<rparr>)"
    by (simp only: t4 m4)
  from C6_reachability_check [OF p(4) r(4), of broken_pipe _ _ "world unbound_client"
      "OtherError ''broken pipe''"] f4(2) k4(2)
  have "connect broken_pipe unbound_client =
            (Raise (OtherError ''broken pipe''),
             unbound_client\<lparr>disconnecting := False, world := world unbound_client,
               trace := trace (announced unbound_client) @ [CallDisconnect]\<rparr>)" by blast
  then have 5: "connect broken_pipe unbound_client
     = (Raise (OtherError ''broken pipe''),
        unbound_client\<lparr>trace := [Info ''Connecting to 10.0.0.5:9999.'', CallDisconnect]\<rparr>)"
    by (simp only: t4)
  from 1 x1a x1b 2 3 4 5 show ?thesis by blast
qed

section \<open>Resetting\<close>

lemma stored_frame_flags [simp]:
  "fst (stored key (s\<lparr>prepared := b\<rparr>)) = fst (stored key s)"
  "fst (stored key (s\<lparr>prepreparation_values := pv\<rparr>)) = fst (stored key s)"
  "fst (stored key (s\<lparr>cached_auth := ca\<rparr>)) = fst (stored key s)"
  by (simp_all add: stored_def split: option.splits)

lemma stored_fst: "fst (stored key s) = r \<Longrightarrow> stored key s = (r, s)"
  using stored_state [of key s] by (cases "stored key s") simp

lemma setattr_in_frame:
  assumes "setattr_in E P key v s = (Ret u, s')"
  shows "cached_auth s' = cached_auth s"
    and "prepreparation_values s' = prepreparation_values s"
    and "storable (slot_of key) v \<Longrightarrow> fst (stored (slot_of key) s') = Ret v"
    and "\<And>k'. k' \<noteq> slot_of key \<Longrightarrow> fst (stored k' s') = fst (stored k' s)"
proof -
  obtain r1 s1 where m1: "monitor E P key s = (r1, s1)" by (cases "monitor E P key s")
  obtain r2 s2 where m2: "monitor E P (slot_of key) s1 = (r2, s2)"
    by (cases "monitor E P (slot_of key) s1")
  from monitor_frame [OF m1] have c1: "config s1 = config s" by simp
  from monitor_frame [OF m2] have c2: "config s2 = config s1" by simp
  have "\<exists>t. config t = config s \<and> s' = snd (store (slot_of key) v t)"
  proof (cases "is_property key")
    case True
    with assms m1 m2 have "s' = snd (store (slot_of key) v s2)"
      by (auto simp: setattr_in_unfold split: res.splits)
    with c1 c2 show ?thesis by auto
  next
    case False
    with assms m1 have "s' = snd (store (slot_of key) v s1)"
      by (auto simp: setattr_in_unfold split: res.splits)
    with c1 show ?thesis by auto
  qed
  then obtain t where ct: "config t = config s" and s': "s' = snd (store (slot_of key) v t)"
    by blast
  from config_eq_fields [OF ct] have ft: "cached_auth t = cached_auth s"
    "prepreparation_values t = prepreparation_values s" by simp_all
  from s' ft show "cached_auth s' = cached_auth s"
    and "prepreparation_values s' = prepreparation_values s"
    by (simp_all add: store_frame)
  show "storable (slot_of key) v \<Longrightarrow> fst (stored (slot_of key) s') = Ret v"
    unfolding s' by (rule store_stored)
  show "\<And>k'. k' \<noteq> slot_of key \<Longrightarrow> fst (stored k' s') = fst (stored k' s)"
    unfolding s' using config_stored [OF ct] by (simp add: store_config_other)
qed

lemma restore_frame:
  assumes "restore E P kvs s = (Ret u, s')"
  shows "cached_auth s' = cached_auth s \<and>
         prepreparation_values s' = prepreparation_values s \<and>
         (\<forall>kv. last_entry kvs kv \<and> storable (slot_of (fst kv)) (snd kv) \<longrightarrow>
               fst (stored (slot_of (fst kv)) s') = Ret (snd kv)) \<and>
         (\<forall>k'. k' \<notin> set (map (\<lambda>y. slot_of (fst y)) kvs) \<longrightarrow>
               fst (stored k' s') = fst (stored k' s))"
  using assms
proof (induction kvs arbitrary: s)
  case Nil
  then show ?case by (simp add: ret_def)
next
  case (Cons kv0 kvs)
  obtain r1 s1 where st: "setattr_in E P (fst kv0) (snd kv0) s = (r1, s1)"
    by (cases "setattr_in E P (fst kv0) (snd kv0) s")
  with Cons.prems(1) have r1: "r1 = Ret ()" and rest: "restore E P kvs s1 = (Ret u, s')"
    by (auto simp: thn_def bnd_def split: res.splits)
  from st r1 have st': "setattr_in E P (fst kv0) (snd kv0) s = (Ret (), s1)" by simp
  note f = setattr_in_frame [OF st']
  note ih = Cons.IH [OF rest]
  have here: "\<forall>kv. last_entry (kv0 # kvs) kv \<and> storable (slot_of (fst kv)) (snd kv) \<longrightarrow>
               fst (stored (slot_of (fst kv)) s') = Ret (snd kv)"
  proof (intro allI impI)
    fix kv assume a: "last_entry (kv0 # kvs) kv \<and> storable (slot_of (fst kv)) (snd kv)"
    then have sv: "storable (slot_of (fst kv)) (snd kv)" by simp
    from a have "last_entry kvs kv \<or>
        (kv0 = kv \<and> slot_of (fst kv) \<notin> set (map (\<lambda>y. slot_of (fst y)) kvs))" by simp
    then show "fst (stored (slot_of (fst kv)) s') = Ret (snd kv)"
    proof
      assume "last_entry kvs kv"
      with ih sv show ?thesis by blast
    next
      assume b: "kv0 = kv \<and> slot_of (fst kv) \<notin> set (map (\<lambda>y. slot_of (fst y)) kvs)"
      with ih have "fst (stored (slot_of (fst kv)) s') = fst (stored (slot_of (fst kv)) s1)"
        by blast
      moreover from f(3) b sv have "fst (stored (slot_of (fst kv)) s1) = Ret (snd kv)" by blast
      ultimately show ?thesis by simp
    qed
  qed
  have other: "\<forall>k'. k' \<notin> set (map (\<lambda>y. slot_of (fst y)) (kv0 # kvs)) \<longrightarrow>
      fst (stored k' s') = fst (stored k' s)"
  proof (intro allI impI)
    fix k' assume k: "k' \<notin> set (map (\<lambda>y. slot_of (fst y)) (kv0 # kvs))"
    then have "k' \<noteq> slot_of (fst kv0)" and "k' \<notin> set (map (\<lambda>y. slot_of (fst y)) kvs)" by auto
    with ih f(4) show "fst (stored k' s') = fst (stored k' s)" by simp
  qed
  from ih f(1,2) here other show ?case by simp
qed

lemma last_entry_member: "last_entry kvs kv \<Longrightarrow> kv \<in> set kvs"
  by (induction kvs) auto

text \<open>In a snapshot with one entry for an attribute at most, every entry is the last one
  for its attribute.\<close>

lemma last_entry_distinct:
  "distinct (map (\<lambda>y. slot_of (fst y)) kvs) \<Longrightarrow> kv \<in> set kvs \<Longrightarrow> last_entry kvs kv"
  by (induction kvs) auto

lemma restore_keeps_cache:
  "restore E P kvs s = (Ret u, s') \<Longrightarrow> cached_auth s' = cached_auth s"
proof (induction kvs arbitrary: s)
  case Nil
  then show ?case by (simp add: ret_def)
next
  case (Cons kv kvs)
  obtain r1 s1 where st: "setattr_in E P (fst kv) (snd kv) s = (r1, s1)"
    by (cases "setattr_in E P (fst kv) (snd kv) s")
  with Cons.prems have r1: "r1 = Ret ()" and rest: "restore E P kvs s1 = (Ret u, s')"
    by (auto simp: thn_def bnd_def split: res.splits)
  from st r1 have "setattr_in E P (fst kv) (snd kv) s = (Ret (), s1)" by simp
  from setattr_in_frame(1) [OF this] Cons.IH [OF rest] show ?case by simp
qed

lemma reset_in_returns:
  assumes "reset_in E P s = (Ret r, s')"
  shows "\<exists>r1 s1 s2. disconnect_in E P s = (Ret r1, s1) \<and>
           restore E P (prepreparation_values s) (s1\<lparr>cached_auth := Map.empty\<rparr>) = (Ret (), s2) \<and>
           s' = s2\<lparr>prepreparation_values := [], prepared := False\<rparr> \<and> r = RSelf"
proof -
  obtain r1 s1 where d: "disconnect_in E P s = (r1, s1)" by (cases "disconnect_in E P s")
  from disconnect_in_config [OF d] have "config s1 = config s" by simp
  from config_eq_fields [OF this] have pv: "prepreparation_values s1 = prepreparation_values s"
    by simp
  obtain r2 s2 where rs: "restore E P (prepreparation_values s) (s1\<lparr>cached_auth := Map.empty\<rparr>) = (r2, s2)"
    by (cases "restore E P (prepreparation_values s) (s1\<lparr>cached_auth := Map.empty\<rparr>)")
  from assms d rs pv show ?thesis
    by (cases r1; cases r2) (auto simp: reset_in_def monad_defs)
qed

lemma reset_in_clean:
  assumes "reset_in E P s = (Ret r, s')"
  shows "r = RSelf \<and> \<not> prepared s' \<and> cached_auth s' = Map.empty \<and>
         prepreparation_values s' = [] \<and>
         (\<forall>kv \<in> set (prepreparation_values s).
            last_entry (prepreparation_values s) kv \<and> storable (slot_of (fst kv)) (snd kv) \<longrightarrow>
              stored (slot_of (fst kv)) s' = (Ret (snd kv), s'))"
proof -
  from reset_in_returns [OF assms] obtain r1 s1 s2 where
    d: "disconnect_in E P s = (Ret r1, s1)" and
    rs: "restore E P (prepreparation_values s) (s1\<lparr>cached_auth := Map.empty\<rparr>) = (Ret (), s2)" and
    s': "s' = s2\<lparr>prepreparation_values := [], prepared := False\<rparr>" and r: "r = RSelf"
    by blast
  from restore_keeps_cache [OF rs] have ca: "cached_auth s2 = Map.empty" by simp
  have "\<forall>kv \<in> set (prepreparation_values s).
            last_entry (prepreparation_values s) kv \<and> storable (slot_of (fst kv)) (snd kv) \<longrightarrow>
              stored (slot_of (fst kv)) s' = (Ret (snd kv), s')"
  proof (intro ballI impI)
    fix kv assume "last_entry (prepreparation_values s) kv \<and> storable (slot_of (fst kv)) (snd kv)"
    with restore_frame [OF rs]
    have "fst (stored (slot_of (fst kv)) s2) = Ret (snd kv)" by blast
    then have "fst (stored (slot_of (fst kv)) s') = Ret (snd kv)" unfolding s' by simp
    then show "stored (slot_of (fst kv)) s' = (Ret (snd kv), s')" by (rule stored_fst)
  qed
  with r s' ca show ?thesis by simp
qed

text \<open>With hooks that do not raise and a tunnel that is a \<^verbatim>\<open>RemoteClient\<close> or none,
  \<^verbatim>\<open>reset\<close> returns.\<close>

lemma reset_in_total:
  assumes "hooks_return E" and "prepared s \<longrightarrow> tunnel_ok s"
  shows "\<exists>s'. reset_in E P s = (Ret RSelf, s')"
proof -
  have "\<exists>r1 s1. disconnect_in E P s = (Ret r1, s1)"
  proof (cases "prepared s")
    case False
    then show ?thesis by (simp add: disconnect_in_unprepared)
  next
    case True
    from hooks_return_disconnect [OF assms(1)] obtain w where
      "disconnect_hook E (inst.truncate (s\<lparr>disconnecting := True\<rparr>)) (world s) = (None, w)"
      by blast
    from disconnect_in_returns [OF True _ this, of P] assms(2) True show ?thesis by blast
  qed
  then obtain r1 s1 where d: "disconnect_in E P s = (Ret r1, s1)" by blast
  from restore_returns [OF assms(1)] obtain s2 where
    "restore E P (prepreparation_values (s1\<lparr>cached_auth := Map.empty\<rparr>))
       (s1\<lparr>cached_auth := Map.empty\<rparr>) = (Ret (), s2)" by blast
  with d show ?thesis by (simp add: reset_in_def monad_defs)
qed

lemma reset_in_disconnect_fails:
  assumes "prepared s"
    and "disconnect_hook E (inst.truncate (s\<lparr>disconnecting := True\<rparr>)) (world s) = (Some e, w)"
  shows "reset_in E P s =
          (Raise e, s\<lparr>disconnecting := False, world := w, trace := trace s @ [CallDisconnect]\<rparr>)"
  by (simp add: reset_in_def thn_def bnd_def [of "disconnect_in E P"]
      disconnect_in_hook_fails [OF assms])






section \<open>A connect hook that raises\<close>

lemma call_connect_raises:
  "connect_hook E (inst.truncate s) (world s) = (Some e, w) \<Longrightarrow>
   call_connect E s = (Raise e, s\<lparr>world := w, trace := trace s @ [CallConnect]\<rparr>)"
  by (simp add: call_connect_def)

lemma connect_in_hook_raises:
  assumes "connect_check_in E P s = (Ret False, s1)"
    and "connect_hook E (inst.truncate s1) (world s1) = (Some e, w)"
  shows "connect_in E P s =
     (case reset_in E P (s1\<lparr>world := w, trace := trace s1 @ [CallConnect]\<rparr>) of
        (Ret r, s2) \<Rightarrow> (Raise e, s2)
      | (Raise e', s2) \<Rightarrow> (Raise e', s2))"
  using assms
  by (simp add: connect_in_def connect_attempt_in_def call_connect_raises monad_defs
      split: prod.splits res.splits)

lemma thn_returned: "thn m n s = (Ret b, s1) \<Longrightarrow> \<exists>s0. n s0 = (Ret b, s1)"
  by (cases "m s") (auto simp: thn_def bnd_def split: res.splits)

text \<open>When the check of \<^verbatim>\<open>connect\<close> has returned, the liveness check has returned, and this
  it does on a prepared client only if the tunnel is a \<^verbatim>\<open>RemoteClient\<close> or none.\<close>

lemma connect_check_in_tunnel_ok:
  assumes "connect_check_in E P s = (Ret b, s1)" and "prepared s1"
  shows "tunnel_ok s1"
proof -
  from assms(1) obtain sa where "thn (assert_server_reachable_in E P) (is_connected_in E P) sa = (Ret b, s1)"
    unfolding connect_check_in_def by (blast dest: thn_returned)
  then obtain s0 where ic: "is_connected_in E P s0 = (Ret b, s1)" by (blast dest: thn_returned)
  from is_connected_in_config [OF ic] have c: "config s1 = config s0" and p: "prepared s1 = prepared s0"
    by simp_all
  from p assms(2) have "prepared s0" by simp
  from is_connected_in_tunnel_ok [OF this ic] have "tunnel_ok s0" .
  with config_eq_fields [OF c] show ?thesis by (simp add: tunnel_ok_def)
qed

text \<open>
  Claim C1, as stated: when \<^verbatim>\<open>_connect\<close> raises, \<^verbatim>\<open>connect\<close> resets the client, which leaves
  it unprepared and clean, and raises the error of \<^verbatim>\<open>_connect\<close>. The handler calls
  \<^verbatim>\<open>self.reset()\<close> (line 577) before it raises, and \<^verbatim>\<open>reset\<close> begins with \<^verbatim>\<open>disconnect\<close>: here
  \<^verbatim>\<open>_connect\<close> fails with \<open>connection refused\<close> and \<^verbatim>\<open>_disconnect\<close> with \<open>broken pipe\<close>, and
  \<^verbatim>\<open>connect\<close> raises the second error and leaves the client prepared, with its snapshot.
\<close>

theorem C1_reset_fails_counterexample:
  "fst (connect refusing_broken balanced_client) = Raise (OtherError ''broken pipe'') \<and>
   prepared (snd (connect refusing_broken balanced_client)) \<and>
   prepreparation_values (snd (connect refusing_broken balanced_client)) =
     [(''remote'', PStr ''gateway''), (''_username'', PFun 3),
      (''_host'', PList [PStr ''db1.example'', PStr ''db2.example''])] \<and>
   calls (snd (connect refusing_broken balanced_client)) =
     [CallIsConnected, CallConnect, CallDisconnect]"
  by (simp add: balanced_client_def refusing_broken_def run_defs)

text \<open>
  Claim C1, amended. When \<^verbatim>\<open>connect\<close> has reached the hook (its check returned, with
  \<^verbatim>\<open>is_connected()\<close> false) and \<^verbatim>\<open>_connect\<close> raises \<open>e\<close>, \<^verbatim>\<open>connect\<close> runs \<^verbatim>\<open>reset\<close> on the state
  that the hook left. When \<^verbatim>\<open>_disconnect\<close> and \<^verbatim>\<open>_is_connected\<close> do not raise, \<^verbatim>\<open>reset\<close>
  returns and \<^verbatim>\<open>connect\<close> raises \<open>e\<close> itself, not wrapped, and leaves the instance unprepared
  and clean: nothing cached, no snapshot, every attribute of the snapshot back at its
  recorded value. When the \<^verbatim>\<open>_disconnect\<close> of \<^verbatim>\<open>reset\<close> raises, \<^verbatim>\<open>connect\<close> raises that error
  in place of \<open>e\<close> and the client stays prepared.
\<close>

theorem C1_connect_failure_resets:
  assumes "connect_check E s = (Ret False, s1)"
    and "connect_hook E (inst.truncate s1) (world s1) = (Some e, w)"
  shows
   "(hooks_return E \<longrightarrow>
       fst (reset E (s1\<lparr>world := w, trace := trace s1 @ [CallConnect]\<rparr>)) = Ret RSelf \<and>
       connect E s = (Raise e, snd (reset E (s1\<lparr>world := w, trace := trace s1 @ [CallConnect]\<rparr>))) \<and>
       \<not> prepared (snd (connect E s)) \<and>
       cached_auth (snd (connect E s)) = Map.empty \<and>
       prepreparation_values (snd (connect E s)) = [] \<and>
       (\<forall>kv \<in> set (prepreparation_values s1).
          last_entry (prepreparation_values s1) kv \<and> storable (slot_of (fst kv)) (snd kv) \<longrightarrow>
            stored (slot_of (fst kv)) (snd (connect E s)) = (Ret (snd kv), snd (connect E s)))) \<and>
    (prepared s1 \<and>
     disconnect_hook E (inst.truncate (s1\<lparr>disconnecting := True\<rparr>)) w = (Some e', w') \<longrightarrow>
       connect E s =
         (Raise e', s1\<lparr>disconnecting := False, world := w',
            trace := trace s1 @ [CallConnect, CallDisconnect]\<rparr>))"
proof (intro conjI impI)
  let ?P = "prepare_guarded E"
  let ?s1 = "s1\<lparr>world := w, trace := trace s1 @ [CallConnect]\<rparr>"
  from assms(1) have cc: "connect_check_in E ?P s = (Ret False, s1)"
    by (simp add: connect_check_def)
  have eq: "connect E s =
           (case reset E ?s1 of
              (Ret r, s2) \<Rightarrow> (Raise e, s2)
            | (Raise e', s2) \<Rightarrow> (Raise e', s2))"
    unfolding connect_def reset_def by (rule connect_in_hook_raises [OF cc assms(2)])
  {
    assume h: "hooks_return E"
    have "prepared ?s1 \<longrightarrow> tunnel_ok ?s1"
      using connect_check_in_tunnel_ok [OF cc] by (simp add: tunnel_ok_def)
    from reset_in_total [OF h this, of ?P] obtain s2 where
      r: "reset_in E ?P ?s1 = (Ret RSelf, s2)" by blast
    then have r': "reset E ?s1 = (Ret RSelf, s2)" by (simp add: reset_def)
    note c = reset_in_clean [OF r]
    from r' show "fst (reset E ?s1) = Ret RSelf" by simp
    from eq r' show ce: "connect E s = (Raise e, snd (reset E ?s1))" by simp
    from ce r' c show "\<not> prepared (snd (connect E s))" by simp
    from ce r' c show "cached_auth (snd (connect E s)) = Map.empty" by simp
    from ce r' c show "prepreparation_values (snd (connect E s)) = []" by simp
    from ce r' c show "\<forall>kv \<in> set (prepreparation_values s1).
          last_entry (prepreparation_values s1) kv \<and> storable (slot_of (fst kv)) (snd kv) \<longrightarrow>
            stored (slot_of (fst kv)) (snd (connect E s)) = (Ret (snd kv), snd (connect E s))"
      by simp
  }
  {
    assume a: "prepared s1 \<and>
      disconnect_hook E (inst.truncate (s1\<lparr>disconnecting := True\<rparr>)) w = (Some e', w')"
    then have p: "prepared ?s1" by simp
    have "inst.truncate (?s1\<lparr>disconnecting := True\<rparr>) = inst.truncate (s1\<lparr>disconnecting := True\<rparr>)"
      by (simp add: inst.truncate_def)
    with a have k: "disconnect_hook E (inst.truncate (?s1\<lparr>disconnecting := True\<rparr>)) (world ?s1)
        = (Some e', w')" by simp
    from reset_in_disconnect_fails [OF p k, of ?P]
    have "reset E ?s1 = (Raise e', s1\<lparr>disconnecting := False, world := w',
            trace := trace s1 @ [CallConnect, CallDisconnect]\<rparr>)"
      by (simp add: reset_def)
    with eq show "connect E s =
         (Raise e', s1\<lparr>disconnecting := False, world := w',
            trace := trace s1 @ [CallConnect, CallDisconnect]\<rparr>)" by simp
  }
qed

theorem C1_connect_failure_resets_witness:
  "connect refusing balanced_client =
     (Raise (OtherError ''connection refused''),
      balanced_client\<lparr>trace :=
        [Info ''Connecting to db1.example:5432on gw.example.'', CallIsConnected, CallConnect,
         CallDisconnect, Info ''Freeing up local port 7000...'']\<rparr>) \<and>
   \<not> prepared balanced_client \<and> cached_auth balanced_client = Map.empty \<and>
   prepreparation_values balanced_client = [] \<and>
   u_host balanced_client = PList [PStr ''db1.example'', PStr ''db2.example''] \<and>
   fst (connect refusing_broken balanced_client) = Raise (OtherError ''broken pipe'')"
proof -
  let ?s1 = "balanced_client\<lparr>remote := PRemote 1, u_host := PStr ''db1.example'',
       u_username := PStr ''carol'', prepared := True,
       prepreparation_values :=
         [(''remote'', PStr ''gateway''), (''_username'', PFun 3),
          (''_host'', PList [PStr ''db1.example'', PStr ''db2.example''])],
       world := (world balanced_client)\<lparr>forwards := [''db1.example:5432'']\<rparr>,
       trace := [Info ''Connecting to db1.example:5432on gw.example.'', CallIsConnected]\<rparr>"
  let ?s2 = "balanced_client\<lparr>trace :=
        [Info ''Connecting to db1.example:5432on gw.example.'', CallIsConnected, CallConnect,
         CallDisconnect, Info ''Freeing up local port 7000...'']\<rparr>"
  let ?kvs = "[(''remote'', PStr ''gateway''), (''_username'', PFun 3),
          (''_host'', PList [PStr ''db1.example'', PStr ''db2.example''])]"
  have a: "connect_check refusing balanced_client = (Ret False, ?s1)"
    "connect_check refusing_broken balanced_client = (Ret False, ?s1)"
    by (simp_all add: balanced_client_def refusing_def refusing_broken_def run_defs)
  have b: "connect_hook refusing (inst.truncate ?s1) (world ?s1) =
      (Some (OtherError ''connection refused''), world ?s1)"
    "connect_hook refusing_broken (inst.truncate ?s1) (world ?s1) =
      (Some (OtherError ''connection refused''), world ?s1)"
    by (simp_all add: refusing_def refusing_broken_def sim_def)
  have h: "hooks_return refusing" by (simp add: hooks_return_def refusing_def sim_def)
  have c: "reset refusing (?s1\<lparr>world := world ?s1, trace := trace ?s1 @ [CallConnect]\<rparr>) =
      (Ret RSelf, ?s2)"
    by (simp add: balanced_client_def refusing_def run_defs)
  have d: "prepared ?s1 \<and>
      disconnect_hook refusing_broken (inst.truncate (?s1\<lparr>disconnecting := True\<rparr>)) (world ?s1) =
        (Some (OtherError ''broken pipe''), world ?s1)"
    by (simp add: refusing_broken_def sim_def)
  have kv: "(''_host'', PList [PStr ''db1.example'', PStr ''db2.example'']) \<in>
        set (prepreparation_values ?s1)"
    "last_entry (prepreparation_values ?s1)
        (''_host'', PList [PStr ''db1.example'', PStr ''db2.example''])"
    "storable (slot_of ''_host'') (PList [PStr ''db1.example'', PStr ''db2.example''])"
    by (simp_all add: slot_of_def storable_def)
  note th = C1_connect_failure_resets [OF a(1) b(1)]
  from th h c have 1: "connect refusing balanced_client =
      (Raise (OtherError ''connection refused''), ?s2)" by simp
  from th h have "\<not> prepared (snd (connect refusing balanced_client)) \<and>
      cached_auth (snd (connect refusing balanced_client)) = Map.empty \<and>
      prepreparation_values (snd (connect refusing balanced_client)) = []" by blast
  then have 2: "\<not> prepared balanced_client \<and> cached_auth balanced_client = Map.empty \<and>
      prepreparation_values balanced_client = []" unfolding 1 snd_conv by simp
  from th h have "\<forall>kv \<in> set (prepreparation_values ?s1).
          last_entry (prepreparation_values ?s1) kv \<and> storable (slot_of (fst kv)) (snd kv) \<longrightarrow>
            stored (slot_of (fst kv)) (snd (connect refusing balanced_client)) =
              (Ret (snd kv), snd (connect refusing balanced_client))" by blast
  with kv have "stored (slot_of ''_host'') ?s2 =
      (Ret (PList [PStr ''db1.example'', PStr ''db2.example'']), ?s2)"
    unfolding 1 snd_conv by force
  then have 3: "u_host balanced_client = PList [PStr ''db1.example'', PStr ''db2.example'']"
    by (simp add: slot_of_def stored_def)
  from C1_connect_failure_resets [OF a(2) b(2), of "OtherError ''broken pipe''" "world ?s1"] d
  have 4: "fst (connect refusing_broken balanced_client) = Raise (OtherError ''broken pipe'')"
    by simp
  from 1 2 3 4 show ?thesis by blast
qed

section \<open>Connecting twice\<close>

lemma connects_call_connect:
  "call_connect E s = (r, s') \<Longrightarrow> connects s' = Suc (connects s)"
  by (auto simp: call_connect_def connects_def calls_def split: prod.splits option.splits)

lemma connect_attempt_in_connects:
  assumes "no_connect P" and "connect_attempt_in E P s = (r, s')"
  shows "connects s' = Suc (connects s)"
proof -
  obtain r1 s1 where c: "call_connect E s = (r1, s1)" by (cases "call_connect E s")
  note c1 = connects_call_connect [OF c]
  show ?thesis
  proof (cases r1)
    case (Ret u)
    with assms(2) c c1 show ?thesis by (simp add: connect_attempt_in_def)
  next
    case (Raise e)
    with assms(2) c have "thn (reset_in E P) (throw e) s1 = (r, s')"
      by (simp add: connect_attempt_in_def)
    moreover have "no_connect (thn (reset_in E P) (throw e))"
      by (intro no_connect_thn no_connect_reset_in assms(1)) simp
    ultimately have "grown s1 s'" by (rule no_connectD [rotated])
    with c1 show ?thesis by (simp add: grown_connects)
  qed
qed

lemma connect_in_connects:
  assumes "no_connect P" and "connect_in E P s = (r, s')"
  shows "connects s' \<le> Suc (connects s)"
proof -
  obtain rc s1 where cc: "connect_check_in E P s = (rc, s1)" by (cases "connect_check_in E P s")
  from no_connectD [OF no_connect_connect_check_in [OF assms(1)] cc]
  have g1: "connects s1 = connects s" by (rule grown_connects)
  have nl: "no_connect (thn (log_endpoint E P ''Connected'') (ret RSelf))"
    by (intro no_connect_thn no_connect_log_endpoint assms(1)) simp
  show ?thesis
  proof (cases rc)
    case (Raise e)
    with assms(2) cc g1 show ?thesis by (simp add: connect_in_def bnd_def)
  next
    case (Ret c)
    show ?thesis
    proof (cases c)
      case True
      with assms(2) cc Ret have "thn (log_endpoint E P ''Connected'') (ret RSelf) s1 = (r, s')"
        by (simp add: connect_in_def monad_defs)
      from no_connectD [OF nl this] g1 show ?thesis by (simp add: grown_connects)
    next
      case False
      obtain ra s2 where ca: "connect_attempt_in E P s1 = (ra, s2)"
        by (cases "connect_attempt_in E P s1")
      note c2 = connect_attempt_in_connects [OF assms(1) ca]
      show ?thesis
      proof (cases ra)
        case (Raise e)
        with assms(2) cc Ret False ca c2 g1 show ?thesis
          by (simp add: connect_in_def monad_defs)
      next
        case (Ret u)
        with assms(2) cc \<open>rc = Ret c\<close> False ca
        have "thn (log_endpoint E P ''Connected'') (ret RSelf) s2 = (r, s')"
          by (simp add: connect_in_def monad_defs)
        from no_connectD [OF nl this] c2 g1 show ?thesis by (simp add: grown_connects)
      qed
    qed
  qed
qed

lemma connect_in_connected:
  assumes "no_connect P" and "connect_check_in E P s = (Ret True, s1)"
  shows "connect_in E P s = thn (log_endpoint E P ''Connected'') (ret RSelf) s1"
    and "connects (snd (connect_in E P s)) = connects s"
proof -
  from assms(2) show eq: "connect_in E P s = thn (log_endpoint E P ''Connected'') (ret RSelf) s1"
    by (simp add: connect_in_def monad_defs)
  from no_connectD [OF no_connect_connect_check_in [OF assms(1)] assms(2)]
  have g1: "connects s1 = connects s" by (rule grown_connects)
  have nl: "no_connect (thn (log_endpoint E P ''Connected'') (ret RSelf))"
    by (intro no_connect_thn no_connect_log_endpoint assms(1)) simp
  obtain r s' where l: "thn (log_endpoint E P ''Connected'') (ret RSelf) s1 = (r, s')"
    by (cases "thn (log_endpoint E P ''Connected'') (ret RSelf) s1")
  from no_connectD [OF nl l] have "connects s' = connects s1" by (rule grown_connects)
  with eq l g1 show "connects (snd (connect_in E P s)) = connects s" by simp
qed

text \<open>
  Claim C2, as stated: two consecutive calls of \<^verbatim>\<open>connect\<close> call \<^verbatim>\<open>_connect\<close> once at most.
  \<^verbatim>\<open>connect\<close> calls the hook whenever \<^verbatim>\<open>is_connected()\<close> answers \<^verbatim>\<open>False\<close>, which is its purpose
  when the connection has dropped: with a subclass whose \<^verbatim>\<open>_is_connected\<close> answers \<^verbatim>\<open>False\<close>
  both calls return, no \<^verbatim>\<open>disconnect\<close> comes between them, and \<^verbatim>\<open>_connect\<close> is called twice.
\<close>

theorem C2_connect_twice_counterexample:
  "fst (connect dropping direct_client) = Ret RSelf \<and>
   fst (connect dropping (snd (connect dropping direct_client))) = Ret RSelf \<and>
   calls (snd (connect dropping (snd (connect dropping direct_client)))) =
     [CallIsConnected, CallConnect, CallIsConnected, CallConnect] \<and>
   connects (snd (connect dropping (snd (connect dropping direct_client)))) = 2"
proof -
  have a: "connect dropping direct_client = (Ret RSelf, direct_connected)"
    by (simp add: direct_connected_eq direct_client_def dropping_def run_defs)
  have b: "connect dropping direct_connected =
     (Ret RSelf, direct_connected\<lparr>trace := trace direct_connected @
        [Info ''Connecting to db.example:5432.'', CallIsConnected, CallConnect,
         Info ''Connected to db.example:5432.'']\<rparr>)"
    by (simp add: direct_connected_eq direct_client_def dropping_def run_defs)
  have c: "calls (direct_connected\<lparr>trace := trace direct_connected @
        [Info ''Connecting to db.example:5432.'', CallIsConnected, CallConnect,
         Info ''Connected to db.example:5432.'']\<rparr>) =
       [CallIsConnected, CallConnect, CallIsConnected, CallConnect]"
    by (simp add: direct_connected_eq direct_client_def init_def calls_def)
  show ?thesis
    by (simp add: a b c connects_def)
qed

text \<open>
  Claim C2, amended: one call of \<^verbatim>\<open>connect\<close> calls \<^verbatim>\<open>_connect\<close> once at most, and a call whose
  check finds \<^verbatim>\<open>is_connected()\<close> true does not call it and returns the instance after the
  log record. So two consecutive calls call the hook once at most when the client reports
  connected at the second call.
\<close>

theorem C2_connect_twice:
  "connects (snd (connect E s)) \<le> connects s + 1 \<and>
   (connect_check E s = (Ret True, s1) \<longrightarrow>
      connect E s = thn (log_endpoint E (prepare_guarded E) ''Connected'') (ret RSelf) s1 \<and>
      connects (snd (connect E s)) = connects s) \<and>
   (connect_check E (snd (connect E s)) = (Ret True, s2) \<longrightarrow>
      connects (snd (connect E (snd (connect E s)))) \<le> connects s + 1)"
proof -
  let ?P = "prepare_guarded E"
  have np: "no_connect ?P" by (rule no_connect_prepare_guarded)
  have one: "\<And>t. connects (snd (connect E t)) \<le> connects t + 1"
  proof -
    fix t
    obtain r t' where c: "connect_in E ?P t = (r, t')" by (cases "connect_in E ?P t")
    from connect_in_connects [OF np c] c show "connects (snd (connect E t)) \<le> connects t + 1"
      by (simp add: connect_def)
  qed
  have same: "\<And>t t1. connect_check E t = (Ret True, t1) \<Longrightarrow>
      connect E t = thn (log_endpoint E ?P ''Connected'') (ret RSelf) t1 \<and>
      connects (snd (connect E t)) = connects t"
    using connect_in_connected [OF np] by (simp add: connect_def connect_check_def)
  have two: "connect_check E (snd (connect E s)) = (Ret True, s2) \<Longrightarrow>
      connects (snd (connect E (snd (connect E s)))) \<le> connects s + 1"
  proof -
    assume "connect_check E (snd (connect E s)) = (Ret True, s2)"
    from same [OF this] have "connects (snd (connect E (snd (connect E s)))) = connects (snd (connect E s))"
      by (rule conjunct2)
    with one [of s] show ?thesis by simp
  qed
  from one [of s] same [of s s1] two show ?thesis by blast
qed

theorem C2_connect_twice_witness:
  "connect (sim None None None) direct_client = (Ret RSelf, direct_connected) \<and>
   connect_check (sim None None None) direct_connected =
     (Ret True, direct_connected\<lparr>trace := trace direct_connected @
        [Info ''Connecting to db.example:5432.'', CallIsConnected]\<rparr>) \<and>
   connects direct_client = 0 \<and>
   connects (snd (connect (sim None None None) direct_connected)) = 1 \<and>
   connects (snd (connect (sim None None None) (snd (connect (sim None None None) direct_client))))
     \<le> connects direct_client + 1"
proof -
  let ?E = "sim None None None"
  let ?s1 = "direct_connected\<lparr>trace := trace direct_connected @
        [Info ''Connecting to db.example:5432.'', CallIsConnected]\<rparr>"
  have a: "connect ?E direct_client = (Ret RSelf, direct_connected)"
    by (simp add: direct_connected_eq direct_client_def run_defs)
  have b: "connect_check ?E direct_connected = (Ret True, ?s1)"
    by (simp add: direct_connected_eq direct_client_def run_defs)
  have b': "connect_check ?E (snd (connect ?E direct_client)) = (Ret True, ?s1)"
    by (simp only: a snd_conv b)
  have c: "connects direct_client = 0" "connects direct_connected = 1"
    by (simp_all add: direct_connected_eq direct_client_def init_def connects_def calls_def)
  from C2_connect_twice [of ?E direct_connected ?s1 ?s1] b
  have d: "connects (snd (connect ?E direct_connected)) = connects direct_connected" by blast
  from C2_connect_twice [of ?E direct_client direct_client ?s1] b'
  have e: "connects (snd (connect ?E (snd (connect ?E direct_client)))) \<le> connects direct_client + 1"
    by blast
  from a b c(1) d e show ?thesis by (simp only: c(2))
qed

section \<open>Properties of the registry\<close>

lemma map_of_register_key_other:
  "k \<noteq> key \<Longrightarrow> map_of (protocols (register_key cls key r)) k = map_of (protocols r) k"
  by (simp add: register_key_def update_conv' split: option.splits)

lemma map_of_register_key_kept:
  assumes "map_of (protocols r) k = Some old" and "cls_name cls \<noteq> cls_name old"
  shows "map_of (protocols (register_key cls key r)) k = Some old"
proof (cases "k = key")
  case True
  with assms show ?thesis by (simp add: register_key_def)
next
  case False
  with assms show ?thesis by (simp add: map_of_register_key_other)
qed

lemma map_of_register_keys_kept:
  "map_of (protocols r) k = Some old \<Longrightarrow> cls_name cls \<noteq> cls_name old \<Longrightarrow>
   map_of (protocols (register_keys cls keys r)) k = Some old"
  by (induction keys arbitrary: r) (simp_all add: map_of_register_key_kept)

lemma reg_log_register_key_mono:
  "m \<in> set (reg_log r) \<Longrightarrow> m \<in> set (reg_log (register_key cls key r))"
  by (simp add: register_key_def split: option.splits)

lemma reg_log_register_keys_mono:
  "m \<in> set (reg_log r) \<Longrightarrow> m \<in> set (reg_log (register_keys cls keys r))"
  by (induction keys arbitrary: r) (simp_all add: reg_log_register_key_mono)

lemma register_keys_logs:
  "map_of (protocols r) k = Some old \<Longrightarrow> cls_name cls \<noteq> cls_name old \<Longrightarrow> k \<in> set keys \<Longrightarrow>
   ignore_message cls k old \<in> set (reg_log (register_keys cls keys r))"
proof (induction keys arbitrary: r)
  case Nil
  then show ?case by simp
next
  case (Cons key keys)
  show ?case
  proof (cases "k = key")
    case True
    with Cons.prems have "ignore_message cls k old \<in> set (reg_log (register_key cls key r))"
      by (simp add: register_key_def)
    then show ?thesis by (simp add: reg_log_register_keys_mono)
  next
    case False
    with Cons.prems have "k \<in> set keys" by simp
    moreover from Cons.prems have "map_of (protocols (register_key cls key r)) k = Some old"
      by (simp add: map_of_register_key_kept)
    ultimately show ?thesis using Cons.IH Cons.prems(2) by simp
  qed
qed

text \<open>
  Claim C8, as the spec states it: registering one key for two distinct implementations
  keeps the first binding. The code compares the \<^verbatim>\<open>__name__\<close> of the two classes, not the
  classes: two distinct classes of the same name are not in conflict, and the second
  replaces the first.
\<close>

theorem C8_same_name_rebinds_counterexample:
  "presto_a \<noteq> presto_b \<and>
   map_of (protocols (meta_init presto_a empty_registry)) ''presto'' = Some presto_a \<and>
   map_of (protocols (meta_init presto_b (meta_init presto_a empty_registry))) ''presto''
     = Some presto_b \<and>
   reg_log (meta_init presto_b (meta_init presto_a empty_registry)) = []"
  by (simp add: presto_a_def presto_b_def meta_init_def empty_registry_def register_key_def)

text \<open>
  Claim C8, amended: when a key is bound to a class and a class of a \<^emph>\<open>different name\<close>
  registers the same key, the first binding stays and the ignored attempt is logged;
  resolving a key that no class has registered fails with \<^verbatim>\<open>DuctProtocolUnknown\<close>, and
  resolving a bound key returns the class bound to it.
\<close>

theorem C8_registry_keeps_first:
  "(map_of (protocols r) key = Some old \<and> cls_name cls \<noteq> cls_name old \<and>
      cls_PROTOCOLS cls = Some keys \<and> key \<in> set keys \<longrightarrow>
      map_of (protocols (meta_init cls r)) key = Some old \<and>
      for_protocol_meta (meta_init cls r) key = Inr old \<and>
      ignore_message cls key old \<in> set (reg_log (meta_init cls r))) \<and>
   (map_of (protocols r) key = None \<longrightarrow>
      for_protocol_meta r key = Inl (DuctProtocolUnknown
        (''Missing '' @ bq ''Duct'' @ '' implementation for protocol: '' @ sq key @ ''.'')))"
  by (simp add: meta_init_def for_protocol_meta_def map_of_register_keys_kept register_keys_logs)

theorem C8_registry_keeps_first_witness:
  "map_of (protocols (meta_init other_presto (meta_init presto_a empty_registry))) ''presto''
     = Some presto_a \<and>
   for_protocol_meta (meta_init other_presto (meta_init presto_a empty_registry)) ''presto''
     = Inr presto_a \<and>
   ignore_message other_presto ''presto'' presto_a
     \<in> set (reg_log (meta_init other_presto (meta_init presto_a empty_registry))) \<and>
   for_protocol_meta empty_registry ''hive'' = Inl (DuctProtocolUnknown
     (''Missing '' @ bq ''Duct'' @ '' implementation for protocol: '' @ sq ''hive'' @ ''.''))"
proof -
  have a: "map_of (protocols (meta_init presto_a empty_registry)) ''presto'' = Some presto_a"
    by (simp add: presto_a_def meta_init_def empty_registry_def register_key_def)
  have b: "cls_name other_presto \<noteq> cls_name presto_a"
    by (simp add: other_presto_def presto_a_def)
  have c: "cls_PROTOCOLS other_presto = Some [''presto'']"
    by (simp add: other_presto_def)
  have d: "map_of (protocols empty_registry) ''hive'' = None"
    by (simp add: empty_registry_def)
  show ?thesis
    using C8_registry_keeps_first [of "meta_init presto_a empty_registry" "''presto''"
        presto_a other_presto "[''presto'']"]
      C8_registry_keeps_first [of empty_registry "''hive''" presto_a presto_a "[]"] a b c d
    by simp
qed

end
